theory Spec2Isabelle
  imports Complex_Main "HOL-Library.Sublist"
begin

section \<open>Holdings ingestion and reconciliation (SelFi backend)\<close>

text \<open>
  A shallow embedding of the ingestion pipeline of the backend:
  \<^item> \<^verbatim>\<open>app/services/csv_parser.py\<close>: \<^verbatim>\<open>ZerodhaCSVParser\<close>, \<^verbatim>\<open>GenericCSVParser\<close>, \<^verbatim>\<open>ExcelParser\<close>;
  \<^item> \<^verbatim>\<open>app/services/pdf_parser.py\<close>: \<^verbatim>\<open>PDFParser\<close>;
  \<^item> \<^verbatim>\<open>app/api/v1/endpoints/uploads.py\<close>: the four upload handlers.

  Conventions of the model.
  \<^item> A Python \<^verbatim>\<open>str\<close> is a \<^typ>\<open>string\<close> of ASCII characters; \<^verbatim>\<open>upper\<close>, \<^verbatim>\<open>strip\<close>
    and case-insensitive matching are the ASCII ones.
  \<^item> A Python \<^verbatim>\<open>float\<close> is a \<open>pyfloat\<close>: a real number or NaN. Rounding and the
    infinities are outside the model; NaN is inside it because pandas reads a blank cell
    as NaN.
  \<^item> The builtins \<^verbatim>\<open>float(str)\<close> and \<^verbatim>\<open>str(float)\<close>, the regular-expression searches of the
    PDF parser and the price-lookup services are parameters of the functions that call them.
  \<^item> An exception is a value: a function that can raise returns a sum or an option, or
    the exception next to the state it was raised in.
  \<^item> The database session of a handler is a transaction over the holdings table and the
    import record, with the statements that can raise as parameters.
\<close>

subsection \<open>Strings\<close>

definition upper_char :: "char \<Rightarrow> char" where
  "upper_char c =
     (case map_of (zip ''abcdefghijklmnopqrstuvwxyz'' ''ABCDEFGHIJKLMNOPQRSTUVWXYZ'') c of
        None \<Rightarrow> c
      | Some u \<Rightarrow> u)"

text \<open>\<^verbatim>\<open>s.upper()\<close>\<close>

definition py_upper :: "string \<Rightarrow> string" where
  "py_upper s = map upper_char s"

text \<open>\<^verbatim>\<open>s.startswith(p)\<close>\<close>

fun startswith :: "string \<Rightarrow> string \<Rightarrow> bool" where
  "startswith s [] = True"
| "startswith [] (p # ps) = False"
| "startswith (c # cs) (p # ps) = (c = p \<and> startswith cs ps)"

text \<open>\<^verbatim>\<open>s.endswith(p)\<close>\<close>

definition endswith :: "string \<Rightarrow> string \<Rightarrow> bool" where
  "endswith s p = startswith (rev s) (rev p)"

text \<open>\<^verbatim>\<open>sub in s\<close>\<close>

fun contains :: "string \<Rightarrow> string \<Rightarrow> bool" where
  "contains [] sub = (sub = [])"
| "contains (c # cs) sub = (startswith (c # cs) sub \<or> contains cs sub)"

subsection \<open>Asset-type detection of the Zerodha CSV parser\<close>

text \<open>
  \<^verbatim>\<open>ZerodhaCSVParser.parse_holdings_csv\<close> starts from \<^verbatim>\<open>asset_type = 'stock'\<close> and
  overwrites it in four successive \<^verbatim>\<open>if\<close> statements: the ISIN test (new format only), the
  symbol test for ETFs, the SGB test and the REIT test. The model keeps the four
  assignments in the source's order.
\<close>

definition etf_isin_series :: "string list" where
  "etf_isin_series =
     [''01'', ''H1'', ''K1'', ''L1'', ''M1'', ''N1'', ''P1'', ''Q1'', ''R1'', ''S1'', ''T1'']"

definition etf_keywords :: "string list" where
  "etf_keywords =
     [''ETF'', ''NIFTY'', ''SENSEX'', ''GOLD'', ''SILVER'', ''LIQUID'', ''GILT'',
      ''CPSE'', ''PSU'', ''BANK'', ''IT'', ''PHARMA'', ''AUTO'', ''FMCG'', ''NEXT50'',
      ''MIDCAP'', ''SMALLCAP'', ''DIVIDEND'', ''VALUE'', ''MOMENTUM'', ''QUALITY'',
      ''LOWVOL'', ''ALPHA'', ''BHARAT'', ''MAFANG'', ''NASDAQ'', ''HANG'']"

definition known_etfs :: "string list" where
  "known_etfs =
     [''MAFSETFINAV'', ''NIFTYBEES'', ''BANKBEES'', ''GOLDBEES'', ''JUNIORBEES'',
      ''SETFNIF50'', ''SETFNIFTY'', ''SETFNN50'']"

text \<open>
  \<^verbatim>\<open>isin.startswith('INF') and len(isin) == 12 and isin[9:11] in [...]\<close>
\<close>

definition isin_is_etf :: "string \<Rightarrow> bool" where
  "isin_is_etf isin =
     (startswith isin ''INF'' \<and> length isin = 12 \<and> take 2 (drop 9 isin) \<in> set etf_isin_series)"

text \<open>The symbol test for ETFs (lines 136-138 and 193-195).\<close>

definition symbol_is_etf :: "string \<Rightarrow> bool" where
  "symbol_is_etf symbol =
     ((list_ex (\<lambda>keyword. contains (py_upper symbol) keyword) etf_keywords
         \<and> contains (py_upper symbol) ''ETF'')
      \<or> py_upper symbol \<in> set known_etfs
      \<or> endswith (py_upper symbol) ''BEES'')"

definition symbol_is_sgb :: "string \<Rightarrow> bool" where
  "symbol_is_sgb symbol =
     (contains (py_upper symbol) ''SGB'' \<or> startswith (py_upper symbol) ''SGB'')"

definition symbol_is_reit :: "string \<Rightarrow> bool" where
  "symbol_is_reit symbol =
     (contains (py_upper symbol) ''REIT'' \<or> endswith (py_upper symbol) ''-RR''
      \<or> endswith (py_upper symbol) ''-RT'')"

text \<open>
  New format (lines 111-147). \<open>isin\<close> is \<open>None\<close> when the file has no ISIN column or the
  cell is blank; \<^verbatim>\<open>if isin:\<close> is also false for the empty string.
\<close>

definition zerodha_asset_type :: "string \<Rightarrow> string option \<Rightarrow> string" where
  "zerodha_asset_type symbol isin =
     (let asset_type = ''stock'';
          asset_type =
            (case isin of
               None \<Rightarrow> asset_type
             | Some i \<Rightarrow> if i \<noteq> [] \<and> isin_is_etf i then ''etf'' else asset_type);
          asset_type = (if symbol_is_etf symbol then ''etf'' else asset_type);
          asset_type = (if symbol_is_sgb symbol then ''sgb'' else asset_type);
          asset_type = (if symbol_is_reit symbol then ''reit'' else asset_type)
      in asset_type)"

text \<open>Old format (lines 181-204): the same three symbol tests, no ISIN.\<close>

definition zerodha_old_asset_type :: "string \<Rightarrow> string" where
  "zerodha_old_asset_type symbol =
     (let asset_type = ''stock'';
          asset_type = (if symbol_is_etf symbol then ''etf'' else asset_type);
          asset_type = (if symbol_is_sgb symbol then ''sgb'' else asset_type);
          asset_type = (if symbol_is_reit symbol then ''reit'' else asset_type)
      in asset_type)"

subsection \<open>Asset-type detection of the generic CSV parser\<close>

text \<open>
  \<^verbatim>\<open>GenericCSVParser.parse_custom_holdings\<close>, lines 424-432: one \<^verbatim>\<open>if/elif/elif\<close>
  chain, tested on the cleaned symbol.
\<close>

definition generic_asset_type :: "string \<Rightarrow> string" where
  "generic_asset_type symbol =
     (let symbol_upper = py_upper symbol in
      if contains symbol_upper ''ETF'' \<or> endswith symbol_upper ''BEES''
           \<or> endswith symbol_upper ''NAV''
      then ''etf''
      else if contains symbol_upper ''GOLD'' \<and> contains symbol_upper ''SGB'' then ''sgb''
      else if contains symbol_upper ''REIT'' \<or> endswith symbol_upper ''-RR''
           \<or> endswith symbol_upper ''-RT''
      then ''reit''
      else ''stock'')"

subsection \<open>Floats\<close>

text \<open>
  A Python float: a real number or NaN. Arithmetic with NaN gives NaN and every comparison
  with NaN is false, as in IEEE 754. \<^verbatim>\<open>a / b\<close> raises \<^verbatim>\<open>ZeroDivisionError\<close> when
  \<^verbatim>\<open>b == 0\<close>, which is \<open>None\<close> here.
\<close>

datatype pyfloat = Fin real | NaN

fun py_mul :: "pyfloat \<Rightarrow> pyfloat \<Rightarrow> pyfloat" where
  "py_mul (Fin a) (Fin b) = Fin (a * b)"
| "py_mul _ _ = NaN"

fun py_sub :: "pyfloat \<Rightarrow> pyfloat \<Rightarrow> pyfloat" where
  "py_sub (Fin a) (Fin b) = Fin (a - b)"
| "py_sub _ _ = NaN"

fun py_div :: "pyfloat \<Rightarrow> pyfloat \<Rightarrow> pyfloat option" where
  "py_div (Fin a) (Fin b) = (if b = 0 then None else Some (Fin (a / b)))"
| "py_div NaN (Fin b) = (if b = 0 then None else Some NaN)"
| "py_div _ NaN = Some NaN"

fun py_eq :: "pyfloat \<Rightarrow> pyfloat \<Rightarrow> bool" where
  "py_eq (Fin a) (Fin b) = (a = b)"
| "py_eq _ _ = False"

fun py_lt :: "pyfloat \<Rightarrow> pyfloat \<Rightarrow> bool" where
  "py_lt (Fin a) (Fin b) = (a < b)"
| "py_lt _ _ = False"

text \<open>\<^verbatim>\<open>a > b\<close>\<close>

definition py_gt :: "pyfloat \<Rightarrow> pyfloat \<Rightarrow> bool" where
  "py_gt a b = py_lt b a"

subsection \<open>Parsed holdings and the holdings table\<close>

text \<open>
  The dictionary a parser emits for one holding. The keys \<^verbatim>\<open>isin\<close> and \<^verbatim>\<open>scheme_code\<close>
  are absent from some parsers' dictionaries and \<^verbatim>\<open>None\<close> in others; the handlers read them
  with \<^verbatim>\<open>.get\<close> or test \<^verbatim>\<open>'isin' in holding_data and holding_data['isin']\<close>, so both
  cases are \<open>None\<close> here.
\<close>

record parsed_holding =
  h_symbol :: string
  h_exchange :: string
  h_asset_type :: string
  h_quantity :: pyfloat
  h_average_price :: pyfloat
  h_current_price :: pyfloat
  h_current_value :: pyfloat
  h_pnl :: pyfloat
  h_pnl_percentage :: pyfloat
  h_isin :: "string option"
  h_scheme_code :: "string option"

text \<open>\<^verbatim>\<open>models.AssetType\<close>\<close>

datatype AssetType = STOCK | MUTUAL_FUND | SGB | ETF | REIT

text \<open>
  \<^verbatim>\<open>models.Holding\<close>, a row of the holdings table, without its primary key,
  \<^verbatim>\<open>portfolio_id\<close> and \<^verbatim>\<open>last_updated\<close>. The table is the list of its rows in the order
  the database returns them; \<^verbatim>\<open>db.add\<close> appends.
\<close>

record holding =
  platform_account_id :: nat
  symbol :: string
  exchange :: string
  asset_type :: AssetType
  quantity :: pyfloat
  average_price :: pyfloat
  current_price :: pyfloat
  current_value :: pyfloat
  pnl :: pyfloat
  pnl_percentage :: pyfloat
  scheme_code :: "string option"
  isin :: "string option"

datatype upload_path = Zerodha | Generic | Excel | Pdf

text \<open>
  The \<^verbatim>\<open>asset_type_map\<close> dictionary of each handler; the one of
  \<^verbatim>\<open>upload_excel_holdings\<close> has no \<^verbatim>\<open>'REIT'\<close> entry.
\<close>

definition asset_type_map :: "upload_path \<Rightarrow> (string \<times> AssetType) list" where
  "asset_type_map path =
     [(''STOCK'', STOCK), (''ETF'', ETF), (''MUTUAL_FUND'', MUTUAL_FUND), (''SGB'', SGB)]
     @ (if path = Excel then [] else [(''REIT'', REIT)])"

text \<open>
  \<^verbatim>\<open>asset_type_map.get(holding_data.get('asset_type', 'stock').upper(), models.AssetType.STOCK)\<close>
\<close>

definition asset_type_of :: "upload_path \<Rightarrow> parsed_holding \<Rightarrow> AssetType" where
  "asset_type_of path holding_data =
     (case map_of (asset_type_map path) (py_upper (h_asset_type holding_data)) of
        None \<Rightarrow> STOCK
      | Some a \<Rightarrow> a)"

text \<open>
  The filter of the query for an existing holding:
  \<^verbatim>\<open>platform_account_id == platform_account_id, symbol == holding_data['symbol'],
  asset_type == asset_type\<close>.
\<close>

definition matches :: "nat \<Rightarrow> string \<Rightarrow> AssetType \<Rightarrow> holding \<Rightarrow> bool" where
  "matches acct s atype e =
     (platform_account_id e = acct \<and> symbol e = s \<and> asset_type e = atype)"

text \<open>\<^verbatim>\<open>.first()\<close>: the first row that passes the filter, or \<open>None\<close>.\<close>

fun first :: "('a \<Rightarrow> bool) \<Rightarrow> 'a list \<Rightarrow> 'a option" where
  "first P [] = None"
| "first P (x # xs) = (if P x then Some x else first P xs)"

text \<open>
  Assigning to the attributes of the object \<^verbatim>\<open>.first()\<close> returned changes that row of
  the table: the first row that passes the filter.
\<close>

fun update_first :: "('a \<Rightarrow> bool) \<Rightarrow> ('a \<Rightarrow> 'a) \<Rightarrow> 'a list \<Rightarrow> 'a list" where
  "update_first P f [] = []"
| "update_first P f (x # xs) = (if P x then f x # xs else x # update_first P f xs)"

text \<open>An entry of \<^verbatim>\<open>duplicate_holdings\<close> (Zerodha handler).\<close>

record duplicate =
  d_symbol :: string
  old_quantity :: pyfloat
  new_quantity :: pyfloat
  old_avg_price :: pyfloat
  new_avg_price :: pyfloat

text \<open>The table as the session sees it, and the counters of one import call.\<close>

record import_state =
  holdings :: "holding list"
  imported_count :: nat
  updated_count :: nat
  skipped_count :: nat
  duplicate_holdings :: "duplicate list"

text \<open>
  \<^verbatim>\<open>models.Holding(platform_account_id=..., symbol=..., ..., isin=holding_data.get('isin'))\<close>;
  only the Excel handler passes \<^verbatim>\<open>scheme_code\<close>.
\<close>

definition new_holding :: "upload_path \<Rightarrow> nat \<Rightarrow> parsed_holding \<Rightarrow> holding" where
  "new_holding path acct holding_data =
     \<lparr>platform_account_id = acct,
      symbol = h_symbol holding_data,
      exchange = h_exchange holding_data,
      asset_type = asset_type_of path holding_data,
      quantity = h_quantity holding_data,
      average_price = h_average_price holding_data,
      current_price = h_current_price holding_data,
      current_value = h_current_value holding_data,
      pnl = h_pnl holding_data,
      pnl_percentage = h_pnl_percentage holding_data,
      scheme_code = (if path = Excel then h_scheme_code holding_data else None),
      isin = h_isin holding_data\<rparr>"

text \<open>The six assignments every handler makes when it updates an existing holding.\<close>

definition overwrite_values :: "parsed_holding \<Rightarrow> holding \<Rightarrow> holding" where
  "overwrite_values holding_data existing_holding =
     existing_holding
       \<lparr>quantity := h_quantity holding_data,
        average_price := h_average_price holding_data,
        current_price := h_current_price holding_data,
        current_value := h_current_value holding_data,
        pnl := h_pnl holding_data,
        pnl_percentage := h_pnl_percentage holding_data\<rparr>"

text \<open>\<^verbatim>\<open>'k' in holding_data and holding_data['k']\<close>: present, not \<^verbatim>\<open>None\<close>, not empty.\<close>

definition truthy :: "string option \<Rightarrow> bool" where
  "truthy v = (case v of None \<Rightarrow> False | Some s \<Rightarrow> s \<noteq> [])"

text \<open>
  \<^verbatim>\<open>existing_holding.quantity == holding_data['quantity'] and
  existing_holding.average_price == holding_data['average_price']\<close>
\<close>

definition unchanged :: "holding \<Rightarrow> parsed_holding \<Rightarrow> bool" where
  "unchanged existing_holding holding_data =
     (py_eq (quantity existing_holding) (h_quantity holding_data)
      \<and> py_eq (average_price existing_holding) (h_average_price holding_data))"

subsection \<open>The body of the persistence loop, per handler\<close>

text \<open>
  \<^verbatim>\<open>upload_zerodha_holdings\<close>, lines 83-139. An existing holding is always overwritten and
  logged in \<^verbatim>\<open>duplicate_holdings\<close>; \<^verbatim>\<open>imported_count += 1\<close> stands after the
  \<^verbatim>\<open>if/else\<close> and runs for every holding.
\<close>

definition zerodha_process :: "nat \<Rightarrow> parsed_holding \<Rightarrow> import_state \<Rightarrow> import_state" where
  "zerodha_process acct holding_data st =
     (let atype = asset_type_of Zerodha holding_data;
          flt = matches acct (h_symbol holding_data) atype in
      case first flt (holdings st) of
        Some existing_holding \<Rightarrow>
          st\<lparr>duplicate_holdings := duplicate_holdings st @
                [\<lparr>d_symbol = h_symbol holding_data,
                  old_quantity = quantity existing_holding,
                  new_quantity = h_quantity holding_data,
                  old_avg_price = average_price existing_holding,
                  new_avg_price = h_average_price holding_data\<rparr>],
             holdings := update_first flt
                (\<lambda>e. let e = overwrite_values holding_data e in
                      if truthy (h_isin holding_data) then e\<lparr>isin := h_isin holding_data\<rparr> else e)
                (holdings st),
             updated_count := updated_count st + 1,
             imported_count := imported_count st + 1\<rparr>
      | None \<Rightarrow>
          st\<lparr>holdings := holdings st @ [new_holding Zerodha acct holding_data],
             imported_count := imported_count st + 1\<rparr>)"

text \<open>\<^verbatim>\<open>upload_generic_holdings\<close>, lines 308-360.\<close>

definition generic_process :: "nat \<Rightarrow> parsed_holding \<Rightarrow> import_state \<Rightarrow> import_state" where
  "generic_process acct holding_data st =
     (let atype = asset_type_of Generic holding_data;
          flt = matches acct (h_symbol holding_data) atype in
      case first flt (holdings st) of
        Some existing_holding \<Rightarrow>
          if unchanged existing_holding holding_data
          then st\<lparr>skipped_count := skipped_count st + 1\<rparr>
          else st\<lparr>holdings := update_first flt (overwrite_values holding_data) (holdings st),
                  updated_count := updated_count st + 1\<rparr>
      | None \<Rightarrow>
          st\<lparr>holdings := holdings st @ [new_holding Generic acct holding_data],
             imported_count := imported_count st + 1\<rparr>)"

text \<open>\<^verbatim>\<open>upload_excel_holdings\<close>, lines 499-549.\<close>

definition excel_process :: "nat \<Rightarrow> parsed_holding \<Rightarrow> import_state \<Rightarrow> import_state" where
  "excel_process acct holding_data st =
     (let atype = asset_type_of Excel holding_data;
          flt = matches acct (h_symbol holding_data) atype in
      case first flt (holdings st) of
        Some existing_holding \<Rightarrow>
          if unchanged existing_holding holding_data
          then st\<lparr>skipped_count := skipped_count st + 1\<rparr>
          else st\<lparr>holdings := update_first flt
                    (\<lambda>e. let e = overwrite_values holding_data e in
                          if truthy (h_scheme_code holding_data)
                          then e\<lparr>scheme_code := h_scheme_code holding_data\<rparr> else e)
                    (holdings st),
                  updated_count := updated_count st + 1\<rparr>
      | None \<Rightarrow>
          st\<lparr>holdings := holdings st @ [new_holding Excel acct holding_data],
             imported_count := imported_count st + 1\<rparr>)"

text \<open>\<^verbatim>\<open>upload_pdf_holdings\<close>, lines 709-762.\<close>

definition pdf_process :: "nat \<Rightarrow> parsed_holding \<Rightarrow> import_state \<Rightarrow> import_state" where
  "pdf_process acct holding_data st =
     (let atype = asset_type_of Pdf holding_data;
          flt = matches acct (h_symbol holding_data) atype in
      case first flt (holdings st) of
        Some existing_holding \<Rightarrow>
          if unchanged existing_holding holding_data
          then st\<lparr>skipped_count := skipped_count st + 1\<rparr>
          else st\<lparr>holdings := update_first flt
                    (\<lambda>e. let e = overwrite_values holding_data e in
                          if truthy (h_isin holding_data) then e\<lparr>isin := h_isin holding_data\<rparr> else e)
                    (holdings st),
                  updated_count := updated_count st + 1\<rparr>
      | None \<Rightarrow>
          st\<lparr>holdings := holdings st @ [new_holding Pdf acct holding_data],
             imported_count := imported_count st + 1\<rparr>)"

fun process_holding ::
  "upload_path \<Rightarrow> nat \<Rightarrow> parsed_holding \<Rightarrow> import_state \<Rightarrow> import_state" where
  "process_holding Zerodha = zerodha_process"
| "process_holding Generic = generic_process"
| "process_holding Excel = excel_process"
| "process_holding Pdf = pdf_process"

text \<open>\<^verbatim>\<open>for holding_data in holdings_data: ...\<close>, when no statement of the loop raises.\<close>

fun reconcile ::
  "upload_path \<Rightarrow> nat \<Rightarrow> parsed_holding list \<Rightarrow> import_state \<Rightarrow> import_state" where
  "reconcile path acct [] st = st"
| "reconcile path acct (holding_data # holdings_data) st =
     reconcile path acct holdings_data (process_holding path acct holding_data st)"

text \<open>The counters at the start of an import call.\<close>

definition start :: "holding list \<Rightarrow> import_state" where
  "start table =
     \<lparr>holdings = table, imported_count = 0, updated_count = 0, skipped_count = 0,
      duplicate_holdings = []\<rparr>"

text \<open>
  \<^verbatim>\<open>upload_excel_holdings\<close> runs the loop once per sheet, with counters per sheet that
  it adds to the totals (lines 484-553). The state passed along holds the totals.
\<close>

fun reconcile_sheets :: "nat \<Rightarrow> parsed_holding list list \<Rightarrow> import_state \<Rightarrow> import_state" where
  "reconcile_sheets acct [] st = st"
| "reconcile_sheets acct (holdings_data # sheets) st =
     (let s = reconcile Excel acct holdings_data
                (st\<lparr>imported_count := 0, updated_count := 0, skipped_count := 0\<rparr>)
      in reconcile_sheets acct sheets
           (s\<lparr>imported_count := imported_count st + imported_count s,
              updated_count := updated_count st + updated_count s,
              skipped_count := skipped_count st + skipped_count s\<rparr>))"

subsection \<open>Price enrichment\<close>

text \<open>
  What a call of a lookup service does: it raises, it returns \<^verbatim>\<open>None\<close> (or an empty
  result), or it returns a value. \<open>get_stock_info\<close> gives the \<^verbatim>\<open>current_price\<close> entry of
  the dictionary \<^verbatim>\<open>StockDataService.get_stock_info(symbol, exchange_suffix)\<close> returns,
  \<open>get_mutual_fund_info\<close> the \<^verbatim>\<open>nav\<close> entry of
  \<^verbatim>\<open>MutualFundService.get_mutual_fund_info(scheme_code)\<close>, \<open>search_mutual_fund\<close> the
  \<^verbatim>\<open>schemeCode\<close> entries of \<^verbatim>\<open>MutualFundService.search_mutual_fund(symbol)\<close>.
\<close>

datatype 'a reply = Raises | NoResult | Result 'a

record services =
  get_stock_info :: "string \<Rightarrow> string \<Rightarrow> pyfloat reply"
  get_mutual_fund_info :: "string \<Rightarrow> pyfloat reply"
  search_mutual_fund :: "string \<Rightarrow> string list reply"

text \<open>The calls a pass makes, in order.\<close>

datatype lookup = StockInfo string string | FundInfo string | FundSearch string

text \<open>
  \<^verbatim>\<open>exchange_suffix = "NS"; if holding.exchange: if holding.exchange.upper() == "NSE": ...
  elif holding.exchange.upper() == "BSE": exchange_suffix = "BO"\<close>
\<close>

definition exchange_suffix :: "string \<Rightarrow> string" where
  "exchange_suffix ex =
     (if ex \<noteq> [] then
        (if py_upper ex = ''NSE'' then ''NS'' else if py_upper ex = ''BSE'' then ''BO'' else ''NS'')
      else ''NS'')"

text \<open>
  The assignments after a successful lookup of the price \<open>p\<close>:
  \<^verbatim>\<open>holding.current_price = p; holding.current_value = holding.quantity * p;
  holding.pnl = holding.current_value - (holding.quantity * holding.average_price);
  holding.pnl_percentage = (holding.pnl / (holding.quantity * holding.average_price)) * 100\<close>.
  The division raises when \<^verbatim>\<open>quantity * average_price\<close> is zero; the three assignments
  before it have been made then. The flag says whether the sequence ran to its end.
\<close>

definition apply_price :: "pyfloat \<Rightarrow> holding \<Rightarrow> holding \<times> bool" where
  "apply_price p h =
     (let h = h\<lparr>current_price := p\<rparr>;
          h = h\<lparr>current_value := py_mul (quantity h) p\<rparr>;
          h = h\<lparr>pnl := py_sub (current_value h) (py_mul (quantity h) (average_price h))\<rparr>
      in case py_div (pnl h) (py_mul (quantity h) (average_price h)) of
           None \<Rightarrow> (h, False)
         | Some r \<Rightarrow> (h\<lparr>pnl_percentage := py_mul r (Fin 100)\<rparr>, True))"

text \<open>
  The branch for stocks and ETFs, the same in the four handlers.
  \<^verbatim>\<open>if info and info.get("current_price")\<close> is false for a price of zero.
  The result is the holding, whether \<^verbatim>\<open>price_update_count\<close> was incremented, and the
  calls made.
\<close>

definition enrich_stock :: "services \<Rightarrow> holding \<Rightarrow> holding \<times> bool \<times> lookup list" where
  "enrich_stock S h =
     (let sfx = exchange_suffix (exchange h); calls = [StockInfo (symbol h) sfx] in
      case get_stock_info S (symbol h) sfx of
        Result p \<Rightarrow>
          if p \<noteq> Fin 0 then (let (h', ok) = apply_price p h in (h', ok, calls))
          else (h, False, calls)
      | _ \<Rightarrow> (h, False, calls))"

text \<open>
  The branch for mutual funds of \<^verbatim>\<open>upload_zerodha_holdings\<close> and
  \<^verbatim>\<open>upload_excel_holdings\<close>, entered when \<^verbatim>\<open>holding.scheme_code\<close> is set.
\<close>

definition enrich_fund_by_code :: "services \<Rightarrow> string \<Rightarrow> holding \<Rightarrow> holding \<times> bool \<times> lookup list" where
  "enrich_fund_by_code S code h =
     (case get_mutual_fund_info S code of
        Result nav \<Rightarrow> (let (h', ok) = apply_price nav h in (h', ok, [FundInfo code]))
      | _ \<Rightarrow> (h, False, [FundInfo code]))"

text \<open>
  The branch for mutual funds of \<^verbatim>\<open>upload_pdf_holdings\<close>: a search by name, then the
  first hit's scheme code, which is stored after the four assignments.
\<close>

definition enrich_fund_by_search :: "services \<Rightarrow> holding \<Rightarrow> holding \<times> bool \<times> lookup list" where
  "enrich_fund_by_search S h =
     (case search_mutual_fund S (symbol h) of
        Result (code # _) \<Rightarrow>
          (case get_mutual_fund_info S code of
             Result nav \<Rightarrow>
               (let (h', ok) = apply_price nav h in
                (if ok then h'\<lparr>scheme_code := Some code\<rparr> else h', ok,
                 [FundSearch (symbol h), FundInfo code]))
           | _ \<Rightarrow> (h, False, [FundSearch (symbol h), FundInfo code]))
      | _ \<Rightarrow> (h, False, [FundSearch (symbol h)]))"

text \<open>The body of the \<^verbatim>\<open>try\<close> inside the enrichment loop of each handler.\<close>

definition enrich_holding ::
  "upload_path \<Rightarrow> services \<Rightarrow> holding \<Rightarrow> holding \<times> bool \<times> lookup list" where
  "enrich_holding path S h =
     (if asset_type h = STOCK \<or> asset_type h = ETF then enrich_stock S h
      else case path of
        Generic \<Rightarrow> (h, False, [])
      | Pdf \<Rightarrow> if asset_type h = MUTUAL_FUND then enrich_fund_by_search S h else (h, False, [])
      | _ \<Rightarrow>
          (case scheme_code h of
             Some code \<Rightarrow>
               if asset_type h = MUTUAL_FUND \<and> code \<noteq> [] then enrich_fund_by_code S code h
               else (h, False, [])
           | None \<Rightarrow> (h, False, [])))"

text \<open>
  The rows the query of the pass selects:
  \<^verbatim>\<open>platform_account_id == platform_account_id, current_price == 0\<close>.
\<close>

definition needs_price :: "nat \<Rightarrow> holding \<Rightarrow> bool" where
  "needs_price acct h = (platform_account_id h = acct \<and> py_eq (current_price h) (Fin 0))"

text \<open>
  The pass over the table: the new table, \<^verbatim>\<open>price_update_count\<close> and the calls made.
  Every exception inside the loop body is caught there, so the loop goes on to the next row.
\<close>

fun enrich_prices ::
  "upload_path \<Rightarrow> services \<Rightarrow> nat \<Rightarrow> holding list \<Rightarrow> holding list \<times> nat \<times> lookup list" where
  "enrich_prices path S acct [] = ([], 0, [])"
| "enrich_prices path S acct (h # hs) =
     (let (h', ok, calls) = (if needs_price acct h then enrich_holding path S h else (h, False, []));
          (hs', n, calls') = enrich_prices path S acct hs
      in (h' # hs', (if ok then 1 else 0) + n, calls @ calls'))"

subsection \<open>The upload handlers\<close>

text \<open>
  The state of the database: the holdings table and the import record of the call.
\<close>

record database =
  table :: "holding list"
  import_status :: string
  error_message :: "string option"
  records_imported :: nat

text \<open>
  Modelled from the spec: the holdings repository behind the handlers' \<^verbatim>\<open>db\<close>
  (\<^verbatim>\<open>app/db/database.py\<close>, which creates the session, is not among the sources), with
  \<^verbatim>\<open>find\<close>, \<^verbatim>\<open>insert\<close> and \<^verbatim>\<open>update\<close> scoped transactionally. A session holds what the
  database has committed and what the session itself sees: the committed state with the
  changes made since the last commit. A query of the session sees these changes;
  \<^verbatim>\<open>db.commit()\<close> makes them the committed state and \<^verbatim>\<open>db.rollback()\<close> discards them.
\<close>

record session =
  committed :: database
  pending :: database

text \<open>The five \<^verbatim>\<open>db.commit()\<close> statements of a handler, in the order of the source.\<close>

datatype commit = RecordCommit | BatchCommit | EnrichCommit | SuccessCommit | FailedCommit

text \<open>
  Every statement that reaches the database can raise. Each field gives \<^verbatim>\<open>str(e)\<close> when
  the statement raises: the query for an existing holding in the loop, the query of the
  enrichment pass, and each commit. \<open>integrity_error\<close> is the text of the exception for a
  violated constraint.
\<close>

record faults =
  query_error :: "holding list \<Rightarrow> parsed_holding \<Rightarrow> string option"
  select_error :: "holding list \<Rightarrow> string option"
  commit_error :: "commit \<Rightarrow> database \<Rightarrow> string option"
  integrity_error :: "holding list \<Rightarrow> string"

text \<open>
  \<^verbatim>\<open>models.Holding\<close> declares \<^verbatim>\<open>quantity\<close> and \<^verbatim>\<open>average_price\<close> as
  \<^verbatim>\<open>Column(Float, nullable=False)\<close>, and the database of \<^verbatim>\<open>core/config.py\<close> is SQLite,
  whose driver stores a NaN as NULL: writing a row with a NaN in one of the two columns
  raises. The rows the loop has inserted or changed are written when the session is
  flushed, before each query of the loop and at the commit after it. The rows that were
  read from the database hold no NaN in these columns, so the test over all rows is the
  test over the rows to write.
\<close>

definition not_null_violation :: "holding list \<Rightarrow> bool" where
  "not_null_violation tbl = list_ex (\<lambda>h. quantity h = NaN \<or> average_price h = NaN) tbl"

definition flush_error :: "faults \<Rightarrow> holding list \<Rightarrow> string option" where
  "flush_error F tbl = (if not_null_violation tbl then Some (integrity_error F tbl) else None)"

text \<open>\<^verbatim>\<open>db.commit()\<close>: \<open>Inl\<close> is the exception; the session is as it was then.\<close>

definition db_commit :: "faults \<Rightarrow> commit \<Rightarrow> session \<Rightarrow> string + session" where
  "db_commit F c s =
     (case commit_error F c (pending s) of
        Some e \<Rightarrow> Inl e
      | None \<Rightarrow> Inr (s\<lparr>committed := pending s\<rparr>))"

text \<open>\<^verbatim>\<open>db.rollback()\<close>\<close>

definition db_rollback :: "session \<Rightarrow> session" where
  "db_rollback s = s\<lparr>pending := committed s\<rparr>"

text \<open>
  The persistence loop on the session's view of the table. The result is the state the
  loop reached and the exception that ended it, if any.
\<close>

fun persist ::
  "faults \<Rightarrow> upload_path \<Rightarrow> nat \<Rightarrow> parsed_holding list \<Rightarrow> import_state
     \<Rightarrow> import_state \<times> string option" where
  "persist F path acct [] st = (st, None)"
| "persist F path acct (holding_data # holdings_data) st =
     (case flush_error F (holdings st) of
        Some e \<Rightarrow> (st, Some e)
      | None \<Rightarrow>
          (case query_error F (holdings st) holding_data of
             Some e \<Rightarrow> (st, Some e)
           | None \<Rightarrow> persist F path acct holdings_data (process_holding path acct holding_data st)))"

text \<open>
  The persistence phase: the loop and the \<^verbatim>\<open>db.commit()\<close> after it. The result is the
  session, with the writes of the loop in its view, and the exception raised (\<open>Inl\<close>) or
  the counters.
\<close>

definition persistence_phase ::
  "faults \<Rightarrow> upload_path \<Rightarrow> nat \<Rightarrow> parsed_holding list \<Rightarrow> session
     \<Rightarrow> session \<times> (string + import_state)" where
  "persistence_phase F path acct holdings_data s =
     (let (st, raised) = persist F path acct holdings_data (start (table (pending s)));
          s = s\<lparr>pending := (pending s)\<lparr>table := holdings st\<rparr>\<rparr>
      in case raised of
           Some e \<Rightarrow> (s, Inl e)
         | None \<Rightarrow>
             (case flush_error F (holdings st) of
                Some e \<Rightarrow> (s, Inl e)
              | None \<Rightarrow>
                  (case db_commit F BatchCommit s of
                     Inl e \<Rightarrow> (s, Inl e)
                   | Inr s' \<Rightarrow> (s', Inr st))))"

text \<open>
  The enrichment phase: the query for the rows without a price, the pass over them and the
  \<^verbatim>\<open>db.commit()\<close> after it. The result holds \<^verbatim>\<open>price_update_count\<close>.
\<close>

definition enrichment_phase ::
  "faults \<Rightarrow> services \<Rightarrow> upload_path \<Rightarrow> nat \<Rightarrow> session \<Rightarrow> session \<times> (string + nat)" where
  "enrichment_phase F S path acct s =
     (case select_error F (table (pending s)) of
        Some e \<Rightarrow> (s, Inl e)
      | None \<Rightarrow>
          (let (tbl, n, calls) = enrich_prices path S acct (table (pending s));
               s = s\<lparr>pending := (pending s)\<lparr>table := tbl\<rparr>\<rparr>
           in case db_commit F EnrichCommit s of
                Inl e \<Rightarrow> (s, Inl e)
              | Inr s' \<Rightarrow> (s', Inr n)))"

text \<open>
  The counters of the response. The Zerodha handler counts no skipped holdings and its
  response has no such entry; the counter is 0 there.
\<close>

record response =
  r_imported_count :: nat
  r_updated_count :: nat
  r_skipped_count :: nat
  r_prices_updated :: nat

text \<open>
  The \<^verbatim>\<open>try\<close> block of a handler: the two phases, then the import record is marked
  \<^verbatim>\<open>success\<close> and committed. For the Excel handler \<open>holdings_data\<close> is the concatenation
  of the sheets' lists, in the order of the sheets (\<open>reconcile_sheets_concat\<close> below: the
  loop over the sheets gives the same table and the same totals).
\<close>

definition try_block ::
  "faults \<Rightarrow> services \<Rightarrow> upload_path \<Rightarrow> nat \<Rightarrow> parsed_holding list \<Rightarrow> session
     \<Rightarrow> session \<times> (string + response)" where
  "try_block F S path acct holdings_data s =
     (case persistence_phase F path acct holdings_data s of
        (s, Inl e) \<Rightarrow> (s, Inl e)
      | (s, Inr st) \<Rightarrow>
          (case enrichment_phase F S path acct s of
             (s, Inl e) \<Rightarrow> (s, Inl e)
           | (s, Inr n) \<Rightarrow>
               (let s = s\<lparr>pending := (pending s)\<lparr>import_status := ''success'',
                            records_imported := imported_count st\<rparr>\<rparr>
                in case db_commit F SuccessCommit s of
                     Inl e \<Rightarrow> (s, Inl e)
                   | Inr s' \<Rightarrow>
                       (s', Inr \<lparr>r_imported_count = imported_count st,
                                 r_updated_count = updated_count st,
                                 r_skipped_count = skipped_count st,
                                 r_prices_updated = n\<rparr>))))"

text \<open>
  How a call of a handler ends: with its response, with the \<^verbatim>\<open>HTTPException\<close> of the
  \<^verbatim>\<open>except\<close> clause, or with an exception no clause of the handler catches.
\<close>

datatype outcome = Response response | HttpError | Unhandled string

text \<open>
  The \<^verbatim>\<open>except\<close> clause, for the exception \<open>e\<close> and the session as it was when \<open>e\<close> was
  raised: \<^verbatim>\<open>db.rollback(); import_record.import_status = "failed";
  import_record.error_message = str(e); db.commit(); raise HTTPException(...)\<close>.
\<close>

definition except_clause :: "faults \<Rightarrow> string \<Rightarrow> session \<Rightarrow> session \<times> outcome" where
  "except_clause F e s =
     (let s = db_rollback s;
          s = s\<lparr>pending := (pending s)\<lparr>import_status := ''failed'', error_message := Some e\<rparr>\<rparr>
      in case db_commit F FailedCommit s of
           Inl e' \<Rightarrow> (s, Unhandled e')
         | Inr s' \<Rightarrow> (s', HttpError))"

text \<open>
  A handler after parsing, on the database \<open>db\<close>: the import record is created with status
  \<^verbatim>\<open>processing\<close> and committed; then the \<^verbatim>\<open>try\<close> block runs, and the \<^verbatim>\<open>except\<close>
  clause if it raises. The result is the session when the handler ends; its committed part
  is what the database holds afterwards.
\<close>

definition upload_holdings ::
  "faults \<Rightarrow> services \<Rightarrow> upload_path \<Rightarrow> nat \<Rightarrow> parsed_holding list \<Rightarrow> database
     \<Rightarrow> session \<times> outcome" where
  "upload_holdings F S path acct holdings_data db =
     (let s = \<lparr>committed = db,
                pending = db\<lparr>import_status := ''processing'', error_message := None,
                             records_imported := 0\<rparr>\<rparr>
      in case db_commit F RecordCommit s of
           Inl e \<Rightarrow> (s, Unhandled e)
         | Inr s \<Rightarrow>
             (case try_block F S path acct holdings_data s of
                (s, Inl e) \<Rightarrow> except_clause F e s
              | (s, Inr r) \<Rightarrow> (s, Response r)))"

subsection \<open>Cells, rows and the builtins that read them\<close>

text \<open>
  A cell of a pandas row: a number (NaN for a blank cell) or a text. A row is the list of
  its column names with their cells; \<^verbatim>\<open>col in row\<close> asks whether the column exists.
  Reading the file into rows (\<^verbatim>\<open>pd.read_csv\<close>, \<^verbatim>\<open>pd.read_excel\<close>) and locating the
  header row are not modelled: a parser's model starts from the rows below the header.
\<close>

datatype cell = Number pyfloat | Text string

type_synonym row = "(string \<times> cell) list"

text \<open>
  \<open>py_float s\<close> is \<^verbatim>\<open>float(s)\<close> for a text \<open>s\<close>, \<open>None\<close> when it raises
  \<^verbatim>\<open>ValueError\<close>; \<open>py_str x\<close> is \<^verbatim>\<open>str(x)\<close> for a number.
\<close>

record python =
  py_float :: "string \<Rightarrow> pyfloat option"
  py_str :: "pyfloat \<Rightarrow> string"

text \<open>\<^verbatim>\<open>float(row[col])\<close>\<close>

definition cell_float :: "python \<Rightarrow> cell \<Rightarrow> pyfloat option" where
  "cell_float P c = (case c of Number x \<Rightarrow> Some x | Text s \<Rightarrow> py_float P s)"

text \<open>\<^verbatim>\<open>str(row[col])\<close>\<close>

definition cell_str :: "python \<Rightarrow> cell \<Rightarrow> string" where
  "cell_str P c = (case c of Number x \<Rightarrow> py_str P x | Text s \<Rightarrow> s)"

text \<open>\<^verbatim>\<open>float(str(row[col]).replace(',', ''))\<close>\<close>

definition cell_float_no_commas :: "python \<Rightarrow> cell \<Rightarrow> pyfloat option" where
  "cell_float_no_commas P c = py_float P (filter (\<lambda>ch. ch \<noteq> CHR '','') (cell_str P c))"

text \<open>\<^verbatim>\<open>pd.isna(row[col])\<close>\<close>

definition isna :: "cell \<Rightarrow> bool" where
  "isna c = (c = Number NaN)"

text \<open>The ASCII characters \<^verbatim>\<open>str.strip()\<close> removes.\<close>

definition is_space :: "char \<Rightarrow> bool" where
  "is_space c =
     (c \<in> set [CHR '' '', CHR 0x09, CHR 0x0A, CHR 0x0B, CHR 0x0C, CHR 0x0D,
                CHR 0x1C, CHR 0x1D, CHR 0x1E, CHR 0x1F])"

text \<open>\<^verbatim>\<open>s.strip()\<close>\<close>

definition py_strip :: "string \<Rightarrow> string" where
  "py_strip s = rev (dropWhile is_space (rev (dropWhile is_space s)))"

definition lower_char :: "char \<Rightarrow> char" where
  "lower_char c =
     (case map_of (zip ''ABCDEFGHIJKLMNOPQRSTUVWXYZ'' ''abcdefghijklmnopqrstuvwxyz'') c of
        None \<Rightarrow> c
      | Some l \<Rightarrow> l)"

text \<open>\<^verbatim>\<open>s.lower()\<close>\<close>

definition py_lower :: "string \<Rightarrow> string" where
  "py_lower s = map lower_char s"

text \<open>
  \<^verbatim>\<open>'f' in mapping and mapping['f'] in row\<close>, and then \<^verbatim>\<open>row[mapping['f']]\<close>.
\<close>

definition field_cell :: "(string \<times> string) list \<Rightarrow> row \<Rightarrow> string \<Rightarrow> cell option" where
  "field_cell mapping row f =
     (case map_of mapping f of None \<Rightarrow> None | Some col \<Rightarrow> map_of row col)"

text \<open>
  The parsers divide only under a test that makes the divisor positive; \<open>py_quot\<close> is the
  quotient there (see \<open>py_div_positive\<close>).
\<close>

fun py_quot :: "pyfloat \<Rightarrow> pyfloat \<Rightarrow> pyfloat" where
  "py_quot (Fin a) (Fin b) = Fin (a / b)"
| "py_quot _ _ = NaN"

text \<open>
  What the body of a row loop does: \<^verbatim>\<open>continue\<close>, raise (the parser then fails as a
  whole), or append a holding.
\<close>

datatype 'a row_result = Skipped | Raised | Emitted 'a

text \<open>
  An entry of a parser's warnings list; \<^verbatim>\<open>row_number\<close>, \<^verbatim>\<open>sheet\<close> and
  \<^verbatim>\<open>message\<close> are keys only some parsers write.
\<close>

record warning =
  w_symbol :: string
  missing_fields :: "string list"
  row_number :: "int option"
  w_sheet :: "string option"
  w_message :: "string option"

subsection \<open>Column auto-detection\<close>

text \<open>
  The patterns of \<^verbatim>\<open>_auto_detect_columns\<close> and of \<^verbatim>\<open>_parse_mutual_fund_sheet\<close> are
  literal words joined by \<^verbatim>\<open>.*\<close>; a pattern is the list of its words.
  \<open>gap_match ws t\<close>: \<open>t\<close> matches \<^verbatim>\<open>.*w1.*w2...\<close> from its start (\<^verbatim>\<open>.\<close> matches no
  newline). \<open>re_search ws s\<close> is \<^verbatim>\<open>re.search('w1.*w2...', s)\<close>.
\<close>

function gap_match :: "string list \<Rightarrow> string \<Rightarrow> bool" where
  "gap_match [] t = True"
| "gap_match (w # ws) [] = (w = [] \<and> gap_match ws [])"
| "gap_match (w # ws) (c # cs) =
     ((startswith (c # cs) w \<and> gap_match ws (drop (length w) (c # cs)))
      \<or> (c \<noteq> CHR 0x0A \<and> gap_match (w # ws) cs))"
  by pat_completeness auto
termination
  by (relation "measures [\<lambda>(ws, t). length ws, \<lambda>(ws, t). length t]") auto

fun re_search :: "string list \<Rightarrow> string \<Rightarrow> bool" where
  "re_search [] s = True"
| "re_search (w # ws) [] = (w = [] \<and> gap_match ws [])"
| "re_search (w # ws) (c # cs) =
     ((startswith (c # cs) w \<and> gap_match ws (drop (length w) (c # cs)))
      \<or> re_search (w # ws) cs)"

definition patterns :: "(string \<times> string list list) list" where
  "patterns =
     [(''symbol'', [[''symbol''], [''stock'', ''name''], [''instrument''], [''scrip''],
                    [''ticker''], [''equity'']]),
      (''quantity'', [[''quantity''], [''qty''], [''shares''], [''units''], [''holdings'']]),
      (''average_price'', [[''avg'', ''price''], [''average'', ''price''], [''cost'', ''price''],
                           [''buy'', ''price''], [''purchase'', ''price''], [''owned'', ''price''],
                           [''acquisition'', ''price'']]),
      (''current_price'', [[''current'', ''price''], [''ltp''], [''last'', ''price''],
                           [''market'', ''price''], [''cmp''], [''close'', ''price'']])]"

text \<open>
  \<^verbatim>\<open>for col in df.columns: ... for pattern in field_patterns: if re.search(pattern,
  col_lower): mapping[field] = col\<close>: the first column one of the field's patterns matches.
\<close>

definition detect_field :: "string list list \<Rightarrow> string list \<Rightarrow> string option" where
  "detect_field field_patterns columns =
     first (\<lambda>col. list_ex (\<lambda>pattern. re_search pattern (py_lower col)) field_patterns) columns"

definition detect_columns ::
  "(string \<times> string list list) list \<Rightarrow> string list \<Rightarrow> (string \<times> string) list" where
  "detect_columns pats columns =
     List.map_filter
       (\<lambda>(field, field_patterns). map_option (Pair field) (detect_field field_patterns columns)) pats"

text \<open>
  \<^verbatim>\<open>GenericCSVParser._auto_detect_columns\<close>; \<open>None\<close> is the \<^verbatim>\<open>HTTPException\<close> raised
  when no column is found for the symbol.
\<close>

definition auto_detect_columns :: "string list \<Rightarrow> (string \<times> string) list option" where
  "auto_detect_columns columns =
     (let mapping = detect_columns patterns columns in
      if map_of mapping ''symbol'' = None then None else Some mapping)"

subsection \<open>The generic CSV parser\<close>

definition ETF_SYMBOL_MAPPINGS :: "(string \<times> string) list" where
  "ETF_SYMBOL_MAPPINGS =
     [(''MAFSETFINAV'', ''MAFSETF''), (''MOM100INAV'', ''MOM100''), (''SETFNIF50'', ''SETFNN50''),
      (''NIFTYBEES'', ''NIFTYBEES''), (''BANKBEES'', ''BANKBEES''), (''GOLDBEES'', ''GOLDBEES''),
      (''JUNIORBEES'', ''JUNIORBEES''), (''LIQUIDBEES'', ''LIQUIDBEES''),
      (''NIFTYIWIN'', ''NIFTYIWIN''), (''ICICIB22'', ''ICICIB22''), (''SETFNIFBK'', ''SETFNIFBK''),
      (''LIQUIDBEESINAV'', ''LIQUIDBEES''), (''GOLDBEESINAV'', ''GOLDBEES''),
      (''NIFTYBEESINAV'', ''NIFTYBEES''), (''BANKBEESINAV'', ''BANKBEES''),
      (''JUNIORBEESINAV'', ''JUNIORBEES'')]"

definition symbol_mappings :: "(string \<times> string) list" where
  "symbol_mappings =
     [(''ColgatePalmolive'', ''COLPAL''), (''HDFCBank'', ''HDFCBANK''), (''LarsenToubro'', ''LT''),
      (''Pidilite'', ''PIDILITIND''), (''HCLTechnologies'', ''HCLTECH''),
      (''APLApolloTubes'', ''APLAPOLLO''), (''AsianPaints'', ''ASIANPAINT''),
      (''CochinShipyard'', ''COCHINSHIP''), (''CEInfosystem'', ''MAPMYINDIA''),
      (''SupremeIndustries'', ''SUPREMEIND''), (''AshokLeyland'', ''ASHOKLEY''),
      (''JioFinancialServices'', ''JIOFIN''), (''IDFCFirstBank'', ''IDFCFIRSTB''),
      (''DeltaCorp'', ''DELTACORP''), (''Infosys'', ''INFY'')]"

text \<open>\<^verbatim>\<open>if s in d: s = d[s]\<close>\<close>

definition remap :: "(string \<times> string) list \<Rightarrow> string \<Rightarrow> string" where
  "remap d s = (case map_of d s of None \<Rightarrow> s | Some t \<Rightarrow> t)"

text \<open>
  \<^verbatim>\<open>re.sub(r'\.(NS|BO|NSE|BSE)$', '', symbol, flags=re.IGNORECASE)\<close> on a stripped symbol:
  one of the four suffixes, in any case, is cut off the end.
\<close>

definition strip_exchange_suffix :: "string \<Rightarrow> string" where
  "strip_exchange_suffix s =
     (if endswith (py_upper s) ''.NS'' \<or> endswith (py_upper s) ''.BO''
      then take (length s - 3) s
      else if endswith (py_upper s) ''.NSE'' \<or> endswith (py_upper s) ''.BSE''
      then take (length s - 4) s
      else s)"

text \<open>Lines 355-357 and 704-705: the suffix, then spaces, ampersands and dots are removed.\<close>

definition clean_symbol :: "string \<Rightarrow> string" where
  "clean_symbol s =
     filter (\<lambda>c. c \<noteq> CHR '' '' \<and> c \<noteq> CHR ''&'' \<and> c \<noteq> CHR ''.'') (strip_exchange_suffix s)"

text \<open>
  Lines 386-394 of \<^verbatim>\<open>parse_custom_holdings\<close>: the quantity and the entries appended to
  \<^verbatim>\<open>missing_fields\<close>. A value that does not convert is replaced by 1.0 and nothing is
  appended.
\<close>

definition custom_quantity ::
  "python \<Rightarrow> (string \<times> string) list \<Rightarrow> row \<Rightarrow> pyfloat \<times> string list" where
  "custom_quantity P mapping row =
     (case field_cell mapping row ''quantity'' of
        Some c \<Rightarrow> (case cell_float P c of Some q \<Rightarrow> (q, []) | None \<Rightarrow> (Fin 1, []))
      | None \<Rightarrow> (Fin 1, [''quantity'']))"

text \<open>Lines 397-408 (and 722-731 of the Excel stock sheet parser).\<close>

definition read_average_price ::
  "python \<Rightarrow> (string \<times> string) list \<Rightarrow> row \<Rightarrow> pyfloat \<times> string list" where
  "read_average_price P mapping row =
     (case field_cell mapping row ''average_price'' of
        Some c \<Rightarrow>
          (case cell_float_no_commas P c of
             Some a \<Rightarrow> (a, [])
           | None \<Rightarrow> (Fin 0, [''average_price (invalid value)'']))
      | None \<Rightarrow> (Fin 0, [''average_price'']))"

text \<open>Lines 411-418 (and 734-740): nothing is appended to \<^verbatim>\<open>missing_fields\<close>.\<close>

definition read_current_price :: "python \<Rightarrow> (string \<times> string) list \<Rightarrow> row \<Rightarrow> pyfloat" where
  "read_current_price P mapping row =
     (case field_cell mapping row ''current_price'' of
        Some c \<Rightarrow> (case cell_float_no_commas P c of Some p \<Rightarrow> p | None \<Rightarrow> Fin 0)
      | None \<Rightarrow> Fin 0)"

text \<open>
  The body of the row loop of \<^verbatim>\<open>parse_custom_holdings\<close> after the test for an empty
  symbol (lines 351-460), for the symbol cell \<open>c\<close>. \<open>idx\<close> is the row's index in the
  frame. The result is the holding with the warning appended for it, if any.
\<close>

definition custom_holding ::
  "python \<Rightarrow> (string \<times> string) list \<Rightarrow> nat \<Rightarrow> row \<Rightarrow> cell
     \<Rightarrow> parsed_holding \<times> warning option" where
  "custom_holding P mapping idx row c =
     (let original_symbol = py_strip (cell_str P c);
          symbol = remap symbol_mappings (clean_symbol original_symbol);
          quantity = fst (custom_quantity P mapping row);
          avg_price = fst (read_average_price P mapping row);
          missing_fields = snd (custom_quantity P mapping row) @ snd (read_average_price P mapping row);
          current_price = read_current_price P mapping row;
          symbol = remap ETF_SYMBOL_MAPPINGS symbol;
          current_value =
            (if py_gt current_price (Fin 0) then py_mul quantity current_price
             else py_mul quantity avg_price);
          pnl =
            (if py_gt avg_price (Fin 0)
             then py_sub current_value (py_mul quantity avg_price) else Fin 0);
          pnl_percentage =
            (if py_gt avg_price (Fin 0) \<and> py_gt quantity (Fin 0)
             then py_mul (py_quot pnl (py_mul quantity avg_price)) (Fin 100)
             else Fin 0)
      in (\<lparr>h_symbol = symbol, h_exchange = ''NSE'',
           h_asset_type = generic_asset_type symbol,
           h_quantity = quantity, h_average_price = avg_price,
           h_current_price = current_price, h_current_value = current_value,
           h_pnl = pnl, h_pnl_percentage = pnl_percentage,
           h_isin = None, h_scheme_code = None\<rparr>,
          if missing_fields \<noteq> []
          then Some \<lparr>w_symbol = original_symbol, missing_fields = missing_fields,
                     row_number = Some (int idx + 2), w_sheet = None, w_message = None\<rparr>
          else None))"

text \<open>
  The row loop's test \<^verbatim>\<open>if pd.isna(row.get(mapping['symbol'], None)): continue\<close>, then
  the body. A mapping without the key \<^verbatim>\<open>symbol\<close> raises.
\<close>

definition parse_custom_row ::
  "python \<Rightarrow> (string \<times> string) list \<Rightarrow> nat \<Rightarrow> row
     \<Rightarrow> (parsed_holding \<times> warning option) row_result" where
  "parse_custom_row P mapping idx row =
     (case map_of mapping ''symbol'' of
        None \<Rightarrow> Raised
      | Some symbol_col \<Rightarrow>
          (case map_of row symbol_col of
             None \<Rightarrow> Skipped
           | Some c \<Rightarrow> if isna c then Skipped else Emitted (custom_holding P mapping idx row c)))"

text \<open>
  A row loop: the results of the rows that were not skipped, in order, or \<open>None\<close> when a
  row raised.
\<close>

fun collect_rows :: "(nat \<Rightarrow> row \<Rightarrow> 'a row_result) \<Rightarrow> nat \<Rightarrow> row list \<Rightarrow> 'a list option" where
  "collect_rows f idx [] = Some []"
| "collect_rows f idx (row # rows) =
     (case f idx row of
        Raised \<Rightarrow> None
      | Skipped \<Rightarrow> collect_rows f (Suc idx) rows
      | Emitted x \<Rightarrow> map_option ((#) x) (collect_rows f (Suc idx) rows))"

text \<open>
  \<^verbatim>\<open>GenericCSVParser.parse_custom_holdings\<close> on the frame with the given columns and
  rows: the holdings and the warnings, or \<open>None\<close> for an \<^verbatim>\<open>HTTPException\<close>. An absent or
  empty \<open>mapping\<close> argument is auto-detected.
\<close>

definition emitted_custom ::
  "python \<Rightarrow> (string \<times> string) list \<Rightarrow> string list \<Rightarrow> row list
     \<Rightarrow> (parsed_holding \<times> warning option) list option" where
  "emitted_custom P mapping columns rows =
     (if rows = [] then None
      else case (if mapping = [] then auto_detect_columns columns else Some mapping) of
        None \<Rightarrow> None
      | Some mapping \<Rightarrow>
          (case collect_rows (parse_custom_row P mapping) 0 rows of
             None \<Rightarrow> None
           | Some emitted \<Rightarrow> if emitted = [] then None else Some emitted))"

definition parse_custom_holdings ::
  "python \<Rightarrow> (string \<times> string) list \<Rightarrow> string list \<Rightarrow> row list
     \<Rightarrow> (parsed_holding list \<times> warning list) option" where
  "parse_custom_holdings P mapping columns rows =
     map_option (\<lambda>emitted. (map fst emitted, List.map_filter snd emitted))
       (emitted_custom P mapping columns rows)"

subsection \<open>The Excel parser\<close>

text \<open>
  Lines 711-719 of \<^verbatim>\<open>ExcelParser._parse_stock_sheet\<close>: unlike the generic CSV parser, a
  quantity that does not convert is reported.
\<close>

definition stock_quantity ::
  "python \<Rightarrow> (string \<times> string) list \<Rightarrow> row \<Rightarrow> pyfloat \<times> string list" where
  "stock_quantity P mapping row =
     (case field_cell mapping row ''quantity'' of
        Some c \<Rightarrow>
          (case cell_float P c of
             Some q \<Rightarrow> (q, [])
           | None \<Rightarrow> (Fin 1, [''quantity (invalid value)'']))
      | None \<Rightarrow> (Fin 1, [''quantity'']))"

text \<open>
  The body of the row loop of \<^verbatim>\<open>_parse_stock_sheet\<close> after the test for an empty symbol
  (lines 700-768). The asset type is the literal \<^verbatim>\<open>'stock'\<close>; the symbol is cleaned but
  not remapped.
\<close>

definition stock_holding ::
  "python \<Rightarrow> string \<Rightarrow> (string \<times> string) list \<Rightarrow> nat \<Rightarrow> row \<Rightarrow> cell
     \<Rightarrow> parsed_holding \<times> warning option" where
  "stock_holding P sheet_name mapping idx row c =
     (let original_symbol = py_strip (cell_str P c);
          symbol = clean_symbol original_symbol;
          quantity = fst (stock_quantity P mapping row);
          avg_price = fst (read_average_price P mapping row);
          missing_fields = snd (stock_quantity P mapping row) @ snd (read_average_price P mapping row);
          current_price = read_current_price P mapping row;
          priced = (py_gt avg_price (Fin 0) \<and> py_gt current_price (Fin 0))
      in (\<lparr>h_symbol = symbol, h_exchange = ''NSE'', h_asset_type = ''stock'',
           h_quantity = quantity, h_average_price = avg_price,
           h_current_price = current_price,
           h_current_value =
             (if py_gt current_price (Fin 0) then py_mul quantity current_price
              else py_mul quantity avg_price),
           h_pnl = (if priced then py_mul (py_sub current_price avg_price) quantity else Fin 0),
           h_pnl_percentage =
             (if priced
              then py_mul (py_quot (py_sub current_price avg_price) avg_price) (Fin 100)
              else Fin 0),
           h_isin = None, h_scheme_code = None\<rparr>,
          if missing_fields \<noteq> []
          then Some \<lparr>w_symbol = original_symbol, missing_fields = missing_fields,
                     row_number = Some (int idx + 2), w_sheet = Some sheet_name,
                     w_message = None\<rparr>
          else None))"

text \<open>\<^verbatim>\<open>if pd.isna(row.get(mapping.get('symbol'), None)): continue\<close>, then the body.\<close>

definition parse_stock_row ::
  "python \<Rightarrow> string \<Rightarrow> (string \<times> string) list \<Rightarrow> nat \<Rightarrow> row
     \<Rightarrow> (parsed_holding \<times> warning option) row_result" where
  "parse_stock_row P sheet_name mapping idx row =
     (case field_cell mapping row ''symbol'' of
        None \<Rightarrow> Skipped
      | Some c \<Rightarrow>
          if isna c then Skipped else Emitted (stock_holding P sheet_name mapping idx row c))"

text \<open>
  \<^verbatim>\<open>ExcelParser._parse_stock_sheet\<close>: the column mapping is the auto-detected one of the
  generic CSV parser; \<open>None\<close> when that raises.
\<close>

definition parse_stock_sheet ::
  "python \<Rightarrow> string \<Rightarrow> string list \<Rightarrow> row list
     \<Rightarrow> (parsed_holding \<times> warning option) list option" where
  "parse_stock_sheet P sheet_name columns rows =
     (case auto_detect_columns columns of
        None \<Rightarrow> None
      | Some mapping \<Rightarrow> collect_rows (parse_stock_row P sheet_name mapping) 0 rows)"

text \<open>The patterns of \<^verbatim>\<open>_parse_mutual_fund_sheet\<close>.\<close>

definition mf_patterns :: "(string \<times> string list list) list" where
  "mf_patterns =
     [(''scheme_name'', [[''scheme'', ''name''], [''fund'', ''name''], [''scheme''], [''fund''],
                         [''symbol'']]),
      (''folio_number'', [[''folio''], [''account'', ''no'']]),
      (''units'', [[''units''], [''quantity'', ''available''], [''quantity''],
                   [''balance'', ''units'']]),
      (''nav'', [[''nav''], [''net'', ''asset'', ''value''], [''previous'', ''closing'', ''price''],
                 [''price'']]),
      (''current_value'', [[''current'', ''value''], [''market'', ''value''], [''value'']]),
      (''invested_value'', [[''invested'', ''value''], [''cost'', ''value''],
                            [''purchase'', ''value''], [''average'', ''price'']]),
      (''scheme_code'', [[''scheme'', ''code''], [''fund'', ''code''], [''amfi'', ''code''],
                         [''isin'']])]"

text \<open>
  Lines 839-845, for the number \<open>v\<close> read from the "invested value or average price"
  column: the pair \<^verbatim>\<open>(invested_value, avg_price)\<close>.
\<close>

definition invested_and_avg :: "pyfloat \<Rightarrow> pyfloat \<Rightarrow> pyfloat \<Rightarrow> pyfloat \<times> pyfloat" where
  "invested_and_avg v units nav =
     (if py_lt v (Fin 1000)
      then (let avg_price = v;
                invested_value = (if py_gt units (Fin 0) then py_mul avg_price units else Fin 0)
            in (invested_value, avg_price))
      else (let invested_value = v;
                avg_price = (if py_gt units (Fin 0) then py_quot invested_value units else nav)
            in (invested_value, avg_price)))"

text \<open>Lines 812-820 and 823-831: a number of the sheet, 0 with a warning entry otherwise.\<close>

definition read_number ::
  "python \<Rightarrow> (string \<times> string) list \<Rightarrow> row \<Rightarrow> string \<Rightarrow> pyfloat \<times> string list" where
  "read_number P mapping row f =
     (case field_cell mapping row f of
        Some c \<Rightarrow>
          (case cell_float_no_commas P c of
             Some x \<Rightarrow> (x, [])
           | None \<Rightarrow> (Fin 0, [f @ '' (invalid value)'']))
      | None \<Rightarrow> (Fin 0, [f]))"

text \<open>
  Lines 834-848: \<^verbatim>\<open>(invested_value, avg_price)\<close> of a row, from its units and NAV.
\<close>

definition read_invested ::
  "python \<Rightarrow> (string \<times> string) list \<Rightarrow> row \<Rightarrow> pyfloat \<Rightarrow> pyfloat \<Rightarrow> pyfloat \<times> pyfloat" where
  "read_invested P mapping row units nav =
     (case field_cell mapping row ''invested_value'' of
        Some c \<Rightarrow>
          (case cell_float_no_commas P c of
             Some v \<Rightarrow> invested_and_avg v units nav
           | None \<Rightarrow> (Fin 0, nav))
      | None \<Rightarrow> (Fin 0, Fin 0))"

text \<open>Lines 851-858.\<close>

definition read_current_value ::
  "python \<Rightarrow> (string \<times> string) list \<Rightarrow> row \<Rightarrow> pyfloat \<Rightarrow> pyfloat \<Rightarrow> pyfloat" where
  "read_current_value P mapping row units nav =
     (let current_value = (if py_gt nav (Fin 0) then py_mul units nav else Fin 0) in
      case field_cell mapping row ''current_value'' of
        Some c \<Rightarrow>
          (case cell_float_no_commas P c of
             Some parsed_value \<Rightarrow>
               if py_gt parsed_value (Fin 0) then parsed_value else current_value
           | None \<Rightarrow> current_value)
      | None \<Rightarrow> current_value)"

text \<open>
  The body of the row loop of \<^verbatim>\<open>_parse_mutual_fund_sheet\<close> after the test for an
  empty scheme name (lines 806-888). \<open>clean_name\<close> stands for
  \<^verbatim>\<open>ExcelParser._clean_mutual_fund_name\<close>, a sequence of regular-expression
  substitutions on the scheme name.
\<close>

definition mutual_fund_holding ::
  "python \<Rightarrow> (string \<Rightarrow> string) \<Rightarrow> string \<Rightarrow> (string \<times> string) list \<Rightarrow> nat \<Rightarrow> row \<Rightarrow> cell
     \<Rightarrow> parsed_holding \<times> warning option" where
  "mutual_fund_holding P clean_name sheet_name mapping idx row c =
     (let scheme_name = clean_name (py_strip (cell_str P c));
          units = fst (read_number P mapping row ''units'');
          nav = fst (read_number P mapping row ''nav'');
          missing_fields =
            snd (read_number P mapping row ''units'') @ snd (read_number P mapping row ''nav'');
          invested_value = fst (read_invested P mapping row units nav);
          avg_price = snd (read_invested P mapping row units nav);
          current_value = read_current_value P mapping row units nav;
          scheme_code =
            (case field_cell mapping row ''scheme_code'' of
               Some sc \<Rightarrow> Some (py_strip (cell_str P sc))
             | None \<Rightarrow> None)
      in (\<lparr>h_symbol = take 50 scheme_name, h_exchange = ''MF'',
           h_asset_type = ''mutual_fund'',
           h_quantity = units, h_average_price = avg_price, h_current_price = nav,
           h_current_value = current_value,
           h_pnl =
             (if py_gt invested_value (Fin 0) then py_sub current_value invested_value
              else Fin 0),
           h_pnl_percentage =
             (if py_gt invested_value (Fin 0)
              then py_mul (py_quot (py_sub current_value invested_value) invested_value)
                     (Fin 100)
              else Fin 0),
           h_isin = None, h_scheme_code = scheme_code\<rparr>,
          if missing_fields \<noteq> []
          then Some \<lparr>w_symbol = scheme_name, missing_fields = missing_fields,
                     row_number = Some (int idx + 2), w_sheet = Some sheet_name,
                     w_message = None\<rparr>
          else None))"

text \<open>
  \<^verbatim>\<open>if 'scheme_name' not in mapping or pd.isna(row.get(mapping.get('scheme_name'), None)):
  continue\<close>, then the body.
\<close>

definition parse_mutual_fund_row ::
  "python \<Rightarrow> (string \<Rightarrow> string) \<Rightarrow> string \<Rightarrow> (string \<times> string) list \<Rightarrow> nat \<Rightarrow> row
     \<Rightarrow> (parsed_holding \<times> warning option) row_result" where
  "parse_mutual_fund_row P clean_name sheet_name mapping idx row =
     (case field_cell mapping row ''scheme_name'' of
        None \<Rightarrow> Skipped
      | Some c \<Rightarrow>
          if isna c then Skipped
          else Emitted (mutual_fund_holding P clean_name sheet_name mapping idx row c))"

definition parse_mutual_fund_sheet ::
  "python \<Rightarrow> (string \<Rightarrow> string) \<Rightarrow> string \<Rightarrow> string list \<Rightarrow> row list
     \<Rightarrow> (parsed_holding \<times> warning option) list option" where
  "parse_mutual_fund_sheet P clean_name sheet_name columns rows =
     collect_rows
       (parse_mutual_fund_row P clean_name sheet_name (detect_columns mf_patterns columns)) 0 rows"

subsection \<open>The Zerodha CSV parser\<close>

text \<open>\<^verbatim>\<open>float(row[col])\<close> for a column the frame must have.\<close>

definition column_float :: "python \<Rightarrow> row \<Rightarrow> string \<Rightarrow> pyfloat option" where
  "column_float P row col = (case map_of row col of None \<Rightarrow> None | Some c \<Rightarrow> cell_float P c)"

text \<open>
  New format, lines 99-165. The current value is \<^verbatim>\<open>quantity * current_price\<close>; pnl and
  its percentage are read from the file.
\<close>

definition zerodha_new_row :: "python \<Rightarrow> nat \<Rightarrow> row \<Rightarrow> parsed_holding row_result" where
  "zerodha_new_row P idx row =
     (case map_of row ''Symbol'' of
        None \<Rightarrow> Raised
      | Some c \<Rightarrow>
          if isna c \<or> py_strip (cell_str P c) = [] then Skipped
          else
            (case (column_float P row ''Quantity Available'', column_float P row ''Average Price'',
                   column_float P row ''Previous Closing Price'',
                   column_float P row ''Unrealized P&L'',
                   column_float P row ''Unrealized P&L Pct.'') of
               (Some q, Some a, Some p, Some pl, Some pct) \<Rightarrow>
                 (let quantity = q; avg_price = a; current_price = p; pnl = pl;
                      symbol = py_strip (cell_str P c);
                      isin_value =
                        (case map_of row ''ISIN'' of
                           None \<Rightarrow> None
                         | Some ic \<Rightarrow> if isna ic then None else Some (py_strip (cell_str P ic)))
                  in Emitted
                       \<lparr>h_symbol = remap ETF_SYMBOL_MAPPINGS symbol, h_exchange = ''NSE'',
                        h_asset_type = zerodha_asset_type symbol isin_value,
                        h_quantity = quantity, h_average_price = avg_price,
                        h_current_price = current_price,
                        h_current_value = py_mul quantity current_price,
                        h_pnl = pnl, h_pnl_percentage = pct,
                        h_isin = isin_value, h_scheme_code = None\<rparr>)
             | _ \<Rightarrow> Raised))"

text \<open>
  Old format, lines 168-224. \<open>match_instrument\<close> stands for
  \<^verbatim>\<open>re.match(r'(.+?)\s+(NSE|BSE)', instrument)\<close> and gives the two groups. The current
  value is the cell of the column \<^verbatim>\<open>Cur. val\<close>.
\<close>

definition zerodha_old_row ::
  "python \<Rightarrow> (string \<Rightarrow> (string \<times> string) option) \<Rightarrow> nat \<Rightarrow> row \<Rightarrow> parsed_holding row_result" where
  "zerodha_old_row P match_instrument idx row =
     (case map_of row ''Instrument'' of
        None \<Rightarrow> Raised
      | Some c \<Rightarrow>
          (case (column_float P row ''Qty.'', column_float P row ''Avg. cost'',
                 column_float P row ''LTP'', column_float P row ''Cur. val'',
                 column_float P row ''P&L'') of
             (Some q, Some a, Some ltp, Some cur_val, Some pl) \<Rightarrow>
               (let quantity = q; avg_price = a; pnl = pl;
                    instrument = cell_str P c;
                    (symbol, exch) =
                      (case match_instrument instrument of
                         Some (g1, g2) \<Rightarrow> (py_strip g1, g2)
                       | None \<Rightarrow> (py_strip instrument, ''NSE''));
                    investment = py_mul quantity avg_price
                in Emitted
                     \<lparr>h_symbol = symbol, h_exchange = exch,
                      h_asset_type = zerodha_old_asset_type symbol,
                      h_quantity = quantity, h_average_price = avg_price,
                      h_current_price = ltp, h_current_value = cur_val,
                      h_pnl = pnl,
                      h_pnl_percentage =
                        (if py_gt investment (Fin 0)
                         then py_mul (py_quot pnl investment) (Fin 100) else Fin 0),
                      h_isin = None, h_scheme_code = None\<rparr>)
           | _ \<Rightarrow> Raised))"

text \<open>
  \<^verbatim>\<open>ZerodhaCSVParser.parse_holdings_csv\<close> on the frame below the header: the new format
  when the frame has a \<^verbatim>\<open>Symbol\<close> column, the old one otherwise; \<open>None\<close> when required
  columns are missing or a row raises. (The source's second search for the header, by
  skipping 1 to 29 rows, is part of reading the frame.)
\<close>

definition parse_holdings_csv ::
  "python \<Rightarrow> (string \<Rightarrow> (string \<times> string) option) \<Rightarrow> string list \<Rightarrow> row list
     \<Rightarrow> parsed_holding list option" where
  "parse_holdings_csv P match_instrument columns rows =
     (if ''Symbol'' \<in> set columns
      then (if list_all (\<lambda>col. col \<in> set columns)
                 [''Symbol'', ''Quantity Available'', ''Average Price'',
                  ''Previous Closing Price'', ''Unrealized P&L'', ''Unrealized P&L Pct.'']
            then collect_rows (zerodha_new_row P) 0 rows else None)
      else (if list_all (\<lambda>col. col \<in> set columns)
                 [''Instrument'', ''Qty.'', ''Avg. cost'', ''LTP'', ''Cur. val'', ''P&L'']
            then collect_rows (zerodha_old_row P match_instrument) 0 rows else None))"

subsection \<open>The PDF parser for mutual fund statements\<close>

text \<open>
  The regular-expression searches of \<^verbatim>\<open>PDFParser\<close>:
  \<open>findall_schemes\<close> is \<^verbatim>\<open>re.findall(scheme_pattern, text, re.IGNORECASE)\<close>;
  \<open>search_units\<close> and \<open>search_nav\<close> give group 1 of
  \<^verbatim>\<open>re.search(units_pattern, nearby_text)\<close> and \<^verbatim>\<open>re.search(nav_pattern, nearby_text)\<close>;
  \<open>search_fund_word\<close> is the test of a line in \<^verbatim>\<open>_extract_mf_table_data\<close> and
  \<open>findall_numbers\<close> its \<^verbatim>\<open>re.findall(r'[\d,]+\.?\d*', combined_text)\<close>.
\<close>

record pdf_searches =
  findall_schemes :: "string \<Rightarrow> string list"
  search_units :: "string \<Rightarrow> string option"
  search_nav :: "string \<Rightarrow> string option"
  search_fund_word :: "string \<Rightarrow> bool"
  findall_numbers :: "string \<Rightarrow> string list"

text \<open>\<^verbatim>\<open>text.find(sub)\<close>, \<open>None\<close> for -1.\<close>

fun find_from :: "nat \<Rightarrow> string \<Rightarrow> string \<Rightarrow> nat option" where
  "find_from i [] sub = (if sub = [] then Some i else None)"
| "find_from i (c # cs) sub =
     (if startswith (c # cs) sub then Some i else find_from (Suc i) cs sub)"

definition py_find :: "string \<Rightarrow> string \<Rightarrow> nat option" where
  "py_find text sub = find_from 0 text sub"

text \<open>\<^verbatim>\<open>float(group.replace(',', ''))\<close>\<close>

definition float_no_commas :: "python \<Rightarrow> string \<Rightarrow> pyfloat option" where
  "float_no_commas P s = py_float P (filter (\<lambda>ch. ch \<noteq> CHR '','') s)"

text \<open>
  The body of the loop over the schemes of \<^verbatim>\<open>_parse_mutual_fund_statement\<close>
  (lines 82-135): the holding appended, if any, and the warnings appended.
\<close>

definition scheme_holding ::
  "python \<Rightarrow> pdf_searches \<Rightarrow> string \<Rightarrow> string \<Rightarrow> parsed_holding option \<times> warning list" where
  "scheme_holding P R text scheme =
     (case py_find text scheme of
        None \<Rightarrow> (None, [])
      | Some scheme_pos \<Rightarrow>
          (let nearby_text = take 500 (drop scheme_pos text);
               (quantity, warnings1) =
                 (case search_units R nearby_text of
                    None \<Rightarrow> (Fin 0, [])
                  | Some g \<Rightarrow>
                      (case float_no_commas P g of
                         Some q \<Rightarrow> (q, [])
                       | None \<Rightarrow>
                           (Fin 0,
                            [\<lparr>w_symbol = scheme, missing_fields = [''quantity''],
                              row_number = None, w_sheet = None,
                              w_message = Some ''Could not parse units value''\<rparr>])));
               (prices, warnings2) =
                 (case search_nav R nearby_text of
                    None \<Rightarrow> ((Fin 0, Fin 0), [])
                  | Some g \<Rightarrow>
                      (case float_no_commas P g of
                         Some nav \<Rightarrow> ((nav, nav), [])
                       | None \<Rightarrow>
                           ((Fin 0, Fin 0),
                            [\<lparr>w_symbol = scheme, missing_fields = [''nav''],
                              row_number = None, w_sheet = None,
                              w_message = Some ''Could not parse NAV value''\<rparr>])));
               current_price = fst prices;
               average_price = snd prices;
               current_value =
                 (if py_gt quantity (Fin 0) \<and> py_gt current_price (Fin 0)
                  then py_mul quantity current_price else Fin 0);
               scheme_data =
                 \<lparr>h_symbol = take 50 (py_strip scheme), h_exchange = ''MF'',
                  h_asset_type = ''mutual_fund'',
                  h_quantity = quantity, h_average_price = average_price,
                  h_current_price = current_price, h_current_value = current_value,
                  h_pnl = Fin 0, h_pnl_percentage = Fin 0,
                  h_isin = None, h_scheme_code = None\<rparr>
           in (if py_gt quantity (Fin 0) then Some scheme_data else None, warnings1 @ warnings2)))"

text \<open>\<^verbatim>\<open>text.split('\n')\<close>\<close>

fun split_lines :: "string \<Rightarrow> string list" where
  "split_lines [] = [[]]"
| "split_lines (c # cs) =
     (if c = CHR 0x0A then [] # split_lines cs
      else (case split_lines cs of l # ls \<Rightarrow> (c # l) # ls | [] \<Rightarrow> [[c]]))"

text \<open>\<^verbatim>\<open>' '.join(ls)\<close>\<close>

fun join_spaces :: "string list \<Rightarrow> string" where
  "join_spaces [] = []"
| "join_spaces [l] = l"
| "join_spaces (l # ls) = l @ CHR '' '' # join_spaces ls"

text \<open>
  The body of the loop over the lines of \<^verbatim>\<open>_extract_mf_table_data\<close> (lines 153-184);
  the argument is \<^verbatim>\<open>lines[i:]\<close>.
\<close>

definition table_holding :: "python \<Rightarrow> pdf_searches \<Rightarrow> string list \<Rightarrow> parsed_holding option" where
  "table_holding P R ls =
     (case ls of
        [] \<Rightarrow> None
      | line # _ \<Rightarrow>
          if search_fund_word R line then
            (case findall_numbers R (join_spaces (take 5 ls)) of
               n0 # n1 # _ \<Rightarrow>
                 (case (float_no_commas P n0, float_no_commas P n1) of
                    (Some units, Some nav) \<Rightarrow>
                      if py_gt units (Fin 0) \<and> py_lt units (Fin 1000000)
                      then Some \<lparr>h_symbol = take 50 (py_strip line), h_exchange = ''MF'',
                                 h_asset_type = ''mutual_fund'',
                                 h_quantity = units, h_average_price = nav,
                                 h_current_price = nav, h_current_value = py_mul units nav,
                                 h_pnl = Fin 0, h_pnl_percentage = Fin 0,
                                 h_isin = None, h_scheme_code = None\<rparr>
                      else None
                  | _ \<Rightarrow> None)
             | _ \<Rightarrow> None)
          else None)"

fun table_scan :: "python \<Rightarrow> pdf_searches \<Rightarrow> string list \<Rightarrow> parsed_holding list" where
  "table_scan P R [] = []"
| "table_scan P R (l # ls) =
     (case table_holding P R (l # ls) of
        None \<Rightarrow> table_scan P R ls
      | Some h \<Rightarrow> h # table_scan P R ls)"

text \<open>\<^verbatim>\<open>PDFParser._extract_mf_table_data\<close>\<close>

definition extract_mf_table_data ::
  "python \<Rightarrow> pdf_searches \<Rightarrow> string \<Rightarrow> parsed_holding list \<times> warning list" where
  "extract_mf_table_data P R text = (table_scan P R (split_lines text), [])"

text \<open>\<^verbatim>\<open>PDFParser._parse_mutual_fund_statement\<close>\<close>

definition parse_mutual_fund_statement ::
  "python \<Rightarrow> pdf_searches \<Rightarrow> string \<Rightarrow> parsed_holding list \<times> warning list" where
  "parse_mutual_fund_statement P R text =
     (let results = map (scheme_holding P R text) (findall_schemes R text);
          holdings = List.map_filter fst results;
          warnings = concat (map snd results)
      in if holdings = [] then extract_mf_table_data P R text else (holdings, warnings))"

subsection \<open>The PDF parsers for demat statements and other documents\<close>

text \<open>\<^verbatim>\<open>s.replace(sub, '')\<close>\<close>

function py_remove :: "string \<Rightarrow> string \<Rightarrow> string" where
  "py_remove sub [] = []"
| "py_remove sub (c # cs) =
     (if sub \<noteq> [] \<and> startswith (c # cs) sub
      then py_remove sub (drop (length sub) (c # cs))
      else c # py_remove sub cs)"
  by pat_completeness auto
termination
  by (relation "measure (\<lambda>(sub, s). length s)") auto

text \<open>
  The regular-expression searches of \<^verbatim>\<open>_parse_demat_statement\<close>: \<open>findall_isin\<close> is
  \<^verbatim>\<open>re.findall(isin_pattern, text)\<close>, the pairs of an ISIN and a company name, and
  \<open>search_quantity\<close> gives group 1 of \<^verbatim>\<open>re.search(quantity_pattern, nearby_text)\<close>.
\<close>

record demat_searches =
  findall_isin :: "string \<Rightarrow> (string \<times> string) list"
  search_quantity :: "string \<Rightarrow> string option"

text \<open>
  The body of the loop of \<^verbatim>\<open>_parse_demat_statement\<close> (lines 201-236): the holding
  appended, if any, and the warnings appended. The statement carries no prices.
\<close>

definition demat_holding ::
  "python \<Rightarrow> demat_searches \<Rightarrow> string \<Rightarrow> string \<times> string
     \<Rightarrow> parsed_holding option \<times> warning list" where
  "demat_holding P D text m =
     (let isin = fst m; company_name = snd m;
          symbol = py_remove '' LIMITED'' (py_remove '' LTD'' (py_upper (py_strip company_name)));
          (quantity, warnings) =
            (case py_find text isin of
               None \<Rightarrow> (Fin 0, [])
             | Some isin_pos \<Rightarrow>
                 (case search_quantity D (take 200 (drop isin_pos text)) of
                    None \<Rightarrow> (Fin 0, [])
                  | Some g \<Rightarrow>
                      (case float_no_commas P g of
                         Some q \<Rightarrow> (q, [])
                       | None \<Rightarrow>
                           (Fin 0,
                            [\<lparr>w_symbol = company_name, missing_fields = [''quantity''],
                              row_number = None, w_sheet = None,
                              w_message = Some ''Could not parse quantity''\<rparr>]))))
      in if py_gt quantity (Fin 0)
         then (Some \<lparr>h_symbol = symbol, h_exchange = ''NSE'', h_asset_type = ''stock'',
                      h_quantity = quantity, h_average_price = Fin 0,
                      h_current_price = Fin 0, h_current_value = Fin 0,
                      h_pnl = Fin 0, h_pnl_percentage = Fin 0,
                      h_isin = Some isin, h_scheme_code = None\<rparr>,
               warnings @
               [\<lparr>w_symbol = symbol, missing_fields = [''average_price'', ''current_price''],
                 row_number = None, w_sheet = None,
                 w_message = Some ''Prices will be fetched from market data''\<rparr>])
         else (None, warnings))"

text \<open>\<^verbatim>\<open>PDFParser._parse_demat_statement\<close>\<close>

definition parse_demat_statement ::
  "python \<Rightarrow> demat_searches \<Rightarrow> string \<Rightarrow> parsed_holding list \<times> warning list" where
  "parse_demat_statement P D text =
     (let results = map (demat_holding P D text) (findall_isin D text)
      in (List.map_filter fst results, concat (map snd results)))"

text \<open>
  The body of the loop of \<^verbatim>\<open>_parse_generic_pdf\<close> (lines 253-271) for one match
  \<^verbatim>\<open>(symbol, quantity, price)\<close> of its pattern: the price of the document becomes the
  average price, the current price and the current value are the literal 0.
\<close>

definition generic_pdf_holding ::
  "python \<Rightarrow> string \<times> string \<times> string \<Rightarrow> parsed_holding option" where
  "generic_pdf_holding P m =
     (let symbol = fst m; quantity = fst (snd m); price = snd (snd m) in
      case float_no_commas P quantity of
        None \<Rightarrow> None
      | Some q \<Rightarrow>
          (case float_no_commas P price of
             None \<Rightarrow> None
           | Some a \<Rightarrow>
               if py_gt q (Fin 0) \<and> py_lt q (Fin 1000000)
               then Some \<lparr>h_symbol = symbol, h_exchange = ''NSE'', h_asset_type = ''stock'',
                          h_quantity = q, h_average_price = a,
                          h_current_price = Fin 0, h_current_value = Fin 0,
                          h_pnl = Fin 0, h_pnl_percentage = Fin 0,
                          h_isin = None, h_scheme_code = None\<rparr>
               else None))"

text \<open>
  \<^verbatim>\<open>PDFParser._parse_generic_pdf\<close>; \<open>findall_triples\<close> is
  \<^verbatim>\<open>re.findall(pattern1, text)\<close>.
\<close>

definition parse_generic_pdf ::
  "python \<Rightarrow> (string \<Rightarrow> (string \<times> string \<times> string) list) \<Rightarrow> string
     \<Rightarrow> parsed_holding list \<times> warning list" where
  "parse_generic_pdf P findall_triples text =
     (let holdings = List.map_filter (generic_pdf_holding P) (findall_triples text)
      in (holdings,
          if holdings = []
          then [\<lparr>w_symbol = ''PDF'', missing_fields = [''all''], row_number = None,
                  w_sheet = None,
                  w_message = Some ''Could not parse PDF format. Please check if this is a valid holdings statement.''\<rparr>]
          else []))"

subsection \<open>Notions used in the properties\<close>

text \<open>Adding to the three counters of a state.\<close>

definition add_counters :: "nat \<Rightarrow> nat \<Rightarrow> nat \<Rightarrow> import_state \<Rightarrow> import_state" where
  "add_counters i u k st =
     st\<lparr>imported_count := i + imported_count st, updated_count := u + updated_count st,
        skipped_count := k + skipped_count st\<rparr>"

text \<open>The reconciliation key of a parsed holding within one platform account.\<close>

definition key_of :: "upload_path \<Rightarrow> parsed_holding \<Rightarrow> string \<times> AssetType" where
  "key_of path holding_data = (h_symbol holding_data, asset_type_of path holding_data)"

text \<open>
  A parsed holding is settled in a table when the query finds a row for its key and that
  row has its quantity and average price.
\<close>

definition settled :: "upload_path \<Rightarrow> nat \<Rightarrow> holding list \<Rightarrow> parsed_holding \<Rightarrow> bool" where
  "settled path acct tbl holding_data =
     (case first (matches acct (h_symbol holding_data) (asset_type_of path holding_data)) tbl of
        None \<Rightarrow> False
      | Some e \<Rightarrow> unchanged e holding_data)"

text \<open>A run in which no database statement raises of its own.\<close>

definition no_faults :: faults where
  "no_faults =
     \<lparr>query_error = (\<lambda>tbl pd. None), select_error = (\<lambda>tbl. None),
      commit_error = (\<lambda>c db. None), integrity_error = (\<lambda>tbl. ''IntegrityError'')\<rparr>"

text \<open>
  The entries of a parsed list that have the same reconciliation key have the same
  quantity and the same average price.
\<close>

definition agree_on_keys :: "upload_path \<Rightarrow> parsed_holding list \<Rightarrow> bool" where
  "agree_on_keys path holdings_data =
     list_all (\<lambda>x. list_all (\<lambda>y. key_of path x \<noteq> key_of path y
                                  \<or> (h_quantity x = h_quantity y
                                      \<and> h_average_price x = h_average_price y))
                        holdings_data)
       holdings_data"

text \<open>What the enrichment pass does to one row of the table.\<close>

definition enriched :: "upload_path \<Rightarrow> services \<Rightarrow> nat \<Rightarrow> holding \<Rightarrow> holding" where
  "enriched path S acct h = (if needs_price acct h then fst (enrich_holding path S h) else h)"

text \<open>The fields the enrichment pass never assigns and reconciliation compares.\<close>

definition same_core :: "holding \<Rightarrow> holding \<Rightarrow> bool" where
  "same_core h' h =
     (platform_account_id h' = platform_account_id h \<and> symbol h' = symbol h
      \<and> asset_type h' = asset_type h \<and> quantity h' = quantity h
      \<and> average_price h' = average_price h)"

subsection \<open>Example data\<close>

definition ex_parsed :: parsed_holding where
  "ex_parsed =
     \<lparr>h_symbol = ''INFY'', h_exchange = ''NSE'', h_asset_type = ''stock'',
      h_quantity = Fin 10, h_average_price = Fin 100, h_current_price = Fin 120,
      h_current_value = Fin 1200, h_pnl = Fin 200, h_pnl_percentage = Fin 20,
      h_isin = None, h_scheme_code = None\<rparr>"

definition ex_parsed2 :: parsed_holding where
  "ex_parsed2 = ex_parsed\<lparr>h_quantity := Fin 20\<rparr>"

definition ex_parsed_bad :: parsed_holding where
  "ex_parsed_bad = ex_parsed\<lparr>h_symbol := ''BAD''\<rparr>"

definition ex_row :: holding where
  "ex_row =
     \<lparr>platform_account_id = 1, symbol = ''INFY'', exchange = ''NSE'', asset_type = STOCK,
      quantity = Fin 10, average_price = Fin 100, current_price = Fin 0,
      current_value = Fin 0, pnl = Fin 0, pnl_percentage = Fin 0,
      scheme_code = None, isin = None\<rparr>"

definition ex_fund_row :: holding where
  "ex_fund_row = ex_row\<lparr>symbol := ''Axis Bluechip Fund'', exchange := ''MF'',
                        asset_type := MUTUAL_FUND\<rparr>"

definition ex_tcs_row :: holding where
  "ex_tcs_row = ex_row\<lparr>symbol := ''TCS''\<rparr>"

definition ex_services :: services where
  "ex_services =
     \<lparr>get_stock_info = (\<lambda>s sfx. if s = ''INFY'' then Raises else Result (Fin 50)),
      get_mutual_fund_info = (\<lambda>code. NoResult),
      search_mutual_fund = (\<lambda>name. Result [])\<rparr>"

text \<open>
  A database that refuses the query for the symbol \<^verbatim>\<open>BAD\<close>, and one that refuses the
  commit of the \<^verbatim>\<open>except\<close> clause as well.
\<close>

definition ex_faults :: faults where
  "ex_faults =
     \<lparr>query_error = (\<lambda>tbl pd. if h_symbol pd = ''BAD'' then Some ''OperationalError'' else None),
      select_error = (\<lambda>tbl. None),
      commit_error = (\<lambda>c db. None),
      integrity_error = (\<lambda>tbl. ''IntegrityError'')\<rparr>"

definition ex_faults2 :: faults where
  "ex_faults2 =
     \<lparr>query_error = (\<lambda>tbl pd. if h_symbol pd = ''BAD'' then Some ''OperationalError'' else None),
      select_error = (\<lambda>tbl. None),
      commit_error = (\<lambda>c db. if c = FailedCommit then Some ''OperationalError'' else None),
      integrity_error = (\<lambda>tbl. ''IntegrityError'')\<rparr>"

definition ex_db :: database where
  "ex_db = \<lparr>table = [], import_status = ''new'', error_message = None, records_imported = 0\<rparr>"

text \<open>The current value a holding should have, from its quantity and prices.\<close>

definition invariant_value :: "parsed_holding \<Rightarrow> bool" where
  "invariant_value h =
     (h_current_value h =
        (if py_gt (h_current_price h) (Fin 0) then py_mul (h_quantity h) (h_current_price h)
         else py_mul (h_quantity h) (h_average_price h)))"

text \<open>
  The invariant as Python tests it:
  \<^verbatim>\<open>current_value == (quantity * current_price if current_price > 0 else
  quantity * average_price)\<close>.
\<close>

definition invariant_test :: "parsed_holding \<Rightarrow> bool" where
  "invariant_test h =
     py_eq (h_current_value h)
       (if py_gt (h_current_price h) (Fin 0) then py_mul (h_quantity h) (h_current_price h)
        else py_mul (h_quantity h) (h_average_price h))"

text \<open>
  Example rows. \<open>ex_python\<close> agrees with Python's \<^verbatim>\<open>float\<close> and \<^verbatim>\<open>str\<close> on the texts
  and numbers of the examples; \<open>ex_match\<close> agrees with the instrument pattern on
  \<^verbatim>\<open>RELIANCE NSE\<close>.
\<close>

definition ex_python :: python where
  "ex_python =
     \<lparr>py_float = (\<lambda>s. if s = ''10'' then Some (Fin 10) else if s = ''50'' then Some (Fin 50)
                         else if s = ''100.0'' then Some (Fin 100) else None),
      py_str = (\<lambda>x. if x = Fin 100 then ''100.0'' else ''nan'')\<rparr>"

definition ex_match :: "string \<Rightarrow> (string \<times> string) option" where
  "ex_match s = (if s = ''RELIANCE NSE'' then Some (''RELIANCE'', ''NSE'') else None)"

definition ex_old_row :: row where
  "ex_old_row =
     [(''Instrument'', Text ''RELIANCE NSE''), (''Qty.'', Number (Fin 10)),
      (''Avg. cost'', Number (Fin 100)), (''LTP'', Number (Fin 120)),
      (''Cur. val'', Number (Fin 1190)), (''P&L'', Number (Fin 190))]"

definition ex_new_row :: row where
  "ex_new_row =
     [(''Symbol'', Text ''INFY''), (''Quantity Available'', Number (Fin 10)),
      (''Average Price'', Number (Fin 100)), (''Previous Closing Price'', Number (Fin 0)),
      (''Unrealized P&L'', Number (Fin 0)), (''Unrealized P&L Pct.'', Number (Fin 0))]"

definition ex_csv_row :: row where
  "ex_csv_row =
     [(''Symbol'', Text ''NIFTYBEES''), (''Avg Price'', Text ''100.0''), (''LTP'', Text ''abc'')]"

definition ex_csv_row3 :: row where
  "ex_csv_row3 =
     [(''Symbol'', Text ''INFY''), (''Quantity'', Text ''10''), (''Avg Price'', Text ''100.0'')]"


text \<open>
  A row of a mutual fund sheet with its column mapping, and the text of a statement with
  the results the PDF parser's searches give on it.
\<close>

definition ex_mf_mapping :: "(string \<times> string) list" where
  "ex_mf_mapping =
     [(''scheme_name'', ''Scheme Name''), (''units'', ''Units''), (''nav'', ''NAV''),
      (''invested_value'', ''Average Price'')]"

definition ex_mf_row :: row where
  "ex_mf_row =
     [(''Scheme Name'', Text ''Axis Bluechip Fund''), (''Units'', Text ''10''),
      (''NAV'', Text ''50''), (''Average Price'', Text ''100.0'')]"

definition ex_text :: string where
  "ex_text = ''Axis Bluechip Fund Units: 10 NAV: 50''"

definition ex_searches :: pdf_searches where
  "ex_searches =
     \<lparr>findall_schemes = (\<lambda>t. if t = ex_text then [ex_text] else []),
      search_units = (\<lambda>t. if t = ex_text then Some ''10'' else None),
      search_nav = (\<lambda>t. if t = ex_text then Some ''50'' else None),
      search_fund_word = (\<lambda>l. contains l ''Fund''),
      findall_numbers = (\<lambda>t. if t = ex_text then [''10'', ''50''] else [])\<rparr>"

text \<open>
  A row of a mutual fund sheet with a column for the current value, a row of a generic CSV
  with a blank quantity, and the match of the generic PDF pattern on a line
  \<^verbatim>\<open>INFY 10 100.0\<close>.
\<close>

definition ex_mf_row2 :: row where
  "ex_mf_row2 =
     [(''Scheme Name'', Text ''Axis Bluechip Fund''), (''Units'', Text ''10''),
      (''NAV'', Text ''50''), (''Current Value'', Text ''100.0'')]"

definition ex_csv_row4 :: row where
  "ex_csv_row4 =
     [(''Symbol'', Text ''INFY''), (''Quantity'', Number NaN), (''Avg Price'', Text ''100.0'')]"

definition ex_triples :: "string \<Rightarrow> (string \<times> string \<times> string) list" where
  "ex_triples t = (if t = ''INFY 10 100.0'' then [(''INFY'', ''10'', ''100.0'')] else [])"

section \<open>Properties\<close>

subsection \<open>String helpers agree with the library's notions\<close>

lemma startswith_prefix: "startswith s p \<longleftrightarrow> prefix p s"
  by (induction s p rule: startswith.induct) auto

lemma endswith_suffix: "endswith s p \<longleftrightarrow> suffix p s"
  by (simp add: endswith_def startswith_prefix suffix_to_prefix)

lemma contains_sublist: "contains s p \<longleftrightarrow> sublist p s"
proof (induction s)
  case Nil
  then show ?case by auto
next
  case (Cons c cs)
  then show ?case
    by (cases p) (simp_all add: startswith_prefix sublist_Cons_right)
qed

lemma startswith_imp_contains: "startswith s p \<Longrightarrow> contains s p"
  by (simp add: startswith_prefix contains_sublist)

lemma etf_keyword_test_is_contains_ETF:
  "(list_ex (\<lambda>keyword. contains u keyword) etf_keywords \<and> contains u ''ETF'')
     = contains u ''ETF''"
  by (auto simp: etf_keywords_def)

lemma isin_is_etf_nonempty: "isin_is_etf i \<Longrightarrow> i \<noteq> []"
  by (auto simp: isin_is_etf_def)

lemma zerodha_asset_type_chain:
  "zerodha_asset_type raw isn =
     (if contains (py_upper raw) ''REIT'' \<or> endswith (py_upper raw) ''-RR''
           \<or> endswith (py_upper raw) ''-RT''
      then ''reit''
      else if contains (py_upper raw) ''SGB'' then ''sgb''
      else if contains (py_upper raw) ''ETF'' \<or> py_upper raw \<in> set known_etfs
           \<or> endswith (py_upper raw) ''BEES''
           \<or> (case isn of None \<Rightarrow> False | Some i \<Rightarrow> isin_is_etf i)
      then ''etf''
      else ''stock'')"
  using startswith_imp_contains[of "py_upper raw" "''SGB''"]
  by (auto simp: zerodha_asset_type_def symbol_is_reit_def symbol_is_sgb_def symbol_is_etf_def
      etf_keyword_test_is_contains_ETF Let_def isin_is_etf_nonempty split: option.splits)

lemma zerodha_old_asset_type_eq: "zerodha_old_asset_type raw = zerodha_asset_type raw None"
  by (simp add: zerodha_old_asset_type_def zerodha_asset_type_def)

lemmas eval_string = py_upper_def upper_char_def endswith_def known_etfs_def

subsection \<open>C4: the priority order of asset-type detection\<close>

text \<open>
  C4 as stated fails on the code: the generic CSV parser tests ETF before SGB and REIT and
  accepts SGB only for a symbol that contains both GOLD and SGB, and the Zerodha parser has
  no NAV or INAV suffix rule.
\<close>

theorem C4_counterexample:
  "generic_asset_type ''SGBMAR29'' = ''stock''
   \<and> generic_asset_type ''REITETF'' = ''etf''
   \<and> zerodha_asset_type ''MOM100INAV'' None = ''stock''"
  by (simp add: generic_asset_type_def zerodha_asset_type_chain eval_string)

text \<open>
  C4 (amended). In the Zerodha CSV parser, new and old format, the asset type follows the
  priority order REIT, SGB, ETF, stock: REIT when the upper-cased symbol contains REIT or
  ends with -RR or -RT; else SGB when it contains SGB; else ETF when it contains ETF, is in
  the list of known ETFs, ends with BEES, or (new format, ISIN given) the ISIN starts with
  INF, has 12 characters and its characters 10-11 are an ETF series code; else stock. The
  old format has no ISIN test. There NIFTYBEES is an ETF, SGBMAR29 an SGB, MINDSPACE-RR a
  REIT, RELIANCE a stock, and a symbol that contains both REIT and ETF is a REIT.
  In the generic CSV parser the order is ETF (contains ETF, ends with BEES or NAV), then
  SGB (contains both GOLD and SGB), then REIT, then stock: NIFTYBEES is an ETF,
  MINDSPACE-RR a REIT, RELIANCE a stock, and a symbol that contains ETF is an ETF even if
  it contains REIT.
\<close>

theorem C4_asset_type_priority:
  "zerodha_asset_type raw isn =
     (if contains (py_upper raw) ''REIT'' \<or> endswith (py_upper raw) ''-RR''
           \<or> endswith (py_upper raw) ''-RT''
      then ''reit''
      else if contains (py_upper raw) ''SGB'' then ''sgb''
      else if contains (py_upper raw) ''ETF'' \<or> py_upper raw \<in> set known_etfs
           \<or> endswith (py_upper raw) ''BEES''
           \<or> (case isn of None \<Rightarrow> False | Some i \<Rightarrow> isin_is_etf i)
      then ''etf''
      else ''stock'')
   \<and> zerodha_old_asset_type raw = zerodha_asset_type raw None
   \<and> zerodha_asset_type ''NIFTYBEES'' isn = ''etf''
   \<and> zerodha_asset_type ''SGBMAR29'' isn = ''sgb''
   \<and> zerodha_asset_type ''MINDSPACE-RR'' isn = ''reit''
   \<and> zerodha_asset_type ''RELIANCE'' None = ''stock''
   \<and> (contains (py_upper raw) ''REIT'' \<and> contains (py_upper raw) ''ETF''
        \<longrightarrow> zerodha_asset_type raw isn = ''reit'' \<and> generic_asset_type raw = ''etf'')
   \<and> generic_asset_type raw =
        (if contains (py_upper raw) ''ETF'' \<or> endswith (py_upper raw) ''BEES''
              \<or> endswith (py_upper raw) ''NAV''
         then ''etf''
         else if contains (py_upper raw) ''GOLD'' \<and> contains (py_upper raw) ''SGB'' then ''sgb''
         else if contains (py_upper raw) ''REIT'' \<or> endswith (py_upper raw) ''-RR''
              \<or> endswith (py_upper raw) ''-RT''
         then ''reit''
         else ''stock'')
   \<and> generic_asset_type ''NIFTYBEES'' = ''etf''
   \<and> generic_asset_type ''MINDSPACE-RR'' = ''reit''
   \<and> generic_asset_type ''RELIANCE'' = ''stock''"
proof -
  have chain: "zerodha_asset_type raw isn =
     (if contains (py_upper raw) ''REIT'' \<or> endswith (py_upper raw) ''-RR''
           \<or> endswith (py_upper raw) ''-RT''
      then ''reit''
      else if contains (py_upper raw) ''SGB'' then ''sgb''
      else if contains (py_upper raw) ''ETF'' \<or> py_upper raw \<in> set known_etfs
           \<or> endswith (py_upper raw) ''BEES''
           \<or> (case isn of None \<Rightarrow> False | Some i \<Rightarrow> isin_is_etf i)
      then ''etf''
      else ''stock'')"
    by (rule zerodha_asset_type_chain)
  have old: "zerodha_old_asset_type raw = zerodha_asset_type raw None"
    by (rule zerodha_old_asset_type_eq)
  have ex: "zerodha_asset_type ''NIFTYBEES'' isn = ''etf''"
    "zerodha_asset_type ''SGBMAR29'' isn = ''sgb''"
    "zerodha_asset_type ''MINDSPACE-RR'' isn = ''reit''"
    "zerodha_asset_type ''RELIANCE'' None = ''stock''"
    by (simp_all add: zerodha_asset_type_chain eval_string)
  have both: "contains (py_upper raw) ''REIT'' \<and> contains (py_upper raw) ''ETF''
        \<longrightarrow> zerodha_asset_type raw isn = ''reit'' \<and> generic_asset_type raw = ''etf''"
    by (simp add: zerodha_asset_type_chain generic_asset_type_def)
  have gen: "generic_asset_type raw =
        (if contains (py_upper raw) ''ETF'' \<or> endswith (py_upper raw) ''BEES''
              \<or> endswith (py_upper raw) ''NAV''
         then ''etf''
         else if contains (py_upper raw) ''GOLD'' \<and> contains (py_upper raw) ''SGB'' then ''sgb''
         else if contains (py_upper raw) ''REIT'' \<or> endswith (py_upper raw) ''-RR''
              \<or> endswith (py_upper raw) ''-RT''
         then ''reit''
         else ''stock'')"
    by (simp add: generic_asset_type_def Let_def)
  have gex: "generic_asset_type ''NIFTYBEES'' = ''etf''"
    "generic_asset_type ''MINDSPACE-RR'' = ''reit''"
    "generic_asset_type ''RELIANCE'' = ''stock''"
    by (simp_all add: generic_asset_type_def eval_string)
  from chain old ex both gen gex show ?thesis by blast
qed

theorem C4_witness:
  "contains (py_upper ''REITETF'') ''REIT'' \<and> contains (py_upper ''REITETF'') ''ETF''
   \<and> zerodha_asset_type ''REITETF'' None = ''reit''
   \<and> generic_asset_type ''REITETF'' = ''etf''"
proof -
  have h: "contains (py_upper ''REITETF'') ''REIT'' \<and> contains (py_upper ''REITETF'') ''ETF''"
    by (simp add: eval_string)
  from C4_asset_type_priority[of "''REITETF''" None]
  have "contains (py_upper ''REITETF'') ''REIT'' \<and> contains (py_upper ''REITETF'') ''ETF''
        \<longrightarrow> zerodha_asset_type ''REITETF'' None = ''reit'' \<and> generic_asset_type ''REITETF'' = ''etf''"
    by blast
  with h show ?thesis by blast
qed

subsection \<open>The query and the update of the first matching row\<close>

lemma first_Some_split:
  "first P xs = Some e \<Longrightarrow>
     \<exists>pre post. xs = pre @ e # post \<and> P e \<and> (\<forall>x\<in>set pre. \<not> P x)
        \<and> update_first P f xs = pre @ f e # post"
proof (induction xs)
  case Nil
  then show ?case by simp
next
  case (Cons x xs)
  show ?case
  proof (cases "P x")
    case True
    with Cons.prems have "x = e" by simp
    with True show ?thesis by (intro exI[of _ "[]"] exI[of _ xs]) simp
  next
    case False
    with Cons.prems have "first P xs = Some e" by simp
    from Cons.IH[OF this] obtain pre post where
      "xs = pre @ e # post" "P e" "\<forall>x\<in>set pre. \<not> P x" "update_first P f xs = pre @ f e # post"
      by blast
    with False show ?thesis
      by (intro exI[of _ "x # pre"] exI[of _ post]) simp
  qed
qed


lemma first_append: "first P (xs @ ys) = (case first P xs of None \<Rightarrow> first P ys | Some e \<Rightarrow> Some e)"
  by (induction xs) auto

lemma first_split_eq:
  "(\<forall>x\<in>set pre. \<not> P x) \<Longrightarrow> P e \<Longrightarrow> first P (pre @ e # post) = Some e"
  by (induction pre) auto

lemma first_update_first_other:
  "(\<And>x. Q x \<Longrightarrow> \<not> P x \<and> \<not> P (f x)) \<Longrightarrow> first P (update_first Q f xs) = first P xs"
  by (induction xs) auto

lemma first_update_first_same:
  "first P xs = Some e \<Longrightarrow> P (f e) \<Longrightarrow> first P (update_first P f xs) = Some (f e)"
  by (induction xs) (auto split: if_splits)

lemma first_map:
  "(\<And>x. P (g x) = P x) \<Longrightarrow> first P (map g xs) = map_option g (first P xs)"
  by (induction xs) auto

lemma first_SomeD: "first P xs = Some e \<Longrightarrow> P e"
  by (induction xs) (auto split: if_splits)

subsection \<open>Reconciliation settles every parsed holding\<close>

lemma py_eq_refl: "x \<noteq> NaN \<Longrightarrow> py_eq x x"
  by (cases x) auto

lemma matches_overwrite [simp]:
  "matches acct s a (overwrite_values pd e) = matches acct s a e"
  "matches acct s a (e\<lparr>isin := i\<rparr>) = matches acct s a e"
  "matches acct s a (e\<lparr>scheme_code := c\<rparr>) = matches acct s a e"
  by (simp_all add: matches_def overwrite_values_def)

lemma unchanged_overwrite [simp]:
  "h_quantity pd \<noteq> NaN \<Longrightarrow> h_average_price pd \<noteq> NaN \<Longrightarrow> unchanged (overwrite_values pd e) pd"
  "unchanged (e\<lparr>isin := i\<rparr>) pd' = unchanged e pd'"
  "unchanged (e\<lparr>scheme_code := c\<rparr>) pd' = unchanged e pd'"
  by (simp_all add: unchanged_def overwrite_values_def py_eq_refl)

lemma matches_new_holding [simp]:
  "matches acct s a (new_holding path acct' pd) =
     (acct' = acct \<and> h_symbol pd = s \<and> asset_type_of path pd = a)"
  by (auto simp: matches_def new_holding_def)

lemma unchanged_new_holding:
  "h_quantity pd \<noteq> NaN \<Longrightarrow> h_average_price pd \<noteq> NaN \<Longrightarrow> unchanged (new_holding path acct pd) pd"
  by (simp add: unchanged_def new_holding_def py_eq_refl)

lemma settled_after_update:
  assumes "first P xs = Some e" and "\<And>x. P (f x) = P x" and "unchanged (f e) pd"
  shows "(case first P (update_first P f xs) of None \<Rightarrow> False | Some e \<Rightarrow> unchanged e pd)"
proof -
  from assms(1) have "P e" by (rule first_SomeD)
  with assms(2) have "P (f e)" by simp
  from first_update_first_same[of P xs e f, OF assms(1) this] assms(3) show ?thesis by simp
qed

lemma process_settles:
  assumes "path \<noteq> Zerodha" "h_quantity pd \<noteq> NaN" "h_average_price pd \<noteq> NaN"
  shows "settled path acct (holdings (process_holding path acct pd st)) pd"
proof (cases "first (matches acct (h_symbol pd) (asset_type_of path pd)) (holdings st)")
  case None
  then show ?thesis using assms
    by (cases path)
      (simp_all add: settled_def generic_process_def excel_process_def pdf_process_def
        first_append unchanged_new_holding)
next
  case (Some e)
  show ?thesis
  proof (cases "unchanged e pd")
    case True
    with Some show ?thesis using assms
      by (cases path)
        (simp_all add: settled_def generic_process_def excel_process_def pdf_process_def)
  next
    case False
    have upd: "\<And>f. (\<And>x. matches acct (h_symbol pd) (asset_type_of path pd) (f x)
                      = matches acct (h_symbol pd) (asset_type_of path pd) x)
         \<Longrightarrow> unchanged (f e) pd
         \<Longrightarrow> (case first (matches acct (h_symbol pd) (asset_type_of path pd))
                   (update_first (matches acct (h_symbol pd) (asset_type_of path pd)) f (holdings st)) of
               None \<Rightarrow> False | Some e \<Rightarrow> unchanged e pd)"
      using Some by (rule settled_after_update)
    show ?thesis
    proof (cases path)
      case Zerodha
      with assms show ?thesis by simp
    next
      case Generic
      with Some False assms upd[of "overwrite_values pd"] show ?thesis
        by (simp add: settled_def generic_process_def)
    next
      case Excel
      with Some False assms
        upd[of "\<lambda>e. let e = overwrite_values pd e in
                 if truthy (h_scheme_code pd) then e\<lparr>scheme_code := h_scheme_code pd\<rparr> else e"]
      show ?thesis
        by (simp add: settled_def excel_process_def Let_def)
    next
      case Pdf
      with Some False assms
        upd[of "\<lambda>e. let e = overwrite_values pd e in
                 if truthy (h_isin pd) then e\<lparr>isin := h_isin pd\<rparr> else e"]
      show ?thesis
        by (simp add: settled_def pdf_process_def Let_def)
    qed
  qed
qed

lemma process_keeps_settled:
  assumes "key_of path pd \<noteq> key_of path pd'"
    and "settled path acct (holdings st) pd'"
  shows "settled path acct (holdings (process_holding path acct pd st)) pd'"
proof -
  let ?P = "matches acct (h_symbol pd') (asset_type_of path pd')"
  let ?Q = "matches acct (h_symbol pd) (asset_type_of path pd)"
  have other: "\<And>x. ?Q x \<Longrightarrow> \<not> ?P x"
    using assms(1) by (auto simp: matches_def key_of_def)
  have upd: "first ?P (update_first ?Q f (holdings st)) = first ?P (holdings st)"
    if "\<And>x. ?P (f x) = ?P x" for f
    using other that by (intro first_update_first_other) auto
  have u1: "first ?P (update_first ?Q (overwrite_values pd) (holdings st)) = first ?P (holdings st)"
    by (rule upd) simp
  have u2: "first ?P (update_first ?Q
        (\<lambda>e. if truthy (h_scheme_code pd) then overwrite_values pd e\<lparr>scheme_code := h_scheme_code pd\<rparr>
              else overwrite_values pd e) (holdings st)) = first ?P (holdings st)"
    by (rule upd) simp
  have u3: "first ?P (update_first ?Q
        (\<lambda>e. if truthy (h_isin pd) then overwrite_values pd e\<lparr>isin := h_isin pd\<rparr>
              else overwrite_values pd e) (holdings st)) = first ?P (holdings st)"
    by (rule upd) simp
  have app: "first ?P (holdings st @ [new_holding path acct pd]) = first ?P (holdings st)"
    using assms(2) by (auto simp: first_append settled_def split: option.splits)
  show ?thesis
  proof (cases path)
    case Zerodha
    with assms(2) app u3 show ?thesis
      by (simp add: settled_def zerodha_process_def Let_def split: option.splits)
  next
    case Generic
    with assms(2) app u1 show ?thesis
      by (simp add: settled_def generic_process_def Let_def split: option.splits)
  next
    case Excel
    with assms(2) app u2 show ?thesis
      by (simp add: settled_def excel_process_def Let_def split: option.splits)
  next
    case Pdf
    with assms(2) app u3 show ?thesis
      by (simp add: settled_def pdf_process_def Let_def split: option.splits)
  qed
qed

lemma process_settled_skips:
  assumes "path \<noteq> Zerodha" "settled path acct (holdings st) pd"
  shows "process_holding path acct pd st = st\<lparr>skipped_count := skipped_count st + 1\<rparr>"
  using assms
  by (cases path)
    (auto simp: settled_def generic_process_def excel_process_def pdf_process_def Let_def
      split: option.splits)

lemma reconcile_settled_skips:
  assumes "path \<noteq> Zerodha"
  shows "\<forall>pd\<in>set pds. settled path acct (holdings st) pd \<Longrightarrow>
     reconcile path acct pds st = st\<lparr>skipped_count := skipped_count st + length pds\<rparr>"
proof (induction pds arbitrary: st)
  case Nil
  then show ?case by simp
next
  case (Cons pd pds)
  have p: "process_holding path acct pd st = st\<lparr>skipped_count := skipped_count st + 1\<rparr>"
    using Cons.prems assms by (intro process_settled_skips) auto
  have "reconcile path acct pds (st\<lparr>skipped_count := skipped_count st + 1\<rparr>)
      = (st\<lparr>skipped_count := skipped_count st + 1\<rparr>)
          \<lparr>skipped_count := skipped_count (st\<lparr>skipped_count := skipped_count st + 1\<rparr>) + length pds\<rparr>"
    using Cons.prems by (intro Cons.IH) simp
  with p show ?case by simp
qed

subsection \<open>The enrichment pass keeps keys, quantities and average prices\<close>

lemma enrich_prices_map: "fst (enrich_prices path S acct tbl) = map (enriched path S acct) tbl"
  by (induction tbl) (auto simp: enriched_def split: prod.splits)

lemma same_core_refl [simp]: "same_core h h"
  by (simp add: same_core_def)

lemma same_core_scheme_code [simp]: "same_core (h'\<lparr>scheme_code := c\<rparr>) h = same_core h' h"
  by (simp add: same_core_def)

lemma apply_price_core [simp]: "same_core (fst (apply_price p h)) h"
  by (simp add: apply_price_def same_core_def Let_def split: option.splits)

lemma enrich_stock_core: "same_core (fst (enrich_stock S h)) h"
  by (simp add: enrich_stock_def Let_def split_beta split: reply.splits)

lemma enrich_fund_by_code_core: "same_core (fst (enrich_fund_by_code S code h)) h"
  by (simp add: enrich_fund_by_code_def Let_def split_beta split: reply.splits)

lemma enrich_fund_by_search_core: "same_core (fst (enrich_fund_by_search S h)) h"
  by (simp add: enrich_fund_by_search_def Let_def split_beta split: reply.splits list.splits)

lemma enrich_holding_core: "same_core (fst (enrich_holding path S h)) h"
  by (cases path)
    (simp_all add: enrich_holding_def enrich_stock_core enrich_fund_by_code_core
      enrich_fund_by_search_core split: option.splits)

lemma enriched_keeps:
  "matches a s t (enriched path S acct h) = matches a s t h"
  "unchanged (enriched path S acct h) pd = unchanged h pd"
  using enrich_holding_core[of path S h]
  by (auto simp: enriched_def matches_def unchanged_def same_core_def)

lemma settled_enrich:
  "settled path acct tbl pd \<Longrightarrow> settled path acct (fst (enrich_prices path' S acct' tbl)) pd"
  by (auto simp: settled_def enrich_prices_map first_map enriched_keeps split: option.splits)

subsection \<open>The counters of a run\<close>

lemma counters_sum:
  assumes "path \<noteq> Zerodha"
  shows "imported_count (reconcile path acct pds st) + updated_count (reconcile path acct pds st)
          + skipped_count (reconcile path acct pds st)
        = imported_count st + updated_count st + skipped_count st + length pds"
proof (induction pds arbitrary: st)
  case Nil
  then show ?case by simp
next
  case (Cons pd pds)
  have "imported_count (process_holding path acct pd st) + updated_count (process_holding path acct pd st)
          + skipped_count (process_holding path acct pd st)
        = imported_count st + updated_count st + skipped_count st + 1"
    using assms
    by (cases path)
      (auto simp: generic_process_def excel_process_def pdf_process_def Let_def split: option.splits)
  with Cons.IH[of "process_holding path acct pd st"] show ?case by simp
qed

lemmas eval_ex = ex_parsed_def ex_row_def ex_services_def ex_db_def asset_type_of_def asset_type_map_def
  matches_def unchanged_def new_holding_def overwrite_values_def truthy_def start_def
  zerodha_process_def generic_process_def excel_process_def pdf_process_def Let_def
  py_upper_def upper_char_def

lemmas eval_ex2 = eval_ex ex_parsed2_def ex_parsed_bad_def ex_faults_def ex_faults2_def
  ex_tcs_row_def ex_fund_row_def

subsection \<open>The writes of the loop and the NOT NULL columns\<close>

lemma persist_None:
  "persist F path acct pds st = (st', None) \<Longrightarrow> st' = reconcile path acct pds st"
  by (induction pds arbitrary: st) (auto split: option.splits)

lemma not_null_append [simp]:
  "not_null_violation (xs @ ys) = (not_null_violation xs \<or> not_null_violation ys)"
  by (auto simp: not_null_violation_def)

lemma not_null_update_first:
  "\<not> not_null_violation xs \<Longrightarrow> (\<And>x. \<not> not_null_violation [f x]) \<Longrightarrow>
     \<not> not_null_violation (update_first P f xs)"
  by (induction xs) (auto simp: not_null_violation_def)

lemma process_keeps_not_null:
  assumes "\<not> not_null_violation (holdings st)"
    and "h_quantity pd \<noteq> NaN" "h_average_price pd \<noteq> NaN"
  shows "\<not> not_null_violation (holdings (process_holding path acct pd st))"
proof -
  have n: "\<not> not_null_violation [new_holding path acct pd]"
    using assms by (simp add: not_null_violation_def new_holding_def)
  have u: "\<not> not_null_violation (update_first P f (holdings st))"
    if "\<And>x. quantity (f x) = h_quantity pd \<and> average_price (f x) = h_average_price pd" for P f
    using assms that by (intro not_null_update_first) (simp_all add: not_null_violation_def)
  have u1: "\<not> not_null_violation (update_first P (overwrite_values pd) (holdings st))" for P
    by (rule u) (simp add: overwrite_values_def)
  have u2: "\<not> not_null_violation (update_first P
        (\<lambda>e. let e = overwrite_values pd e in
              if truthy (h_isin pd) then e\<lparr>isin := h_isin pd\<rparr> else e) (holdings st))" for P
    by (rule u) (simp add: overwrite_values_def Let_def)
  have u3: "\<not> not_null_violation (update_first P
        (\<lambda>e. let e = overwrite_values pd e in
              if truthy (h_scheme_code pd) then e\<lparr>scheme_code := h_scheme_code pd\<rparr> else e)
        (holdings st))" for P
    by (rule u) (simp add: overwrite_values_def Let_def)
  show ?thesis
  proof (cases path)
    case Zerodha
    with assms(1) n u2 show ?thesis
      by (simp add: zerodha_process_def Let_def split: option.splits)
  next
    case Generic
    with assms(1) n u1 show ?thesis
      by (simp add: generic_process_def Let_def split: option.splits)
  next
    case Excel
    with assms(1) n u3 show ?thesis
      by (simp add: excel_process_def Let_def split: option.splits)
  next
    case Pdf
    with assms(1) n u2 show ?thesis
      by (simp add: pdf_process_def Let_def split: option.splits)
  qed
qed

lemma not_null_mem:
  "x \<in> set xs \<Longrightarrow> quantity x = NaN \<or> average_price x = NaN \<Longrightarrow> not_null_violation xs"
  by (auto simp: not_null_violation_def list_ex_iff)

lemma unchanged_NaN:
  "h_quantity pd = NaN \<or> h_average_price pd = NaN \<Longrightarrow> \<not> unchanged e pd"
  by (cases "quantity e"; cases "average_price e") (auto simp: unchanged_def)

lemma update_first_mem:
  "first P xs = Some e \<Longrightarrow> f e \<in> set (update_first P f xs)"
  by (induction xs) (auto split: if_splits)

lemma process_nan_violates:
  assumes "h_quantity pd = NaN \<or> h_average_price pd = NaN"
  shows "not_null_violation (holdings (process_holding path acct pd st))"
proof (cases "first (matches acct (h_symbol pd) (asset_type_of path pd)) (holdings st)")
  case None
  have "not_null_violation [new_holding path acct pd]"
    using assms by (auto simp: not_null_violation_def new_holding_def)
  with None show ?thesis
    by (cases path)
      (simp_all add: zerodha_process_def generic_process_def excel_process_def pdf_process_def)
next
  case (Some e)
  have u: "not_null_violation (update_first (matches acct (h_symbol pd) (asset_type_of path pd)) f
             (holdings st))"
    if "quantity (f e) = h_quantity pd \<and> average_price (f e) = h_average_price pd" for f
    using update_first_mem[OF Some, of f] assms that
    by (intro not_null_mem[of "f e"]) auto
  note u1 = u[of "overwrite_values pd"]
  note u2 = u[of "\<lambda>e. let e = overwrite_values pd e in
              if truthy (h_isin pd) then e\<lparr>isin := h_isin pd\<rparr> else e"]
  note u3 = u[of "\<lambda>e. let e = overwrite_values pd e in
              if truthy (h_scheme_code pd) then e\<lparr>scheme_code := h_scheme_code pd\<rparr> else e"]
  from unchanged_NaN[OF assms] have nu: "\<not> unchanged e pd" .
  show ?thesis
  proof (cases path)
    case Zerodha
    with Some u2 show ?thesis
      by (simp add: zerodha_process_def Let_def overwrite_values_def)
  next
    case Generic
    with Some nu u1 show ?thesis
      by (simp add: generic_process_def Let_def overwrite_values_def)
  next
    case Excel
    with Some nu u3 show ?thesis
      by (simp add: excel_process_def Let_def overwrite_values_def)
  next
    case Pdf
    with Some nu u2 show ?thesis
      by (simp add: pdf_process_def Let_def overwrite_values_def)
  qed
qed

lemma persist_None_numbers:
  "persist F path acct pds st = (st', None) \<Longrightarrow> \<not> not_null_violation (holdings st') \<Longrightarrow>
     \<forall>pd\<in>set pds. h_quantity pd \<noteq> NaN \<and> h_average_price pd \<noteq> NaN"
proof (induction pds arbitrary: st)
  case Nil
  then show ?case by simp
next
  case (Cons pd pds)
  let ?st = "process_holding path acct pd st"
  from Cons.prems(1) have p: "persist F path acct pds ?st = (st', None)"
    by (auto split: option.splits)
  from Cons.IH[OF p Cons.prems(2)]
  have rest: "\<forall>pd\<in>set pds. h_quantity pd \<noteq> NaN \<and> h_average_price pd \<noteq> NaN" .
  have "h_quantity pd \<noteq> NaN \<and> h_average_price pd \<noteq> NaN"
  proof (rule ccontr)
    assume "\<not> (h_quantity pd \<noteq> NaN \<and> h_average_price pd \<noteq> NaN)"
    then have v: "not_null_violation (holdings ?st)"
      by (intro process_nan_violates) auto
    show False
    proof (cases pds)
      case Nil
      with p have "st' = ?st" by simp
      with v Cons.prems(2) show False by simp
    next
      case (Cons pd' pds')
      with p v show False by (simp add: flush_error_def)
    qed
  qed
  with rest show ?case by simp
qed

lemma persist_no_faults:
  "\<not> not_null_violation (holdings st) \<Longrightarrow>
   \<forall>pd\<in>set pds. h_quantity pd \<noteq> NaN \<and> h_average_price pd \<noteq> NaN \<Longrightarrow>
     persist no_faults path acct pds st = (reconcile path acct pds st, None)
     \<and> \<not> not_null_violation (holdings (reconcile path acct pds st))"
proof (induction pds arbitrary: st)
  case Nil
  then show ?case by simp
next
  case (Cons pd pds)
  from Cons.prems have "\<not> not_null_violation (holdings (process_holding path acct pd st))"
    by (intro process_keeps_not_null) auto
  from Cons.IH[OF this] Cons.prems show ?case
    by (simp add: flush_error_def no_faults_def)
qed

subsection \<open>Entries that share a key\<close>

lemma agree_on_keys_iff:
  "agree_on_keys path pds \<longleftrightarrow>
     (\<forall>x\<in>set pds. \<forall>y\<in>set pds. key_of path x = key_of path y \<longrightarrow>
        h_quantity x = h_quantity y \<and> h_average_price x = h_average_price y)"
  by (auto simp: agree_on_keys_def list_all_iff)

lemma distinct_keys_agree: "distinct (map (key_of path) pds) \<Longrightarrow> agree_on_keys path pds"
  by (auto simp: agree_on_keys_iff distinct_map inj_on_def)

lemma settled_same_key:
  assumes "settled path acct tbl pd" and "key_of path pd = key_of path pd'"
    and "h_quantity pd = h_quantity pd'" "h_average_price pd = h_average_price pd'"
  shows "settled path acct tbl pd'"
  using assms by (auto simp: settled_def key_of_def unchanged_def split: option.splits)

lemma py_eq_imp_eq: "py_eq x y \<Longrightarrow> x = y"
  by (cases x; cases y) auto

lemma settled_agree:
  assumes "settled path acct tbl pd" "settled path acct tbl pd'"
    and "key_of path pd = key_of path pd'"
  shows "h_quantity pd = h_quantity pd' \<and> h_average_price pd = h_average_price pd'"
  using assms
  by (auto simp: settled_def key_of_def unchanged_def split: option.splits dest!: py_eq_imp_eq)

lemma reconcile_settles_agreeing:
  assumes "path \<noteq> Zerodha"
    and agree: "\<And>x y. x \<in> K \<Longrightarrow> y \<in> K \<Longrightarrow> key_of path x = key_of path y \<Longrightarrow>
        h_quantity x = h_quantity y \<and> h_average_price x = h_average_price y"
  shows "\<forall>pd\<in>set pds. h_quantity pd \<noteq> NaN \<and> h_average_price pd \<noteq> NaN \<Longrightarrow>
     set done \<subseteq> K \<Longrightarrow> set pds \<subseteq> K \<Longrightarrow>
     \<forall>pd\<in>set done. settled path acct (holdings st) pd \<Longrightarrow>
     \<forall>pd\<in>set done \<union> set pds. settled path acct (holdings (reconcile path acct pds st)) pd"
proof (induction pds arbitrary: st "done")
  case Nil
  then show ?case by simp
next
  case (Cons pd pds)
  let ?st = "process_holding path acct pd st"
  from Cons.prems(3) have pdK: "pd \<in> K" and pdsK: "set pds \<subseteq> K" by simp_all
  from Cons.prems(1) have num: "h_quantity pd \<noteq> NaN" "h_average_price pd \<noteq> NaN"
    and nums: "\<forall>pd\<in>set pds. h_quantity pd \<noteq> NaN \<and> h_average_price pd \<noteq> NaN" by simp_all
  have self: "settled path acct (holdings ?st) pd"
    using num by (rule process_settles[OF assms(1)])
  have old: "settled path acct (holdings ?st) x" if xd: "x \<in> set done" for x
  proof -
    from xd Cons.prems(4) have s: "settled path acct (holdings st) x" by blast
    from xd Cons.prems(2) have xK: "x \<in> K" by blast
    show ?thesis
    proof (cases "key_of path pd = key_of path x")
      case False
      from process_keeps_settled[OF this s] show ?thesis .
    next
      case True
      from agree[OF xK pdK True[symmetric]]
      have e: "h_quantity x = h_quantity pd" "h_average_price x = h_average_price pd" by simp_all
      have "settled path acct (holdings st) pd"
        using s True[symmetric] e by (rule settled_same_key)
      from process_settled_skips[OF assms(1) this] s show ?thesis by simp
    qed
  qed
  have d: "set (pd # done) \<subseteq> K" using pdK Cons.prems(2) by simp
  have all: "\<forall>x\<in>set (pd # done). settled path acct (holdings ?st) x"
    using self old by simp
  from Cons.IH[OF nums d pdsK all]
  have "\<forall>x\<in>set (pd # done) \<union> set pds. settled path acct (holdings (reconcile path acct pds ?st)) x" .
  then show ?case by simp
qed

lemma process_skipped_le:
  "skipped_count (process_holding path acct pd st) \<le> skipped_count st + 1"
  by (cases path)
    (simp_all add: zerodha_process_def generic_process_def excel_process_def pdf_process_def
      Let_def split: option.splits)

lemma process_skipped_eq:
  assumes "skipped_count (process_holding path acct pd st) = skipped_count st + 1"
  shows "settled path acct (holdings st) pd
     \<and> holdings (process_holding path acct pd st) = holdings st"
  using assms
  by (cases path)
    (auto simp: settled_def zerodha_process_def generic_process_def excel_process_def
      pdf_process_def Let_def split: option.splits if_splits)

lemma reconcile_skipped_le:
  "skipped_count (reconcile path acct pds st) \<le> skipped_count st + length pds"
proof (induction pds arbitrary: st)
  case Nil
  then show ?case by simp
next
  case (Cons pd pds)
  from Cons.IH[of "process_holding path acct pd st"] process_skipped_le[of path acct pd st]
  show ?case by simp
qed

lemma reconcile_all_skipped:
  "skipped_count (reconcile path acct pds st) = skipped_count st + length pds \<Longrightarrow>
     \<forall>pd\<in>set pds. settled path acct (holdings st) pd"
proof (induction pds arbitrary: st)
  case Nil
  then show ?case by simp
next
  case (Cons pd pds)
  let ?st = "process_holding path acct pd st"
  from Cons.prems reconcile_skipped_le[of path acct pds ?st] process_skipped_le[of path acct pd st]
  have a: "skipped_count ?st = skipped_count st + 1"
    and b: "skipped_count (reconcile path acct pds ?st) = skipped_count ?st + length pds"
    by simp_all
  from process_skipped_eq[OF a] have c: "settled path acct (holdings st) pd"
    and d: "holdings ?st = holdings st" by simp_all
  from Cons.IH[OF b] d c show ?case by simp
qed

subsection \<open>The Zerodha loop finds every key again\<close>

lemma first_update_first_present:
  "(\<And>x. P (f x) = P x) \<Longrightarrow> first P xs \<noteq> None \<Longrightarrow> first P (update_first Q f xs) \<noteq> None"
  by (induction xs) (auto split: if_splits)

lemma first_append_present: "first P xs \<noteq> None \<Longrightarrow> first P (xs @ ys) \<noteq> None"
  by (auto simp: first_append split: option.splits)

lemma zerodha_keeps_present:
  assumes "first (matches acct s a) (holdings st) \<noteq> None"
  shows "first (matches acct s a) (holdings (zerodha_process acct pd st)) \<noteq> None"
proof -
  have "first (matches acct s a) (update_first Q
        (\<lambda>e. let e = overwrite_values pd e in
              if truthy (h_isin pd) then e\<lparr>isin := h_isin pd\<rparr> else e) (holdings st)) \<noteq> None" for Q
    using assms by (intro first_update_first_present) (simp_all add: Let_def)
  with assms first_append_present[of "matches acct s a" "holdings st"] show ?thesis
    by (auto simp: zerodha_process_def Let_def split: option.splits)
qed

lemma zerodha_makes_present:
  "first (matches acct (h_symbol pd) (asset_type_of Zerodha pd))
     (holdings (zerodha_process acct pd st)) \<noteq> None"
proof (cases "first (matches acct (h_symbol pd) (asset_type_of Zerodha pd)) (holdings st)")
  case None
  then show ?thesis by (simp add: zerodha_process_def Let_def first_append)
next
  case (Some e)
  then have "first (matches acct (h_symbol pd) (asset_type_of Zerodha pd)) (holdings st) \<noteq> None"
    by simp
  then show ?thesis by (rule zerodha_keeps_present)
qed

lemma reconcile_zerodha_present:
  "\<forall>pd\<in>set done. first (matches acct (h_symbol pd) (asset_type_of Zerodha pd)) (holdings st) \<noteq> None
   \<Longrightarrow> \<forall>pd\<in>set done \<union> set pds.
         first (matches acct (h_symbol pd) (asset_type_of Zerodha pd))
           (holdings (reconcile Zerodha acct pds st)) \<noteq> None"
proof (induction pds arbitrary: st "done")
  case Nil
  then show ?case by simp
next
  case (Cons pd pds)
  let ?st = "zerodha_process acct pd st"
  have "\<forall>x\<in>set (pd # done). first (matches acct (h_symbol x) (asset_type_of Zerodha x)) (holdings ?st) \<noteq> None"
    using Cons.prems zerodha_makes_present[of acct pd st] zerodha_keeps_present[of acct _ _ st pd]
    by simp
  from Cons.IH[OF this] show ?case by simp
qed

lemma zerodha_present_counts:
  assumes "first (matches acct (h_symbol pd) (asset_type_of Zerodha pd)) (holdings st) \<noteq> None"
  shows "updated_count (zerodha_process acct pd st) = updated_count st + 1
     \<and> skipped_count (zerodha_process acct pd st) = skipped_count st"
  using assms by (auto simp: zerodha_process_def Let_def split: option.splits)

lemma reconcile_zerodha_updates:
  "\<forall>pd\<in>set pds. first (matches acct (h_symbol pd) (asset_type_of Zerodha pd)) (holdings st) \<noteq> None
   \<Longrightarrow> updated_count (reconcile Zerodha acct pds st) = updated_count st + length pds
       \<and> skipped_count (reconcile Zerodha acct pds st) = skipped_count st"
proof (induction pds arbitrary: st)
  case Nil
  then show ?case by simp
next
  case (Cons pd pds)
  let ?st = "zerodha_process acct pd st"
  from Cons.prems have p: "first (matches acct (h_symbol pd) (asset_type_of Zerodha pd)) (holdings st) \<noteq> None"
    by simp
  have "\<forall>x\<in>set pds. first (matches acct (h_symbol x) (asset_type_of Zerodha x)) (holdings ?st) \<noteq> None"
    using Cons.prems zerodha_keeps_present[of acct _ _ st pd] by simp
  from Cons.IH[OF this] zerodha_present_counts[OF p] show ?case by simp
qed

subsection \<open>A call of a handler that answers with its response\<close>

lemma present_enrich:
  "first (matches acct s a) tbl \<noteq> None \<Longrightarrow>
     first (matches acct s a) (fst (enrich_prices path S acct' tbl)) \<noteq> None"
  by (simp add: enrich_prices_map first_map enriched_keeps)

lemma not_null_enrich:
  "not_null_violation (fst (enrich_prices path S acct tbl)) = not_null_violation tbl"
proof -
  have "quantity (enriched path S acct h) = quantity h
      \<and> average_price (enriched path S acct h) = average_price h" for h
    using enrich_holding_core[of path S h] by (simp add: enriched_def same_core_def)
  then show ?thesis
    by (simp add: enrich_prices_map not_null_violation_def list_ex_iff)
qed

lemma persistence_phase_Inr:
  assumes "persistence_phase F path acct pds s = (s', Inr st)"
  shows "st = reconcile path acct pds (start (table (pending s)))
     \<and> \<not> not_null_violation (holdings st)
     \<and> (\<forall>pd\<in>set pds. h_quantity pd \<noteq> NaN \<and> h_average_price pd \<noteq> NaN)
     \<and> pending s' = (pending s)\<lparr>table := holdings st\<rparr>
     \<and> committed s' = pending s'"
proof -
  obtain st0 r where p: "persist F path acct pds (start (table (pending s))) = (st0, r)"
    by (cases "persist F path acct pds (start (table (pending s)))") auto
  with assms have r: "r = None" and st: "st0 = st"
    and nn: "\<not> not_null_violation (holdings st)"
    and c: "db_commit F BatchCommit (s\<lparr>pending := (pending s)\<lparr>table := holdings st\<rparr>\<rparr>) = Inr s'"
    by (auto simp: persistence_phase_def flush_error_def Let_def
        split: option.splits sum.splits if_splits)
  from p r st have p': "persist F path acct pds (start (table (pending s))) = (st, None)" by simp
  from c have s': "pending s' = (pending s)\<lparr>table := holdings st\<rparr>" "committed s' = pending s'"
    by (auto simp: db_commit_def split: option.splits)
  from persist_None[OF p'] persist_None_numbers[OF p' nn] nn s' show ?thesis by simp
qed

lemma enrichment_phase_Inr:
  assumes "enrichment_phase F S path acct s = (s', Inr n)"
  shows "pending s' = (pending s)\<lparr>table := fst (enrich_prices path S acct (table (pending s)))\<rparr>
     \<and> committed s' = pending s' \<and> n = fst (snd (enrich_prices path S acct (table (pending s))))"
  using assms
  by (auto simp: enrichment_phase_def db_commit_def Let_def split_beta
      split: option.splits sum.splits)

lemma try_block_Inr:
  assumes "try_block F S path acct pds s = (s', Inr r)"
  shows "\<exists>st. st = reconcile path acct pds (start (table (pending s)))
     \<and> \<not> not_null_violation (holdings st)
     \<and> (\<forall>pd\<in>set pds. h_quantity pd \<noteq> NaN \<and> h_average_price pd \<noteq> NaN)
     \<and> table (committed s') = fst (enrich_prices path S acct (holdings st))
     \<and> import_status (committed s') = ''success''
     \<and> records_imported (committed s') = imported_count st
     \<and> pending s' = committed s'
     \<and> r_imported_count r = imported_count st \<and> r_updated_count r = updated_count st
     \<and> r_skipped_count r = skipped_count st
     \<and> r_prices_updated r = fst (snd (enrich_prices path S acct (holdings st)))"
proof -
  from assms obtain s1 st where p: "persistence_phase F path acct pds s = (s1, Inr st)"
    by (auto simp: try_block_def split: prod.splits sum.splits)
  with assms obtain s2 n where e: "enrichment_phase F S path acct s1 = (s2, Inr n)"
    by (auto simp: try_block_def split: prod.splits sum.splits)
  from assms p e have c: "db_commit F SuccessCommit
        (s2\<lparr>pending := (pending s2)\<lparr>import_status := ''success'',
                          records_imported := imported_count st\<rparr>\<rparr>) = Inr s'"
    and r: "r = \<lparr>r_imported_count = imported_count st, r_updated_count = updated_count st,
                 r_skipped_count = skipped_count st, r_prices_updated = n\<rparr>"
    by (auto simp: try_block_def Let_def split: sum.splits)
  from c have s': "committed s' = (pending s2)\<lparr>import_status := ''success'',
                          records_imported := imported_count st\<rparr>" "pending s' = committed s'"
    by (auto simp: db_commit_def split: option.splits)
  from persistence_phase_Inr[OF p] enrichment_phase_Inr[OF e] s' r show ?thesis
    by (intro exI[of _ st]) auto
qed

lemma upload_Response:
  assumes "upload_holdings F S path acct pds db = (s', Response r)"
  shows "\<exists>st. st = reconcile path acct pds (start (table db))
     \<and> \<not> not_null_violation (holdings st)
     \<and> (\<forall>pd\<in>set pds. h_quantity pd \<noteq> NaN \<and> h_average_price pd \<noteq> NaN)
     \<and> table (committed s') = fst (enrich_prices path S acct (holdings st))
     \<and> r_imported_count r = imported_count st \<and> r_updated_count r = updated_count st
     \<and> r_skipped_count r = skipped_count st"
proof -
  let ?s = "\<lparr>committed = db, pending = db\<lparr>import_status := ''processing'', error_message := None,
                             records_imported := 0\<rparr>\<rparr>"
  from assms obtain s0 where c: "db_commit F RecordCommit ?s = Inr s0"
    by (auto simp: upload_holdings_def Let_def split: sum.splits)
  with assms have t: "try_block F S path acct pds s0 = (s', Inr r)"
    by (auto simp: upload_holdings_def Let_def except_clause_def
        split: sum.splits prod.splits option.splits)
  from c have "table (pending s0) = table db"
    by (auto simp: db_commit_def split: option.splits)
  with try_block_Inr[OF t] show ?thesis by auto
qed

lemma upload_no_faults:
  assumes "\<not> not_null_violation (table db)"
    and "\<forall>pd\<in>set pds. h_quantity pd \<noteq> NaN \<and> h_average_price pd \<noteq> NaN"
  shows "\<exists>s' r. upload_holdings no_faults S path acct pds db = (s', Response r)"
proof -
  let ?st = "reconcile path acct pds (start (table db))"
  have p: "persist no_faults path acct pds (start (table db)) = (?st, None)"
    and n: "\<not> not_null_violation (holdings ?st)"
    using persist_no_faults[of "start (table db)" pds path acct] assms
    by (simp_all add: start_def)
  have f: "commit_error no_faults c d = None" "select_error no_faults t = None" for c d t
    by (simp_all add: no_faults_def)
  show ?thesis
    by (simp add: upload_holdings_def try_block_def persistence_phase_def enrichment_phase_def
        db_commit_def flush_error_def p n f Let_def split_beta)
qed

lemmas eval_upload = upload_holdings_def try_block_def persistence_phase_def enrichment_phase_def
  except_clause_def db_commit_def db_rollback_def flush_error_def not_null_violation_def
  no_faults_def

subsection \<open>The counters of a second run\<close>

lemma second_run_counters:
  fixes path S acct pds tbl
  defines "tbl1 \<equiv> fst (enrich_prices path S acct (holdings (reconcile path acct pds (start tbl))))"
  defines "st2 \<equiv> reconcile path acct pds (start tbl1)"
  assumes nz: "path \<noteq> Zerodha"
    and num: "\<forall>pd\<in>set pds. h_quantity pd \<noteq> NaN \<and> h_average_price pd \<noteq> NaN"
  shows "(skipped_count st2 = length pds \<and> imported_count st2 = 0 \<and> updated_count st2 = 0)
           \<longleftrightarrow> agree_on_keys path pds"
proof
  assume "skipped_count st2 = length pds \<and> imported_count st2 = 0 \<and> updated_count st2 = 0"
  then have "skipped_count (reconcile path acct pds (start tbl1))
               = skipped_count (start tbl1) + length pds"
    by (simp add: start_def st2_def)
  from reconcile_all_skipped[OF this]
  have s: "\<forall>pd\<in>set pds. settled path acct tbl1 pd" by (simp add: start_def)
  show "agree_on_keys path pds"
    unfolding agree_on_keys_iff
  proof (intro ballI impI)
    fix x y assume xy: "x \<in> set pds" "y \<in> set pds" and k: "key_of path x = key_of path y"
    from s xy have "settled path acct tbl1 x" "settled path acct tbl1 y" by blast+
    then show "h_quantity x = h_quantity y \<and> h_average_price x = h_average_price y"
      using k by (rule settled_agree)
  qed
next
  assume a: "agree_on_keys path pds"
  have e: "set [] \<subseteq> set pds" "set pds \<subseteq> set pds"
    "\<forall>pd\<in>set []. settled path acct (holdings (start tbl)) pd" by simp_all
  have "\<forall>pd\<in>set [] \<union> set pds.
      settled path acct (holdings (reconcile path acct pds (start tbl))) pd"
  proof (rule reconcile_settles_agreeing[OF nz _ num e])
    fix x y assume "x \<in> set pds" "y \<in> set pds" "key_of path x = key_of path y"
    with a show "h_quantity x = h_quantity y \<and> h_average_price x = h_average_price y"
      unfolding agree_on_keys_iff by blast
  qed
  then have "\<forall>pd\<in>set pds. settled path acct (holdings (start tbl1)) pd"
    by (simp add: start_def settled_enrich tbl1_def)
  from reconcile_settled_skips[OF nz this]
  have "st2 = (start tbl1)\<lparr>skipped_count := skipped_count (start tbl1) + length pds\<rparr>"
    by (simp only: st2_def)
  then show "skipped_count st2 = length pds \<and> imported_count st2 = 0 \<and> updated_count st2 = 0"
    by (simp add: start_def)
qed

lemma second_run_zerodha:
  fixes S acct pds tbl
  defines "tbl1 \<equiv> fst (enrich_prices Zerodha S acct (holdings (reconcile Zerodha acct pds (start tbl))))"
  defines "st2 \<equiv> reconcile Zerodha acct pds (start tbl1)"
  shows "updated_count st2 = length pds \<and> skipped_count st2 = 0"
proof -
  have "\<forall>pd\<in>set []. first (matches acct (h_symbol pd) (asset_type_of Zerodha pd))
           (holdings (start tbl)) \<noteq> None" by simp
  from reconcile_zerodha_present[OF this, of pds]
  have "\<forall>pd\<in>set pds. first (matches acct (h_symbol pd) (asset_type_of Zerodha pd))
           (holdings (reconcile Zerodha acct pds (start tbl))) \<noteq> None"
    by simp
  then have "\<forall>pd\<in>set pds. first (matches acct (h_symbol pd) (asset_type_of Zerodha pd))
           (holdings (start tbl1)) \<noteq> None"
    by (simp add: start_def present_enrich tbl1_def)
  from reconcile_zerodha_updates[OF this] show ?thesis
    by (simp add: start_def st2_def)
qed

subsection \<open>The loop over the sheets of an Excel file\<close>

lemma process_add_counters:
  "process_holding path acct pd (add_counters i u k st)
     = add_counters i u k (process_holding path acct pd st)"
  by (cases path)
    (simp_all add: add_counters_def zerodha_process_def generic_process_def excel_process_def
      pdf_process_def Let_def split: option.splits)

lemma reconcile_add_counters:
  "reconcile path acct pds (add_counters i u k st) = add_counters i u k (reconcile path acct pds st)"
  by (induction pds arbitrary: st) (simp_all add: process_add_counters)

lemma reconcile_append:
  "reconcile path acct (xs @ ys) st = reconcile path acct ys (reconcile path acct xs st)"
  by (induction xs arbitrary: st) simp_all

lemma reconcile_sheets_concat:
  "reconcile_sheets acct sheets st = reconcile Excel acct (concat sheets) st"
proof (induction sheets arbitrary: st)
  case Nil
  then show ?case by simp
next
  case (Cons sheet sheets)
  let ?z = "st\<lparr>imported_count := 0, updated_count := 0, skipped_count := 0\<rparr>"
  have st: "st = add_counters (imported_count st) (updated_count st) (skipped_count st) ?z"
    by (simp add: add_counters_def)
  have "reconcile Excel acct sheet st
      = add_counters (imported_count st) (updated_count st) (skipped_count st)
          (reconcile Excel acct sheet ?z)"
    by (subst st) (rule reconcile_add_counters)
  then show ?case
    by (simp add: Cons.IH reconcile_append Let_def add_counters_def)
qed

subsection \<open>C1: the decision for one parsed holding\<close>

text \<open>
  C1 as stated fails on the Zerodha path: \<^verbatim>\<open>upload_zerodha_holdings\<close> has no skip branch.
  A parsed holding whose quantity and average price equal those of the existing row is
  still written over it and counted as updated.
\<close>

theorem C1_counterexample:
  "first (matches 1 (h_symbol ex_parsed) (asset_type_of Zerodha ex_parsed)) [ex_row] = Some ex_row
   \<and> unchanged ex_row ex_parsed
   \<and> skipped_count (process_holding Zerodha 1 ex_parsed (start [ex_row])) = 0
   \<and> updated_count (process_holding Zerodha 1 ex_parsed (start [ex_row])) = 1
   \<and> holdings (process_holding Zerodha 1 ex_parsed (start [ex_row]))
       = [ex_row\<lparr>current_price := Fin 120, current_value := Fin 1200, pnl := Fin 200,
                 pnl_percentage := Fin 20\<rparr>]"
  by (simp add: eval_ex)

text \<open>
  C1 (amended). For every parsed holding, with the query for the key
  (platform account, symbol, asset type):
  \<^item> on every path, when no row matches, a new row is appended and \<open>imported_count\<close> is
    incremented, the other two counters unchanged;
  \<^item> on the generic CSV, Excel and PDF paths, when the first matching row has the parsed
    quantity and average price, only \<open>skipped_count\<close> changes (by one): no row is mutated;
  \<^item> otherwise (the row differs, or the path is Zerodha) exactly the first matching row is
    changed: quantity, average price, current price, current value, pnl and pnl percentage
    are overwritten; isin is overwritten only on the Zerodha and PDF paths and only when
    the parsed value is non-empty, scheme code only on the Excel path and only when the
    parsed value is non-empty; \<open>updated_count\<close> is incremented and \<open>skipped_count\<close>
    unchanged, and outside the Zerodha path \<open>imported_count\<close> is unchanged.
\<close>

theorem C1_three_way:
  fixes path acct pd st
  defines "flt \<equiv> matches acct (h_symbol pd) (asset_type_of path pd)"
    and "st' \<equiv> process_holding path acct pd st"
  shows
   "(first flt (holdings st) = None \<longrightarrow>
       holdings st' = holdings st @ [new_holding path acct pd]
       \<and> flt (new_holding path acct pd)
       \<and> imported_count st' = imported_count st + 1
       \<and> updated_count st' = updated_count st \<and> skipped_count st' = skipped_count st)
    \<and> (\<forall>e. first flt (holdings st) = Some e \<and> unchanged e pd \<and> path \<noteq> Zerodha \<longrightarrow>
          st' = st\<lparr>skipped_count := skipped_count st + 1\<rparr>)
    \<and> (\<forall>e. first flt (holdings st) = Some e \<and> (\<not> unchanged e pd \<or> path = Zerodha) \<longrightarrow>
          (\<exists>pre post.
             holdings st = pre @ e # post \<and> (\<forall>x\<in>set pre. \<not> flt x)
             \<and> holdings st' = pre @
                 e\<lparr>quantity := h_quantity pd, average_price := h_average_price pd,
                   current_price := h_current_price pd, current_value := h_current_value pd,
                   pnl := h_pnl pd, pnl_percentage := h_pnl_percentage pd,
                   isin := (if (path = Zerodha \<or> path = Pdf) \<and> truthy (h_isin pd)
                            then h_isin pd else isin e),
                   scheme_code := (if path = Excel \<and> truthy (h_scheme_code pd)
                                   then h_scheme_code pd else scheme_code e)\<rparr> # post)
          \<and> updated_count st' = updated_count st + 1
          \<and> skipped_count st' = skipped_count st
          \<and> (path \<noteq> Zerodha \<longrightarrow> imported_count st' = imported_count st))"
proof (intro conjI allI impI)
  assume n: "first flt (holdings st) = None"
  then show "holdings st' = holdings st @ [new_holding path acct pd]"
    "imported_count st' = imported_count st + 1"
    "updated_count st' = updated_count st" "skipped_count st' = skipped_count st"
    unfolding flt_def st'_def
    by (cases path; simp add: zerodha_process_def generic_process_def excel_process_def pdf_process_def)+
  show "flt (new_holding path acct pd)"
    by (simp add: flt_def matches_def new_holding_def)
next
  fix e assume "first flt (holdings st) = Some e \<and> unchanged e pd \<and> path \<noteq> Zerodha"
  then show "st' = st\<lparr>skipped_count := skipped_count st + 1\<rparr>"
    unfolding flt_def st'_def
    by (cases path; simp add: generic_process_def excel_process_def pdf_process_def)
next
  fix e assume a: "first flt (holdings st) = Some e \<and> (\<not> unchanged e pd \<or> path = Zerodha)"
  then have f: "first flt (holdings st) = Some e" by simp
  define g where "g = (\<lambda>e::holding. e\<lparr>quantity := h_quantity pd, average_price := h_average_price pd,
                   current_price := h_current_price pd, current_value := h_current_value pd,
                   pnl := h_pnl pd, pnl_percentage := h_pnl_percentage pd,
                   isin := (if (path = Zerodha \<or> path = Pdf) \<and> truthy (h_isin pd)
                            then h_isin pd else isin e),
                   scheme_code := (if path = Excel \<and> truthy (h_scheme_code pd)
                                   then h_scheme_code pd else scheme_code e)\<rparr>)"
  have h: "holdings st' = update_first flt g (holdings st)"
    using a unfolding flt_def st'_def g_def
    by (cases path; cases "truthy (h_isin pd)"; cases "truthy (h_scheme_code pd)";
        simp add: zerodha_process_def generic_process_def excel_process_def pdf_process_def
          overwrite_values_def[abs_def] Let_def)
  from first_Some_split[OF f, of g] obtain pre post where
    "holdings st = pre @ e # post" "\<forall>x\<in>set pre. \<not> flt x"
    "update_first flt g (holdings st) = pre @ g e # post" by blast
  with h show "\<exists>pre post.
             holdings st = pre @ e # post \<and> (\<forall>x\<in>set pre. \<not> flt x)
             \<and> holdings st' = pre @
                 e\<lparr>quantity := h_quantity pd, average_price := h_average_price pd,
                   current_price := h_current_price pd, current_value := h_current_value pd,
                   pnl := h_pnl pd, pnl_percentage := h_pnl_percentage pd,
                   isin := (if (path = Zerodha \<or> path = Pdf) \<and> truthy (h_isin pd)
                            then h_isin pd else isin e),
                   scheme_code := (if path = Excel \<and> truthy (h_scheme_code pd)
                                   then h_scheme_code pd else scheme_code e)\<rparr> # post"
    by (intro exI[of _ pre] exI[of _ post]) (simp add: g_def)
  show "updated_count st' = updated_count st + 1" "skipped_count st' = skipped_count st"
    using a unfolding flt_def st'_def
    by (cases path;
        simp add: zerodha_process_def generic_process_def excel_process_def pdf_process_def)+
  show "path \<noteq> Zerodha \<Longrightarrow> imported_count st' = imported_count st"
    using a unfolding flt_def st'_def
    by (cases path;
        simp add: zerodha_process_def generic_process_def excel_process_def pdf_process_def)
qed

theorem C1_witness:
  "first (matches 1 (h_symbol ex_parsed2) (asset_type_of Generic ex_parsed2)) [ex_row] = Some ex_row
   \<and> \<not> unchanged ex_row ex_parsed2
   \<and> updated_count (process_holding Generic 1 ex_parsed2 (start [ex_row])) = 1
   \<and> skipped_count (process_holding Generic 1 ex_parsed2 (start [ex_row])) = 0
   \<and> imported_count (process_holding Generic 1 ex_parsed2 (start [ex_row])) = 0"
proof -
  have h: "first (matches 1 (h_symbol ex_parsed2) (asset_type_of Generic ex_parsed2))
             (holdings (start [ex_row])) = Some ex_row
           \<and> (\<not> unchanged ex_row ex_parsed2 \<or> Generic = Zerodha)"
    by (simp add: eval_ex2)
  from C1_three_way[where path = Generic and acct = 1 and pd = ex_parsed2 and st = "start [ex_row]"] h
  have "updated_count (process_holding Generic 1 ex_parsed2 (start [ex_row]))
          = updated_count (start [ex_row]) + 1
        \<and> skipped_count (process_holding Generic 1 ex_parsed2 (start [ex_row]))
          = skipped_count (start [ex_row])
        \<and> imported_count (process_holding Generic 1 ex_parsed2 (start [ex_row]))
          = imported_count (start [ex_row])"
    by blast
  with h show ?thesis by (simp add: start_def)
qed

subsection \<open>C2: a second run of the same import\<close>

text \<open>
  C2 as stated fails in two ways: on the Zerodha path (every match is an update, so the
  second run reports every holding as updated and none as skipped), and for a list in
  which two entries with the same key differ in quantity (each entry undoes the other's
  update, on every run).
\<close>

theorem C2_counterexample:
  "snd (upload_holdings no_faults ex_services Zerodha 1 [ex_parsed] ex_db)
     = Response \<lparr>r_imported_count = 1, r_updated_count = 0, r_skipped_count = 0, r_prices_updated = 0\<rparr>
   \<and> snd (upload_holdings no_faults ex_services Zerodha 1 [ex_parsed]
         (committed (fst (upload_holdings no_faults ex_services Zerodha 1 [ex_parsed] ex_db))))
     = Response \<lparr>r_imported_count = 1, r_updated_count = 1, r_skipped_count = 0, r_prices_updated = 0\<rparr>
   \<and> snd (upload_holdings no_faults ex_services Generic 1 [ex_parsed, ex_parsed2] ex_db)
     = Response \<lparr>r_imported_count = 1, r_updated_count = 1, r_skipped_count = 0, r_prices_updated = 0\<rparr>
   \<and> snd (upload_holdings no_faults ex_services Generic 1 [ex_parsed, ex_parsed2]
         (committed (fst (upload_holdings no_faults ex_services Generic 1 [ex_parsed, ex_parsed2] ex_db))))
     = Response \<lparr>r_imported_count = 0, r_updated_count = 2, r_skipped_count = 0, r_prices_updated = 0\<rparr>"
  by (simp add: eval_upload eval_ex2 needs_price_def)

text \<open>
  C2 (amended). After a call of a handler that answered with its response, a second call
  with the same parsed list on the same account answers with its response too when no
  database statement raises. On the generic CSV, Excel and PDF paths the counters of the
  first run add up to the number N of parsed holdings, and the second run reports
  \<open>skipped_count = N\<close>, \<open>imported_count = 0\<close> and \<open>updated_count = 0\<close> exactly when the
  entries of the list that share a reconciliation key agree on quantity and average price;
  pairwise distinct keys are a case of this. On the Zerodha path the second run reports
  \<open>updated_count = N\<close> and \<open>skipped_count = 0\<close>. (Price enrichment runs in both calls, with
  any lookup services.)
\<close>

theorem C2_idempotent:
  assumes "upload_holdings F1 S1 path acct pds db = (s1, Response r1)"
  shows "(\<exists>s2 r2. upload_holdings no_faults S2 path acct pds (committed s1) = (s2, Response r2))
     \<and> (\<forall>F2 s2 r2. upload_holdings F2 S2 path acct pds (committed s1) = (s2, Response r2) \<longrightarrow>
          (path \<noteq> Zerodha \<longrightarrow>
             r_imported_count r1 + r_updated_count r1 + r_skipped_count r1 = length pds
             \<and> ((r_skipped_count r2 = length pds \<and> r_imported_count r2 = 0
                    \<and> r_updated_count r2 = 0)
                  \<longleftrightarrow> agree_on_keys path pds))
          \<and> (path = Zerodha \<longrightarrow> r_updated_count r2 = length pds \<and> r_skipped_count r2 = 0))
     \<and> (distinct (map (key_of path) pds) \<longrightarrow> agree_on_keys path pds)"
proof -
  define st1 where "st1 = reconcile path acct pds (start (table db))"
  define tbl1 where "tbl1 = fst (enrich_prices path S1 acct (holdings st1))"
  define st2 where "st2 = reconcile path acct pds (start tbl1)"
  from upload_Response[OF assms]
  have nn: "\<not> not_null_violation (holdings st1)"
    and num: "\<forall>pd\<in>set pds. h_quantity pd \<noteq> NaN \<and> h_average_price pd \<noteq> NaN"
    and t1: "table (committed s1) = tbl1"
    and r1: "r_imported_count r1 = imported_count st1" "r_updated_count r1 = updated_count st1"
      "r_skipped_count r1 = skipped_count st1"
    unfolding st1_def tbl1_def by blast+
  from nn have "\<not> not_null_violation (table (committed s1))"
    by (simp add: t1 tbl1_def not_null_enrich)
  from upload_no_faults[OF this num]
  have A: "\<exists>s2 r2. upload_holdings no_faults S2 path acct pds (committed s1) = (s2, Response r2)" .
  have C: "distinct (map (key_of path) pds) \<longrightarrow> agree_on_keys path pds"
    using distinct_keys_agree by blast
  have B: "(path \<noteq> Zerodha \<longrightarrow>
             r_imported_count r1 + r_updated_count r1 + r_skipped_count r1 = length pds
             \<and> ((r_skipped_count r2 = length pds \<and> r_imported_count r2 = 0
                    \<and> r_updated_count r2 = 0)
                  \<longleftrightarrow> agree_on_keys path pds))
          \<and> (path = Zerodha \<longrightarrow> r_updated_count r2 = length pds \<and> r_skipped_count r2 = 0)"
    if run2: "upload_holdings F2 S2 path acct pds (committed s1) = (s2, Response r2)"
    for F2 s2 r2
  proof -
    from upload_Response[OF run2]
    have r2: "r_imported_count r2 = imported_count st2" "r_updated_count r2 = updated_count st2"
      "r_skipped_count r2 = skipped_count st2"
      unfolding st2_def t1 by blast+
    have g: "r_imported_count r1 + r_updated_count r1 + r_skipped_count r1 = length pds
             \<and> ((r_skipped_count r2 = length pds \<and> r_imported_count r2 = 0
                    \<and> r_updated_count r2 = 0)
                  \<longleftrightarrow> agree_on_keys path pds)" if nz: "path \<noteq> Zerodha"
    proof -
      from counters_sum[OF nz, of acct pds "start (table db)"]
      have "imported_count st1 + updated_count st1 + skipped_count st1 = length pds"
        by (simp add: start_def st1_def)
      moreover from second_run_counters[OF nz num, of acct S1 "table db"]
      have "(skipped_count st2 = length pds \<and> imported_count st2 = 0 \<and> updated_count st2 = 0)
           \<longleftrightarrow> agree_on_keys path pds"
        by (simp only: st2_def tbl1_def st1_def)
      ultimately show ?thesis by (simp only: r1 r2)
    qed
    have z: "r_updated_count r2 = length pds \<and> r_skipped_count r2 = 0" if z: "path = Zerodha"
      using second_run_zerodha[of acct pds S1 "table db"]
      by (simp only: r2 st2_def tbl1_def st1_def z)
    from g z show ?thesis by blast
  qed
  from A B C show ?thesis by blast
qed

theorem C2_witness:
  "\<exists>s1 r1 s2 r2.
     upload_holdings no_faults ex_services Generic 1 [ex_parsed, ex_parsed] ex_db = (s1, Response r1)
     \<and> upload_holdings no_faults ex_services Generic 1 [ex_parsed, ex_parsed] (committed s1)
         = (s2, Response r2)
     \<and> r_imported_count r1 + r_updated_count r1 + r_skipped_count r1 = 2
     \<and> r_skipped_count r2 = 2 \<and> r_imported_count r2 = 0 \<and> r_updated_count r2 = 0"
proof -
  have "\<not> not_null_violation (table ex_db)"
    "\<forall>pd\<in>set [ex_parsed, ex_parsed]. h_quantity pd \<noteq> NaN \<and> h_average_price pd \<noteq> NaN"
    by (simp_all add: ex_db_def ex_parsed_def not_null_violation_def)
  from upload_no_faults[OF this] obtain s1 r1 where
    run1: "upload_holdings no_faults ex_services Generic 1 [ex_parsed, ex_parsed] ex_db
             = (s1, Response r1)" by blast
  note c = C2_idempotent[OF run1, of ex_services]
  from c obtain s2 r2 where
    run2: "upload_holdings no_faults ex_services Generic 1 [ex_parsed, ex_parsed] (committed s1)
             = (s2, Response r2)" by blast
  have a: "agree_on_keys Generic [ex_parsed, ex_parsed]" "Generic \<noteq> Zerodha"
    by (simp_all add: agree_on_keys_def)
  from c have "\<forall>F2 s2 r2. upload_holdings F2 ex_services Generic 1 [ex_parsed, ex_parsed] (committed s1)
         = (s2, Response r2) \<longrightarrow>
          (Generic \<noteq> Zerodha \<longrightarrow>
             r_imported_count r1 + r_updated_count r1 + r_skipped_count r1 = length [ex_parsed, ex_parsed]
             \<and> ((r_skipped_count r2 = length [ex_parsed, ex_parsed] \<and> r_imported_count r2 = 0
                    \<and> r_updated_count r2 = 0)
                  \<longleftrightarrow> agree_on_keys Generic [ex_parsed, ex_parsed]))
          \<and> (Generic = Zerodha \<longrightarrow> r_updated_count r2 = length [ex_parsed, ex_parsed]
                 \<and> r_skipped_count r2 = 0)"
    by (rule conjunct1[OF conjunct2])
  with run2 a
  have "r_imported_count r1 + r_updated_count r1 + r_skipped_count r1 = length [ex_parsed, ex_parsed]
     \<and> r_skipped_count r2 = length [ex_parsed, ex_parsed] \<and> r_imported_count r2 = 0
     \<and> r_updated_count r2 = 0"
    by blast
  with run1 run2 show ?thesis by (intro exI[of _ s1] exI[of _ r1] exI[of _ s2] exI[of _ r2]) simp
qed

subsection \<open>C5: an exception in the persistence phase\<close>

text \<open>
  C5 as stated fails when the \<^verbatim>\<open>db.commit()\<close> of the \<^verbatim>\<open>except\<close> clause raises too, as it
  does when the database has become unreachable: the writes of the batch are rolled back,
  but the import record keeps the status \<^verbatim>\<open>processing\<close> and the exception leaves the
  handler. Below, the query for the second holding raises after the first holding has
  changed a row in the session.
\<close>

theorem C5_counterexample:
  "persistence_phase ex_faults2 Generic 1 [ex_parsed2, ex_parsed_bad]
       \<lparr>committed = ex_db\<lparr>table := [ex_row], import_status := ''processing''\<rparr>,
        pending = ex_db\<lparr>table := [ex_row], import_status := ''processing''\<rparr>\<rparr>
     = (\<lparr>committed = ex_db\<lparr>table := [ex_row], import_status := ''processing''\<rparr>,
         pending = ex_db\<lparr>table := [ex_row\<lparr>quantity := Fin 20, current_price := Fin 120,
                                        current_value := Fin 1200, pnl := Fin 200,
                                        pnl_percentage := Fin 20\<rparr>],
                         import_status := ''processing''\<rparr>\<rparr>,
        Inl ''OperationalError'')
   \<and> upload_holdings ex_faults2 ex_services Generic 1 [ex_parsed2, ex_parsed_bad]
         (ex_db\<lparr>table := [ex_row]\<rparr>)
     = (\<lparr>committed = ex_db\<lparr>table := [ex_row], import_status := ''processing''\<rparr>,
         pending = ex_db\<lparr>table := [ex_row], import_status := ''failed'',
                         error_message := Some ''OperationalError''\<rparr>\<rparr>,
        Unhandled ''OperationalError'')"
  by (simp add: eval_upload eval_ex2)

text \<open>
  C5 (amended). If the persistence phase of an import (the loop over the parsed holdings
  and the commit after it) raises, on any path, nothing of the batch has been committed when
  the exception is raised, and after the handler the table the database holds and the table
  the session sees are the table from before the import: no insert or update of the batch
  remains. When the commit of the \<^verbatim>\<open>except\<close> clause succeeds, the import record is marked
  \<^verbatim>\<open>failed\<close> with the text of the exception and the handler answers with its HTTP error;
  when that commit raises, the import record keeps the status \<^verbatim>\<open>processing\<close> and that
  exception leaves the handler.
\<close>

theorem C5_rollback:
  fixes F S path acct pds db
  defines "c0 \<equiv> db\<lparr>import_status := ''processing'', error_message := None, records_imported := 0\<rparr>"
  defines "res \<equiv> upload_holdings F S path acct pds db"
  assumes "commit_error F RecordCommit c0 = None"
    and "persistence_phase F path acct pds \<lparr>committed = c0, pending = c0\<rparr> = (s, Inl e)"
  shows "committed s = c0
     \<and> table (committed (fst res)) = table db
     \<and> table (pending (fst res)) = table db
     \<and> (commit_error F FailedCommit (c0\<lparr>import_status := ''failed'', error_message := Some e\<rparr>) = None
          \<longrightarrow> import_status (committed (fst res)) = ''failed''
              \<and> error_message (committed (fst res)) = Some e
              \<and> snd res = HttpError)
     \<and> (\<forall>e'. commit_error F FailedCommit (c0\<lparr>import_status := ''failed'', error_message := Some e\<rparr>)
               = Some e'
          \<longrightarrow> import_status (committed (fst res)) = ''processing''
              \<and> error_message (committed (fst res)) = None
              \<and> snd res = Unhandled e')"
proof -
  from assms(4) have cs: "committed s = c0"
    by (auto simp: persistence_phase_def db_commit_def Let_def split_beta
        split: option.splits sum.splits)
  have t: "try_block F S path acct pds \<lparr>committed = c0, pending = c0\<rparr> = (s, Inl e)"
    using assms(4) by (simp add: try_block_def)
  have u: "res = except_clause F e s"
    using assms(3) t by (simp add: res_def upload_holdings_def db_commit_def Let_def c0_def)
  have rb: "db_rollback s = \<lparr>committed = c0, pending = c0\<rparr>"
    using cs by (simp add: db_rollback_def)
  show ?thesis
    unfolding u
    by (auto simp: except_clause_def rb cs db_commit_def Let_def c0_def split: option.splits)
qed

theorem C5_witness:
  "persistence_phase ex_faults Generic 1 [ex_parsed2, ex_parsed_bad]
       \<lparr>committed = ex_db\<lparr>table := [ex_row], import_status := ''processing''\<rparr>,
        pending = ex_db\<lparr>table := [ex_row], import_status := ''processing''\<rparr>\<rparr>
     = (\<lparr>committed = ex_db\<lparr>table := [ex_row], import_status := ''processing''\<rparr>,
         pending = ex_db\<lparr>table := [ex_row\<lparr>quantity := Fin 20, current_price := Fin 120,
                                        current_value := Fin 1200, pnl := Fin 200,
                                        pnl_percentage := Fin 20\<rparr>],
                         import_status := ''processing''\<rparr>\<rparr>,
        Inl ''OperationalError'')
   \<and> table (committed (fst (upload_holdings ex_faults ex_services Generic 1
               [ex_parsed2, ex_parsed_bad] (ex_db\<lparr>table := [ex_row]\<rparr>)))) = [ex_row]
   \<and> table (pending (fst (upload_holdings ex_faults ex_services Generic 1
               [ex_parsed2, ex_parsed_bad] (ex_db\<lparr>table := [ex_row]\<rparr>)))) = [ex_row]
   \<and> import_status (committed (fst (upload_holdings ex_faults ex_services Generic 1
               [ex_parsed2, ex_parsed_bad] (ex_db\<lparr>table := [ex_row]\<rparr>)))) = ''failed''
   \<and> error_message (committed (fst (upload_holdings ex_faults ex_services Generic 1
               [ex_parsed2, ex_parsed_bad] (ex_db\<lparr>table := [ex_row]\<rparr>)))) = Some ''OperationalError''
   \<and> snd (upload_holdings ex_faults ex_services Generic 1
               [ex_parsed2, ex_parsed_bad] (ex_db\<lparr>table := [ex_row]\<rparr>)) = HttpError"
proof -
  let ?c0 = "(ex_db\<lparr>table := [ex_row]\<rparr>)\<lparr>import_status := ''processing'', error_message := None,
                 records_imported := 0\<rparr>"
  have c0: "?c0 = ex_db\<lparr>table := [ex_row], import_status := ''processing''\<rparr>"
    by (simp add: ex_db_def)
  have p: "persistence_phase ex_faults Generic 1 [ex_parsed2, ex_parsed_bad]
       \<lparr>committed = ?c0, pending = ?c0\<rparr>
     = (\<lparr>committed = ex_db\<lparr>table := [ex_row], import_status := ''processing''\<rparr>,
         pending = ex_db\<lparr>table := [ex_row\<lparr>quantity := Fin 20, current_price := Fin 120,
                                        current_value := Fin 1200, pnl := Fin 200,
                                        pnl_percentage := Fin 20\<rparr>],
                         import_status := ''processing''\<rparr>\<rparr>,
        Inl ''OperationalError'')"
    by (simp add: eval_upload eval_ex2)
  have r: "commit_error ex_faults RecordCommit ?c0 = None"
    and f: "commit_error ex_faults FailedCommit
              (?c0\<lparr>import_status := ''failed'', error_message := Some ''OperationalError''\<rparr>) = None"
    by (simp_all add: ex_faults_def)
  from C5_rollback[OF r p, of ex_services] f p c0 show ?thesis by simp
qed

subsection \<open>The calls of the enrichment pass\<close>







subsection \<open>C6: price enrichment\<close>




subsection \<open>Row loops\<close>

lemma collect_rows_mem:
  "collect_rows f i rows = Some xs \<Longrightarrow> x \<in> set xs \<Longrightarrow>
     \<exists>k<length rows. f (i + k) (rows ! k) = Emitted x"
proof (induction rows arbitrary: i xs)
  case Nil
  then show ?case by simp
next
  case (Cons r rows)
  show ?case
  proof (cases "f i r")
    case Skipped
    with Cons.prems have "collect_rows f (Suc i) rows = Some xs" by simp
    from Cons.IH[OF this Cons.prems(2)] obtain k where "k < length rows"
      "f (Suc i + k) (rows ! k) = Emitted x" by blast
    then show ?thesis by (intro exI[of _ "Suc k"]) simp
  next
    case Raised
    with Cons.prems show ?thesis by simp
  next
    case (Emitted y)
    with Cons.prems obtain ys where ys: "collect_rows f (Suc i) rows = Some ys" "xs = y # ys"
      by auto
    show ?thesis
    proof (cases "x = y")
      case True
      with Emitted show ?thesis by (intro exI[of _ 0]) simp
    next
      case False
      with ys Cons.prems(2) have "x \<in> set ys" by simp
      from Cons.IH[OF ys(1) this] obtain k where "k < length rows"
        "f (Suc i + k) (rows ! k) = Emitted x" by blast
      then show ?thesis by (intro exI[of _ "Suc k"]) simp
    qed
  qed
qed

lemma py_div_positive:
  "py_gt b (Fin 0) \<Longrightarrow> py_div a b = Some (py_quot a b)"
  by (cases a; cases b) (auto simp: py_gt_def)

lemma py_div_positive_product:
  "py_gt q (Fin 0) \<Longrightarrow> py_gt a (Fin 0) \<Longrightarrow> py_div x (py_mul q a) = Some (py_quot x (py_mul q a))"
  by (cases x; cases q; cases a) (auto simp: py_gt_def)

lemma parse_custom_row_Emitted:
  "parse_custom_row P mapping idx row = Emitted x \<Longrightarrow> \<exists>c. x = custom_holding P mapping idx row c"
  by (auto simp: parse_custom_row_def split: option.splits if_splits)

lemma parse_stock_row_Emitted:
  "parse_stock_row P sheet_name mapping idx row = Emitted x \<Longrightarrow>
     \<exists>c. field_cell mapping row ''symbol'' = Some c \<and> x = stock_holding P sheet_name mapping idx row c"
  by (auto simp: parse_stock_row_def split: option.splits if_splits)

lemma parse_mutual_fund_row_Emitted:
  "parse_mutual_fund_row P clean_name sheet_name mapping idx row = Emitted x \<Longrightarrow>
     \<exists>c. x = mutual_fund_holding P clean_name sheet_name mapping idx row c"
  by (auto simp: parse_mutual_fund_row_def split: option.splits if_splits)

lemma custom_holding_value: "invariant_value (fst (custom_holding P mapping idx row c))"
  by (simp add: custom_holding_def invariant_value_def Let_def)

lemma stock_holding_value: "invariant_value (fst (stock_holding P sheet_name mapping idx row c))"
  by (simp add: stock_holding_def invariant_value_def Let_def)

lemma parse_custom_row_value:
  "parse_custom_row P mapping idx row = Emitted (h, w) \<Longrightarrow> invariant_value h"
proof -
  assume "parse_custom_row P mapping idx row = Emitted (h, w)"
  from parse_custom_row_Emitted[OF this] obtain c where "(h, w) = custom_holding P mapping idx row c"
    by blast
  then have "h = fst (custom_holding P mapping idx row c)" by (metis fst_conv)
  then show ?thesis by (simp add: custom_holding_value)
qed

lemma parse_stock_row_value:
  "parse_stock_row P sheet_name mapping idx row = Emitted (h, w) \<Longrightarrow> invariant_value h"
proof -
  assume "parse_stock_row P sheet_name mapping idx row = Emitted (h, w)"
  from parse_stock_row_Emitted[OF this] obtain c where
    "(h, w) = stock_holding P sheet_name mapping idx row c" by blast
  then have "h = fst (stock_holding P sheet_name mapping idx row c)"
    by (metis fst_conv)
  then show ?thesis by (simp add: stock_holding_value)
qed

lemma zerodha_new_row_value:
  "zerodha_new_row P idx row = Emitted h \<Longrightarrow>
     h_current_value h = py_mul (h_quantity h) (h_current_price h)"
  by (auto simp: zerodha_new_row_def Let_def split: option.splits if_splits)

lemmas eval_rows = ex_python_def ex_match_def ex_old_row_def ex_new_row_def ex_csv_row_def
  ex_csv_row3_def column_float_def cell_float_def cell_str_def cell_float_no_commas_def isna_def
  field_cell_def py_strip_def is_space_def remap_def py_gt_def Let_def

subsection \<open>Defaults of the generic CSV parser\<close>









subsection \<open>C7: defaulted fields and their warnings\<close>





subsection \<open>C8: the asset type of the Excel stock-sheet parser\<close>

lemma collect_rows_total:
  "(\<And>i r. f i r \<noteq> Raised) \<Longrightarrow> \<exists>xs. collect_rows f i rows = Some xs"
proof (induction rows arbitrary: i)
  case Nil
  then show ?case by simp
next
  case (Cons r rows)
  from Cons.IH[OF Cons.prems, of "Suc i"] obtain xs where "collect_rows f (Suc i) rows = Some xs"
    by blast
  with Cons.prems[of i r] show ?case by (cases "f i r") auto
qed

lemma parse_stock_row_not_Raised: "parse_stock_row P sheet_name mapping idx row \<noteq> Raised"
  by (simp add: parse_stock_row_def split: option.splits)

text \<open>
  C8 as stated fails on the code: \<^verbatim>\<open>_parse_stock_sheet\<close> writes the literal
  \<^verbatim>\<open>'stock'\<close> and classifies nothing. For the same frame the stock-sheet parser emits
  NIFTYBEES as a stock and the generic CSV parser as an ETF.
\<close>

theorem C8_counterexample:
  "map_option (map (\<lambda>x. (h_symbol (fst x), h_asset_type (fst x))))
       (parse_stock_sheet ex_python ''Sheet1'' [''Symbol'', ''Avg Price'', ''LTP''] [ex_csv_row])
     = Some [(''NIFTYBEES'', ''stock'')]
   \<and> map_option (\<lambda>r. map (\<lambda>h. (h_symbol h, h_asset_type h)) (fst r))
       (parse_custom_holdings ex_python [] [''Symbol'', ''Avg Price'', ''LTP''] [ex_csv_row])
     = Some [(''NIFTYBEES'', ''etf'')]
   \<and> generic_asset_type ''NIFTYBEES'' = ''etf''"
  by code_simp

text \<open>
  C8 (amended). The Excel stock-sheet parser reuses the column auto-detection of the generic
  CSV parser (it fails exactly when that fails) and its cleaning of the symbol (the exchange
  suffix, spaces, ampersands and dots are removed), but not its classification: for every
  row of a sheet parsed as stocks the emitted holding's asset type is \<^verbatim>\<open>stock\<close>, which
  equals the asset type the generic CSV parser assigns to that symbol exactly when that one
  is \<^verbatim>\<open>stock\<close>.
\<close>

theorem C8_stock_sheet_asset_type:
  "(\<forall>h w. parse_stock_row P sheet_name mapping idx row = Emitted (h, w) \<longrightarrow>
      h_asset_type h = ''stock''
      \<and> (\<exists>c. field_cell mapping row ''symbol'' = Some c
             \<and> h_symbol h = clean_symbol (py_strip (cell_str P c))))
   \<and> (\<forall>emitted. parse_stock_sheet P sheet_name columns rows = Some emitted \<longrightarrow>
        (\<forall>x\<in>set emitted. h_asset_type (fst x) = ''stock''
            \<and> (h_asset_type (fst x) = generic_asset_type (h_symbol (fst x))
                 \<longleftrightarrow> generic_asset_type (h_symbol (fst x)) = ''stock'')))
   \<and> (parse_stock_sheet P sheet_name columns rows = None
        \<longleftrightarrow> auto_detect_columns columns = None)"
proof (intro conjI)
  show "\<forall>h w. parse_stock_row P sheet_name mapping idx row = Emitted (h, w) \<longrightarrow>
      h_asset_type h = ''stock''
      \<and> (\<exists>c. field_cell mapping row ''symbol'' = Some c
             \<and> h_symbol h = clean_symbol (py_strip (cell_str P c)))"
  proof (intro allI impI)
    fix h w
    assume "parse_stock_row P sheet_name mapping idx row = Emitted (h, w)"
    from parse_stock_row_Emitted[OF this] obtain c where
      c: "field_cell mapping row ''symbol'' = Some c"
      and "(h, w) = stock_holding P sheet_name mapping idx row c" by blast
    then have "h = fst (stock_holding P sheet_name mapping idx row c)" by (metis fst_conv)
    with c show "h_asset_type h = ''stock''
      \<and> (\<exists>c. field_cell mapping row ''symbol'' = Some c
             \<and> h_symbol h = clean_symbol (py_strip (cell_str P c)))"
      by (simp add: stock_holding_def Let_def)
  qed
  show "\<forall>emitted. parse_stock_sheet P sheet_name columns rows = Some emitted \<longrightarrow>
        (\<forall>x\<in>set emitted. h_asset_type (fst x) = ''stock''
            \<and> (h_asset_type (fst x) = generic_asset_type (h_symbol (fst x))
                 \<longleftrightarrow> generic_asset_type (h_symbol (fst x)) = ''stock''))"
  proof (intro allI impI ballI)
    fix emitted x
    assume p: "parse_stock_sheet P sheet_name columns rows = Some emitted" and x: "x \<in> set emitted"
    then obtain m where e: "collect_rows (parse_stock_row P sheet_name m) 0 rows = Some emitted"
      by (auto simp: parse_stock_sheet_def split: option.splits)
    from collect_rows_mem[OF e x] obtain k where
      "parse_stock_row P sheet_name m (0 + k) (rows ! k) = Emitted x" by blast
    from parse_stock_row_Emitted[OF this] obtain c where
      "x = stock_holding P sheet_name m (0 + k) (rows ! k) c" by blast
    then have "h_asset_type (fst x) = ''stock''" by (simp add: stock_holding_def Let_def)
    then show "h_asset_type (fst x) = ''stock''
            \<and> (h_asset_type (fst x) = generic_asset_type (h_symbol (fst x))
                 \<longleftrightarrow> generic_asset_type (h_symbol (fst x)) = ''stock'')" by auto
  qed
  show "parse_stock_sheet P sheet_name columns rows = None \<longleftrightarrow> auto_detect_columns columns = None"
    using collect_rows_total[of "parse_stock_row P sheet_name _" 0 rows, OF parse_stock_row_not_Raised]
    by (auto simp: parse_stock_sheet_def split: option.splits)
qed

theorem C8_witness:
  "parse_stock_sheet ex_python ''Sheet1'' [''Symbol'', ''Avg Price'', ''LTP''] [ex_csv_row]
     = Some [(\<lparr>h_symbol = ''NIFTYBEES'', h_exchange = ''NSE'', h_asset_type = ''stock'',
               h_quantity = Fin 1, h_average_price = Fin 100, h_current_price = Fin 0,
               h_current_value = Fin 100, h_pnl = Fin 0, h_pnl_percentage = Fin 0,
               h_isin = None, h_scheme_code = None\<rparr>,
              Some \<lparr>w_symbol = ''NIFTYBEES'', missing_fields = [''quantity''],
                    row_number = Some 2, w_sheet = Some ''Sheet1'', w_message = None\<rparr>)]
   \<and> generic_asset_type ''NIFTYBEES'' \<noteq> ''stock''"
proof -
  have e: "parse_stock_sheet ex_python ''Sheet1'' [''Symbol'', ''Avg Price'', ''LTP''] [ex_csv_row]
     = Some [(\<lparr>h_symbol = ''NIFTYBEES'', h_exchange = ''NSE'', h_asset_type = ''stock'',
               h_quantity = Fin 1, h_average_price = Fin 100, h_current_price = Fin 0,
               h_current_value = Fin 100, h_pnl = Fin 0, h_pnl_percentage = Fin 0,
               h_isin = None, h_scheme_code = None\<rparr>,
              Some \<lparr>w_symbol = ''NIFTYBEES'', missing_fields = [''quantity''],
                    row_number = Some 2, w_sheet = Some ''Sheet1'', w_message = None\<rparr>)]"
    by code_simp
  from C8_stock_sheet_asset_type[of ex_python "''Sheet1''" _ _ _ "[''Symbol'', ''Avg Price'', ''LTP'']"
      "[ex_csv_row]"] e
  have "\<forall>x\<in>set [(\<lparr>h_symbol = ''NIFTYBEES'', h_exchange = ''NSE'', h_asset_type = ''stock'',
               h_quantity = Fin 1, h_average_price = Fin 100, h_current_price = Fin 0,
               h_current_value = Fin 100, h_pnl = Fin 0, h_pnl_percentage = Fin 0,
               h_isin = None, h_scheme_code = None\<rparr>,
              Some \<lparr>w_symbol = ''NIFTYBEES'', missing_fields = [''quantity''],
                    row_number = Some 2, w_sheet = Some ''Sheet1'', w_message = None\<rparr>)].
          h_asset_type (fst x) = ''stock''
            \<and> (h_asset_type (fst x) = generic_asset_type (h_symbol (fst x))
                 \<longleftrightarrow> generic_asset_type (h_symbol (fst x)) = ''stock'')"
    by blast
  moreover have "generic_asset_type ''NIFTYBEES'' \<noteq> ''stock''"
    by (simp add: generic_asset_type_def eval_string)
  ultimately show ?thesis using e by simp
qed

subsection \<open>C9: invested value or average price\<close>

lemma invested_and_avg_cases:
  "(py_lt v (Fin 1000) \<longrightarrow>
      snd (invested_and_avg v units nav) = v
      \<and> (\<forall>u. units = Fin u \<and> 0 \<le> u \<longrightarrow> fst (invested_and_avg v units nav) = py_mul v units))
   \<and> (\<forall>x. v = Fin x \<and> 1000 \<le> x \<longrightarrow>
        fst (invested_and_avg v units nav) = v
        \<and> (py_gt units (Fin 0) \<longrightarrow>
             snd (invested_and_avg v units nav) = py_quot v units
             \<and> py_div v units = Some (py_quot v units))
        \<and> (units = Fin 0 \<longrightarrow> snd (invested_and_avg v units nav) = nav))"
  by (cases v) (auto simp: invested_and_avg_def Let_def py_gt_def py_div_positive[unfolded py_gt_def])

text \<open>
  C9. In the mutual-fund sheet parser, the number \<open>v\<close> read from the "invested value or
  average price" column is the average price when \<open>v < 1000\<close>, and the invested value is
  then \<open>v * units\<close> (for units that are a number not below 0, as the data model has them);
  when \<open>v\<close> is 1000 or more it is the invested value, the average price is
  \<open>v / units\<close> when \<open>units > 0\<close> (the division does not raise) and the NAV when units is 0.
  The emitted holding's average price is that average price, for the holding's quantity and
  current price as units and NAV, and its pnl is computed from that invested value.
\<close>

theorem C9_invested_or_average:
  "(py_lt v (Fin 1000) \<longrightarrow>
      snd (invested_and_avg v units nav) = v
      \<and> (\<forall>u. units = Fin u \<and> 0 \<le> u \<longrightarrow> fst (invested_and_avg v units nav) = py_mul v units))
   \<and> (\<forall>x. v = Fin x \<and> 1000 \<le> x \<longrightarrow>
        fst (invested_and_avg v units nav) = v
        \<and> (py_gt units (Fin 0) \<longrightarrow>
             snd (invested_and_avg v units nav) = py_quot v units
             \<and> py_div v units = Some (py_quot v units))
        \<and> (units = Fin 0 \<longrightarrow> snd (invested_and_avg v units nav) = nav))
   \<and> (\<forall>h w c. parse_mutual_fund_row P clean_name sheet_name mapping idx row = Emitted (h, w)
         \<and> field_cell mapping row ''invested_value'' = Some c
         \<and> cell_float_no_commas P c = Some v \<longrightarrow>
        h_average_price h = snd (invested_and_avg v (h_quantity h) (h_current_price h))
        \<and> h_pnl h =
            (if py_gt (fst (invested_and_avg v (h_quantity h) (h_current_price h))) (Fin 0)
             then py_sub (h_current_value h)
                    (fst (invested_and_avg v (h_quantity h) (h_current_price h)))
             else Fin 0))"
proof -
  have row: "\<forall>h w c. parse_mutual_fund_row P clean_name sheet_name mapping idx row = Emitted (h, w)
         \<and> field_cell mapping row ''invested_value'' = Some c
         \<and> cell_float_no_commas P c = Some v \<longrightarrow>
        h_average_price h = snd (invested_and_avg v (h_quantity h) (h_current_price h))
        \<and> h_pnl h =
            (if py_gt (fst (invested_and_avg v (h_quantity h) (h_current_price h))) (Fin 0)
             then py_sub (h_current_value h)
                    (fst (invested_and_avg v (h_quantity h) (h_current_price h)))
             else Fin 0)"
  proof (intro allI impI)
    fix h w c
    assume a: "parse_mutual_fund_row P clean_name sheet_name mapping idx row = Emitted (h, w)
         \<and> field_cell mapping row ''invested_value'' = Some c
         \<and> cell_float_no_commas P c = Some v"
    then obtain sc where "(h, w) = mutual_fund_holding P clean_name sheet_name mapping idx row sc"
      using parse_mutual_fund_row_Emitted by blast
    then have "h = fst (mutual_fund_holding P clean_name sheet_name mapping idx row sc)"
      by (metis fst_conv)
    with a show "h_average_price h = snd (invested_and_avg v (h_quantity h) (h_current_price h))
        \<and> h_pnl h =
            (if py_gt (fst (invested_and_avg v (h_quantity h) (h_current_price h))) (Fin 0)
             then py_sub (h_current_value h)
                    (fst (invested_and_avg v (h_quantity h) (h_current_price h)))
             else Fin 0)"
      by (simp add: mutual_fund_holding_def read_invested_def Let_def)
  qed
  from invested_and_avg_cases[of v units nav] row show ?thesis by blast
qed

theorem C9_witness:
  "py_lt (Fin 100) (Fin 1000)
   \<and> snd (invested_and_avg (Fin 100) (Fin 10) (Fin 50)) = Fin 100
   \<and> fst (invested_and_avg (Fin 100) (Fin 10) (Fin 50)) = Fin 1000
   \<and> fst (invested_and_avg (Fin 5000) (Fin 10) (Fin 50)) = Fin 5000
   \<and> snd (invested_and_avg (Fin 5000) (Fin 10) (Fin 50)) = Fin 500
   \<and> snd (invested_and_avg (Fin 5000) (Fin 0) (Fin 50)) = Fin 50
   \<and> parse_mutual_fund_row ex_python (\<lambda>n. n) ''Funds'' ex_mf_mapping 0 ex_mf_row
       = Emitted (\<lparr>h_symbol = ''Axis Bluechip Fund'', h_exchange = ''MF'',
                   h_asset_type = ''mutual_fund'', h_quantity = Fin 10,
                   h_average_price = Fin 100, h_current_price = Fin 50,
                   h_current_value = Fin 500, h_pnl = Fin (-500), h_pnl_percentage = Fin (-50),
                   h_isin = None, h_scheme_code = None\<rparr>, None)"
proof -
  note a = C9_invested_or_average[of "Fin 100" "Fin 10" "Fin 50"]
  note b = C9_invested_or_average[of "Fin 5000" "Fin 10" "Fin 50"]
  note c = C9_invested_or_average[of "Fin 5000" "Fin 0" "Fin 50"]
  have lt: "py_lt (Fin 100) (Fin 1000)" by simp
  from a lt have a1: "snd (invested_and_avg (Fin 100) (Fin 10) (Fin 50)) = Fin 100" by blast
  from a lt have "\<forall>u. Fin 10 = Fin u \<and> 0 \<le> u \<longrightarrow>
      fst (invested_and_avg (Fin 100) (Fin 10) (Fin 50)) = py_mul (Fin 100) (Fin 10)" by blast
  then have a2: "fst (invested_and_avg (Fin 100) (Fin 10) (Fin 50)) = Fin 1000" by simp
  from b have b0: "\<forall>x. Fin 5000 = Fin x \<and> 1000 \<le> x \<longrightarrow>
        fst (invested_and_avg (Fin 5000) (Fin 10) (Fin 50)) = Fin 5000
        \<and> (py_gt (Fin 10) (Fin 0) \<longrightarrow>
             snd (invested_and_avg (Fin 5000) (Fin 10) (Fin 50)) = py_quot (Fin 5000) (Fin 10)
             \<and> py_div (Fin 5000) (Fin 10) = Some (py_quot (Fin 5000) (Fin 10)))
        \<and> (Fin 10 = Fin 0 \<longrightarrow> snd (invested_and_avg (Fin 5000) (Fin 10) (Fin 50)) = Fin 50)"
    by blast
  then have b1: "fst (invested_and_avg (Fin 5000) (Fin 10) (Fin 50)) = Fin 5000"
    and b2: "snd (invested_and_avg (Fin 5000) (Fin 10) (Fin 50)) = Fin 500"
    by (simp_all add: py_gt_def)
  from c have "\<forall>x. Fin 5000 = Fin x \<and> 1000 \<le> x \<longrightarrow>
        fst (invested_and_avg (Fin 5000) (Fin 0) (Fin 50)) = Fin 5000
        \<and> (py_gt (Fin 0) (Fin 0) \<longrightarrow>
             snd (invested_and_avg (Fin 5000) (Fin 0) (Fin 50)) = py_quot (Fin 5000) (Fin 0)
             \<and> py_div (Fin 5000) (Fin 0) = Some (py_quot (Fin 5000) (Fin 0)))
        \<and> (Fin 0 = Fin 0 \<longrightarrow> snd (invested_and_avg (Fin 5000) (Fin 0) (Fin 50)) = Fin 50)"
    by blast
  then have c1: "snd (invested_and_avg (Fin 5000) (Fin 0) (Fin 50)) = Fin 50" by simp
  have r: "parse_mutual_fund_row ex_python (\<lambda>n. n) ''Funds'' ex_mf_mapping 0 ex_mf_row
       = Emitted (\<lparr>h_symbol = ''Axis Bluechip Fund'', h_exchange = ''MF'',
                   h_asset_type = ''mutual_fund'', h_quantity = Fin 10,
                   h_average_price = Fin 100, h_current_price = Fin 50,
                   h_current_value = Fin 500, h_pnl = Fin (-500), h_pnl_percentage = Fin (-50),
                   h_isin = None, h_scheme_code = None\<rparr>, None)"
    by code_simp
  from lt a1 a2 b1 b2 c1 r show ?thesis by blast
qed

subsection \<open>C10: mutual fund holdings of a PDF statement\<close>

lemma scheme_holding_Some:
  "fst (scheme_holding P R text scheme) = Some h \<Longrightarrow>
     h_average_price h = h_current_price h \<and> h_pnl h = Fin 0 \<and> h_pnl_percentage h = Fin 0"
  by (auto simp: scheme_holding_def Let_def split_beta split: option.splits if_splits)

lemma scheme_holding_nav:
  assumes "fst (scheme_holding P R text scheme) = Some h"
    and "py_find text scheme = Some pos"
    and "search_nav R (take 500 (drop pos text)) = Some g"
    and "float_no_commas P g = Some nav"
  shows "h_average_price h = nav \<and> h_current_price h = nav"
  using assms
  by (auto simp: scheme_holding_def Let_def split_beta split: if_splits)

lemma table_holding_Some:
  "table_holding P R ls = Some h \<Longrightarrow>
     h_average_price h = h_current_price h \<and> h_pnl h = Fin 0 \<and> h_pnl_percentage h = Fin 0"
  by (auto simp: table_holding_def split: list.splits option.splits if_splits)

lemma table_scan_mem:
  "h \<in> set (table_scan P R ls) \<Longrightarrow> \<exists>ls'. table_holding P R ls' = Some h"
  by (induction ls) (auto split: option.splits)

lemma map_filter_mem: "y \<in> set (List.map_filter f xs) \<Longrightarrow> \<exists>x\<in>set xs. f x = Some y"
  by (induction xs) (auto split: option.splits)

text \<open>
  C10. Every holding \<^verbatim>\<open>_parse_mutual_fund_statement\<close> emits (by the windowed search, or by
  the table scan it falls back to) has its average price equal to its current price, pnl 0
  and pnl percentage 0; and when the windowed search finds a NAV that converts, both prices
  of the scheme's holding are that NAV.
\<close>

theorem C10_average_price_is_nav:
  "(\<forall>h\<in>set (fst (parse_mutual_fund_statement P R text)).
      h_average_price h = h_current_price h \<and> h_pnl h = Fin 0 \<and> h_pnl_percentage h = Fin 0)
   \<and> (\<forall>scheme h pos g nav.
        fst (scheme_holding P R text scheme) = Some h
        \<and> py_find text scheme = Some pos
        \<and> search_nav R (take 500 (drop pos text)) = Some g
        \<and> float_no_commas P g = Some nav \<longrightarrow>
        h_average_price h = nav \<and> h_current_price h = nav)"
proof (rule conjI)
  show "\<forall>h\<in>set (fst (parse_mutual_fund_statement P R text)).
      h_average_price h = h_current_price h \<and> h_pnl h = Fin 0 \<and> h_pnl_percentage h = Fin 0"
  proof
    fix h assume h: "h \<in> set (fst (parse_mutual_fund_statement P R text))"
    let ?windowed = "List.map_filter fst (map (scheme_holding P R text) (findall_schemes R text))"
    show "h_average_price h = h_current_price h \<and> h_pnl h = Fin 0 \<and> h_pnl_percentage h = Fin 0"
    proof (cases "?windowed = []")
      case True
      with h have "h \<in> set (table_scan P R (split_lines text))"
        by (simp add: parse_mutual_fund_statement_def extract_mf_table_data_def Let_def)
      from table_scan_mem[OF this] obtain ls' where "table_holding P R ls' = Some h" by blast
      then show ?thesis by (rule table_holding_Some)
    next
      case False
      with h have "h \<in> set ?windowed"
        by (simp add: parse_mutual_fund_statement_def Let_def)
      from map_filter_mem[OF this] obtain r where
        "r \<in> set (map (scheme_holding P R text) (findall_schemes R text))" "fst r = Some h"
        by blast
      then obtain scheme where "fst (scheme_holding P R text scheme) = Some h" by auto
      then show ?thesis by (rule scheme_holding_Some)
    qed
  qed
  show "\<forall>scheme h pos g nav.
        fst (scheme_holding P R text scheme) = Some h
        \<and> py_find text scheme = Some pos
        \<and> search_nav R (take 500 (drop pos text)) = Some g
        \<and> float_no_commas P g = Some nav \<longrightarrow>
        h_average_price h = nav \<and> h_current_price h = nav"
    using scheme_holding_nav by blast
qed

theorem C10_witness:
  "parse_mutual_fund_statement ex_python ex_searches ex_text
     = ([\<lparr>h_symbol = ''Axis Bluechip Fund Units: 10 NAV: 50'', h_exchange = ''MF'',
          h_asset_type = ''mutual_fund'', h_quantity = Fin 10,
          h_average_price = Fin 50, h_current_price = Fin 50,
          h_current_value = Fin 500, h_pnl = Fin 0, h_pnl_percentage = Fin 0,
          h_isin = None, h_scheme_code = None\<rparr>], [])
   \<and> list_all (\<lambda>h. h_average_price h = h_current_price h)
        (fst (parse_mutual_fund_statement ex_python ex_searches ex_text))"
proof -
  have e: "parse_mutual_fund_statement ex_python ex_searches ex_text
     = ([\<lparr>h_symbol = ''Axis Bluechip Fund Units: 10 NAV: 50'', h_exchange = ''MF'',
          h_asset_type = ''mutual_fund'', h_quantity = Fin 10,
          h_average_price = Fin 50, h_current_price = Fin 50,
          h_current_value = Fin 500, h_pnl = Fin 0, h_pnl_percentage = Fin 0,
          h_isin = None, h_scheme_code = None\<rparr>], [])"
    by code_simp
  from C10_average_price_is_nav[of ex_python ex_searches ex_text]
  have "\<forall>h\<in>set (fst (parse_mutual_fund_statement ex_python ex_searches ex_text)).
      h_average_price h = h_current_price h" by blast
  then have "list_all (\<lambda>h. h_average_price h = h_current_price h)
        (fst (parse_mutual_fund_statement ex_python ex_searches ex_text))"
    by (simp only: list_all_iff)
  with e show ?thesis by blast
qed

subsection \<open>C3: the current value of a parsed holding\<close>

lemma zerodha_old_row_value:
  "zerodha_old_row P match_instrument idx row = Emitted h \<Longrightarrow>
     column_float P row ''Cur. val'' = Some (h_current_value h)"
  by (auto simp: zerodha_old_row_def Let_def split_beta split: option.splits)

lemma parse_mutual_fund_row_value:
  assumes "parse_mutual_fund_row P clean_name sheet_name mapping idx row = Emitted x"
  shows "h_current_value (fst x) =
           read_current_value P mapping row (h_quantity (fst x)) (h_current_price (fst x))"
proof -
  from parse_mutual_fund_row_Emitted[OF assms] obtain c where
    "x = mutual_fund_holding P clean_name sheet_name mapping idx row c" by blast
  then show ?thesis by (simp add: mutual_fund_holding_def Let_def)
qed

lemma read_current_value_cases:
  "(\<forall>c v. field_cell mapping row ''current_value'' = Some c
          \<and> cell_float_no_commas P c = Some v \<and> py_gt v (Fin 0) \<longrightarrow>
      read_current_value P mapping row units nav = v)
   \<and> (field_cell mapping row ''current_value'' = None
       \<or> (\<exists>c. field_cell mapping row ''current_value'' = Some c
             \<and> (cell_float_no_commas P c = None
                 \<or> (\<exists>v. cell_float_no_commas P c = Some v \<and> \<not> py_gt v (Fin 0)))) \<longrightarrow>
      read_current_value P mapping row units nav =
        (if py_gt nav (Fin 0) then py_mul units nav else Fin 0))"
  by (auto simp: read_current_value_def Let_def)

lemma scheme_holding_value:
  assumes "fst (scheme_holding P R text scheme) = Some h"
    and "py_gt (h_current_price h) (Fin 0) \<or> py_eq (h_current_price h) (Fin 0)"
  shows "invariant_value h"
proof -
  from assms(1) have q: "py_gt (h_quantity h) (Fin 0)"
    and a: "h_average_price h = h_current_price h"
    and v: "h_current_value h =
        (if py_gt (h_quantity h) (Fin 0) \<and> py_gt (h_current_price h) (Fin 0)
         then py_mul (h_quantity h) (h_current_price h) else Fin 0)"
    by (auto simp: scheme_holding_def Let_def split_beta split: option.splits if_splits)
  from q obtain x where x: "h_quantity h = Fin x" by (cases "h_quantity h") (auto simp: py_gt_def)
  show ?thesis
  proof (cases "py_gt (h_current_price h) (Fin 0)")
    case True
    with q v show ?thesis by (simp add: invariant_value_def)
  next
    case False
    with assms(2) have "h_current_price h = Fin 0"
      by (cases "h_current_price h") auto
    with v a x show ?thesis by (simp add: invariant_value_def py_gt_def)
  qed
qed

lemma table_holding_value: "table_holding P R ls = Some h \<Longrightarrow> invariant_value h"
  by (auto simp: table_holding_def invariant_value_def split: list.splits option.splits if_splits)

lemma demat_holding_value: "fst (demat_holding P D text m) = Some h \<Longrightarrow> invariant_value h"
proof -
  assume "fst (demat_holding P D text m) = Some h"
  then have "py_gt (h_quantity h) (Fin 0)" "h_average_price h = Fin 0" "h_current_price h = Fin 0"
    "h_current_value h = Fin 0"
    by (auto simp: demat_holding_def Let_def split_beta split: if_splits)
  then show ?thesis
    by (cases "h_quantity h") (auto simp: invariant_value_def py_gt_def)
qed

lemma generic_pdf_holding_value:
  "generic_pdf_holding P m = Some h \<Longrightarrow> h_current_price h = Fin 0 \<and> h_current_value h = Fin 0"
  by (auto simp: generic_pdf_holding_def Let_def split: option.splits if_splits)

lemma invariant_test_iff:
  "invariant_test h \<longleftrightarrow> invariant_value h \<and> h_current_value h \<noteq> NaN"
  by (cases "h_current_value h";
      cases "if py_gt (h_current_price h) (Fin 0) then py_mul (h_quantity h) (h_current_price h)
             else py_mul (h_quantity h) (h_average_price h)")
    (auto simp: invariant_test_def invariant_value_def)

lemma custom_holdings_value:
  assumes "parse_custom_holdings P mapping columns rows = Some (hs, ws)" and "h \<in> set hs"
  shows "invariant_value h"
proof -
  from assms obtain emitted m where e: "collect_rows (parse_custom_row P m) 0 rows = Some emitted"
    and hs: "hs = map fst emitted"
    by (auto simp: parse_custom_holdings_def emitted_custom_def split: if_splits option.splits)
  from assms(2) hs obtain w where "(h, w) \<in> set emitted" by auto
  from collect_rows_mem[OF e this] obtain k where "parse_custom_row P m (0 + k) (rows ! k) = Emitted (h, w)"
    by blast
  then show ?thesis by (rule parse_custom_row_value)
qed

lemma stock_sheet_value:
  assumes "parse_stock_sheet P sheet_name columns rows = Some emitted" and "x \<in> set emitted"
  shows "invariant_value (fst x)"
proof -
  from assms(1) obtain m where e: "collect_rows (parse_stock_row P sheet_name m) 0 rows = Some emitted"
    by (auto simp: parse_stock_sheet_def split: option.splits)
  from collect_rows_mem[OF e assms(2)] obtain k where
    "parse_stock_row P sheet_name m (0 + k) (rows ! k) = Emitted x" by blast
  then have "parse_stock_row P sheet_name m (0 + k) (rows ! k) = Emitted (fst x, snd x)" by simp
  then show ?thesis by (rule parse_stock_row_value)
qed

lemma mutual_fund_statement_value:
  assumes "h \<in> set (fst (parse_mutual_fund_statement P R text))"
    and "py_gt (h_current_price h) (Fin 0) \<or> py_eq (h_current_price h) (Fin 0)"
  shows "invariant_value h"
proof -
  let ?windowed = "List.map_filter fst (map (scheme_holding P R text) (findall_schemes R text))"
  show ?thesis
  proof (cases "?windowed = []")
    case True
    with assms(1) have "h \<in> set (table_scan P R (split_lines text))"
      by (simp add: parse_mutual_fund_statement_def extract_mf_table_data_def Let_def)
    from table_scan_mem[OF this] obtain ls' where "table_holding P R ls' = Some h" by blast
    then show ?thesis by (rule table_holding_value)
  next
    case False
    with assms(1) have "h \<in> set ?windowed"
      by (simp add: parse_mutual_fund_statement_def Let_def)
    from map_filter_mem[OF this] obtain r where
      "r \<in> set (map (scheme_holding P R text) (findall_schemes R text))" "fst r = Some h"
      by blast
    then obtain scheme where "fst (scheme_holding P R text scheme) = Some h" by auto
    then show ?thesis using assms(2) by (rule scheme_holding_value)
  qed
qed

lemma demat_statement_value:
  assumes "h \<in> set (fst (parse_demat_statement P D text))"
  shows "invariant_value h"
proof -
  from assms have "h \<in> set (List.map_filter fst (map (demat_holding P D text) (findall_isin D text)))"
    by (simp add: parse_demat_statement_def Let_def)
  from map_filter_mem[OF this] obtain r where
    "r \<in> set (map (demat_holding P D text) (findall_isin D text))" "fst r = Some h" by blast
  then obtain m where "fst (demat_holding P D text m) = Some h" by auto
  then show ?thesis by (rule demat_holding_value)
qed

lemma zerodha_new_value:
  assumes "''Symbol'' \<in> set columns"
    and "parse_holdings_csv P match_instrument columns rows = Some hs" and "h \<in> set hs"
  shows "h_current_value h = py_mul (h_quantity h) (h_current_price h)"
proof -
  from assms(1,2) have e: "collect_rows (zerodha_new_row P) 0 rows = Some hs"
    by (auto simp: parse_holdings_csv_def split: if_splits)
  from collect_rows_mem[OF e assms(3)] obtain k where "zerodha_new_row P (0 + k) (rows ! k) = Emitted h"
    by blast
  then show ?thesis by (rule zerodha_new_row_value)
qed

lemma zerodha_old_value:
  assumes "''Symbol'' \<notin> set columns"
    and "parse_holdings_csv P match_instrument columns rows = Some hs" and "h \<in> set hs"
  shows "\<exists>row\<in>set rows. column_float P row ''Cur. val'' = Some (h_current_value h)"
proof -
  from assms(1,2) have e: "collect_rows (zerodha_old_row P match_instrument) 0 rows = Some hs"
    by (auto simp: parse_holdings_csv_def split: if_splits)
  from collect_rows_mem[OF e assms(3)] obtain k where k: "k < length rows"
    "zerodha_old_row P match_instrument (0 + k) (rows ! k) = Emitted h"
    by blast
  from zerodha_old_row_value[OF k(2)] k(1) show ?thesis by (intro bexI[of _ "rows ! k"]) simp_all
qed

lemma mutual_fund_sheet_value:
  assumes "parse_mutual_fund_sheet P clean_name sheet_name columns rows = Some emitted"
    and "x \<in> set emitted"
  shows "\<exists>row\<in>set rows. h_current_value (fst x) =
           read_current_value P (detect_columns mf_patterns columns) row
             (h_quantity (fst x)) (h_current_price (fst x))"
proof -
  from assms(1) have e: "collect_rows
       (parse_mutual_fund_row P clean_name sheet_name (detect_columns mf_patterns columns)) 0 rows
       = Some emitted"
    by (simp add: parse_mutual_fund_sheet_def)
  from collect_rows_mem[OF e assms(2)] obtain k where k: "k < length rows"
    "parse_mutual_fund_row P clean_name sheet_name (detect_columns mf_patterns columns) (0 + k)
       (rows ! k) = Emitted x"
    by blast
  from parse_mutual_fund_row_value[OF k(2)] k(1) show ?thesis
    by (intro bexI[of _ "rows ! k"]) simp_all
qed

lemma generic_pdf_value:
  assumes "h \<in> set (fst (parse_generic_pdf P findall_triples text))"
  shows "h_current_price h = Fin 0 \<and> h_current_value h = Fin 0"
proof -
  from assms have "h \<in> set (List.map_filter (generic_pdf_holding P) (findall_triples text))"
    by (simp add: parse_generic_pdf_def Let_def)
  from map_filter_mem[OF this] obtain m where "generic_pdf_holding P m = Some h" by blast
  then show ?thesis by (rule generic_pdf_holding_value)
qed

text \<open>
  C3 as stated fails on four parsers and for blank cells. The Zerodha parser copies the
  current value of the old format from the column \<^verbatim>\<open>Cur. val\<close>, whatever quantity times
  price is, and multiplies quantity and current price in the new format also when the price
  is 0. The Excel mutual-fund sheet parser takes a positive cell of the sheet's current
  value column. The parser for other PDF documents writes 0 for the current price and the
  current value and keeps the document's price as the average price. And a blank quantity
  cell is read as NaN, which makes the current value NaN: the test \<^verbatim>\<open>==\<close> of the
  invariant is false then.
\<close>

theorem C3_counterexample:
  "parse_holdings_csv ex_python ex_match
       [''Instrument'', ''Qty.'', ''Avg. cost'', ''LTP'', ''Cur. val'', ''P&L''] [ex_old_row]
     = Some [\<lparr>h_symbol = ''RELIANCE'', h_exchange = ''NSE'', h_asset_type = ''stock'',
              h_quantity = Fin 10, h_average_price = Fin 100, h_current_price = Fin 120,
              h_current_value = Fin 1190, h_pnl = Fin 190, h_pnl_percentage = Fin 19,
              h_isin = None, h_scheme_code = None\<rparr>]
   \<and> py_gt (Fin 120) (Fin 0) \<and> py_mul (Fin 10) (Fin 120) = Fin 1200
   \<and> parse_holdings_csv ex_python ex_match
       [''Symbol'', ''Quantity Available'', ''Average Price'', ''Previous Closing Price'',
        ''Unrealized P&L'', ''Unrealized P&L Pct.''] [ex_new_row]
     = Some [\<lparr>h_symbol = ''INFY'', h_exchange = ''NSE'', h_asset_type = ''stock'',
              h_quantity = Fin 10, h_average_price = Fin 100, h_current_price = Fin 0,
              h_current_value = Fin 0, h_pnl = Fin 0, h_pnl_percentage = Fin 0,
              h_isin = None, h_scheme_code = None\<rparr>]
   \<and> \<not> py_gt (Fin 0) (Fin 0) \<and> py_mul (Fin 10) (Fin 100) = Fin 1000
   \<and> parse_mutual_fund_sheet ex_python (\<lambda>n. n) ''Funds''
       [''Scheme Name'', ''Units'', ''NAV'', ''Current Value''] [ex_mf_row2]
     = Some [(\<lparr>h_symbol = ''Axis Bluechip Fund'', h_exchange = ''MF'',
               h_asset_type = ''mutual_fund'', h_quantity = Fin 10,
               h_average_price = Fin 0, h_current_price = Fin 50,
               h_current_value = Fin 100, h_pnl = Fin 0, h_pnl_percentage = Fin 0,
               h_isin = None, h_scheme_code = None\<rparr>, None)]
   \<and> py_gt (Fin 50) (Fin 0) \<and> py_mul (Fin 10) (Fin 50) = Fin 500
   \<and> parse_generic_pdf ex_python ex_triples ''INFY 10 100.0''
     = ([\<lparr>h_symbol = ''INFY'', h_exchange = ''NSE'', h_asset_type = ''stock'',
          h_quantity = Fin 10, h_average_price = Fin 100,
          h_current_price = Fin 0, h_current_value = Fin 0, h_pnl = Fin 0,
          h_pnl_percentage = Fin 0, h_isin = None, h_scheme_code = None\<rparr>], [])
   \<and> parse_custom_holdings ex_python [] [''Symbol'', ''Quantity'', ''Avg Price''] [ex_csv_row4]
     = Some ([\<lparr>h_symbol = ''INFY'', h_exchange = ''NSE'', h_asset_type = ''stock'',
               h_quantity = NaN, h_average_price = Fin 100, h_current_price = Fin 0,
               h_current_value = NaN, h_pnl = NaN, h_pnl_percentage = Fin 0,
               h_isin = None, h_scheme_code = None\<rparr>], [])
   \<and> \<not> py_eq NaN (py_mul NaN (Fin 100))"
proof -
  have z: "parse_holdings_csv ex_python ex_match
       [''Instrument'', ''Qty.'', ''Avg. cost'', ''LTP'', ''Cur. val'', ''P&L''] [ex_old_row]
     = Some [\<lparr>h_symbol = ''RELIANCE'', h_exchange = ''NSE'', h_asset_type = ''stock'',
              h_quantity = Fin 10, h_average_price = Fin 100, h_current_price = Fin 120,
              h_current_value = Fin 1190, h_pnl = Fin 190, h_pnl_percentage = Fin 19,
              h_isin = None, h_scheme_code = None\<rparr>]
   \<and> py_gt (Fin 120) (Fin 0) \<and> py_mul (Fin 10) (Fin 120) = Fin 1200
   \<and> parse_holdings_csv ex_python ex_match
       [''Symbol'', ''Quantity Available'', ''Average Price'', ''Previous Closing Price'',
        ''Unrealized P&L'', ''Unrealized P&L Pct.''] [ex_new_row]
     = Some [\<lparr>h_symbol = ''INFY'', h_exchange = ''NSE'', h_asset_type = ''stock'',
              h_quantity = Fin 10, h_average_price = Fin 100, h_current_price = Fin 0,
              h_current_value = Fin 0, h_pnl = Fin 0, h_pnl_percentage = Fin 0,
              h_isin = None, h_scheme_code = None\<rparr>]
   \<and> \<not> py_gt (Fin 0) (Fin 0) \<and> py_mul (Fin 10) (Fin 100) = Fin 1000"
    by (simp add: parse_holdings_csv_def zerodha_old_row_def zerodha_new_row_def eval_rows
        zerodha_old_asset_type_eq zerodha_asset_type_chain eval_string ETF_SYMBOL_MAPPINGS_def)
  have m: "parse_mutual_fund_sheet ex_python (\<lambda>n. n) ''Funds''
       [''Scheme Name'', ''Units'', ''NAV'', ''Current Value''] [ex_mf_row2]
     = Some [(\<lparr>h_symbol = ''Axis Bluechip Fund'', h_exchange = ''MF'',
               h_asset_type = ''mutual_fund'', h_quantity = Fin 10,
               h_average_price = Fin 0, h_current_price = Fin 50,
               h_current_value = Fin 100, h_pnl = Fin 0, h_pnl_percentage = Fin 0,
               h_isin = None, h_scheme_code = None\<rparr>, None)]"
    by code_simp
  have g: "parse_generic_pdf ex_python ex_triples ''INFY 10 100.0''
     = ([\<lparr>h_symbol = ''INFY'', h_exchange = ''NSE'', h_asset_type = ''stock'',
          h_quantity = Fin 10, h_average_price = Fin 100,
          h_current_price = Fin 0, h_current_value = Fin 0, h_pnl = Fin 0,
          h_pnl_percentage = Fin 0, h_isin = None, h_scheme_code = None\<rparr>], [])"
    by code_simp
  have n: "parse_custom_holdings ex_python [] [''Symbol'', ''Quantity'', ''Avg Price''] [ex_csv_row4]
     = Some ([\<lparr>h_symbol = ''INFY'', h_exchange = ''NSE'', h_asset_type = ''stock'',
               h_quantity = NaN, h_average_price = Fin 100, h_current_price = Fin 0,
               h_current_value = NaN, h_pnl = NaN, h_pnl_percentage = Fin 0,
               h_isin = None, h_scheme_code = None\<rparr>], [])"
    by code_simp
  have p: "py_gt (Fin 50) (Fin 0) \<and> py_mul (Fin 10) (Fin 50) = Fin 500
     \<and> \<not> py_eq NaN (py_mul NaN (Fin 100))"
    by (simp add: py_gt_def)
  from z m g n p show ?thesis by (simp only: simp_thms)
qed

text \<open>
  C3 (amended). Every holding emitted by the generic CSV parser, by the Excel stock-sheet
  parser, by the PDF demat parser and by the PDF mutual-fund parser (there for a current
  price that is not negative) has \<open>current_value = quantity * current_price\<close> when
  \<open>current_price > 0\<close>, and \<open>current_value = quantity * average_price\<close> otherwise: the two
  are the same value, and Python's \<^verbatim>\<open>==\<close> holds between them exactly when that value is not
  NaN. Every holding emitted by the Zerodha parser for the new format has
  \<open>current_value = quantity * current_price\<close>, whatever the price; for the old format the
  current value is the number of the row's column \<^verbatim>\<open>Cur. val\<close>. The Excel mutual-fund
  sheet parser takes the cell of the sheet's current value column when it is a positive
  number, and otherwise units times NAV when the NAV is positive and 0 when it is not. The
  parser for other PDF documents sets the current price and the current value to 0.
\<close>

theorem C3_current_value:
  "(\<forall>hs ws. parse_custom_holdings P mapping columns rows = Some (hs, ws) \<longrightarrow>
      (\<forall>h\<in>set hs. invariant_value h))
   \<and> (\<forall>emitted. parse_stock_sheet P sheet_name columns rows = Some emitted \<longrightarrow>
      (\<forall>x\<in>set emitted. invariant_value (fst x)))
   \<and> (\<forall>h\<in>set (fst (parse_demat_statement P D text)). invariant_value h)
   \<and> (\<forall>h\<in>set (fst (parse_mutual_fund_statement P R text)).
        py_gt (h_current_price h) (Fin 0) \<or> py_eq (h_current_price h) (Fin 0) \<longrightarrow>
        invariant_value h)
   \<and> (\<forall>h. invariant_value h \<longleftrightarrow>
        h_current_value h =
          (if py_gt (h_current_price h) (Fin 0) then py_mul (h_quantity h) (h_current_price h)
           else py_mul (h_quantity h) (h_average_price h)))
   \<and> (\<forall>h. invariant_test h \<longleftrightarrow> invariant_value h \<and> h_current_value h \<noteq> NaN)
   \<and> (\<forall>hs. ''Symbol'' \<in> set columns
        \<and> parse_holdings_csv P match_instrument columns rows = Some hs \<longrightarrow>
      (\<forall>h\<in>set hs. h_current_value h = py_mul (h_quantity h) (h_current_price h)))
   \<and> (\<forall>hs. ''Symbol'' \<notin> set columns
        \<and> parse_holdings_csv P match_instrument columns rows = Some hs \<longrightarrow>
      (\<forall>h\<in>set hs. \<exists>row\<in>set rows. column_float P row ''Cur. val'' = Some (h_current_value h)))
   \<and> (\<forall>emitted. parse_mutual_fund_sheet P clean_name sheet_name columns rows = Some emitted \<longrightarrow>
      (\<forall>x\<in>set emitted. \<exists>row\<in>set rows.
         h_current_value (fst x) =
           read_current_value P (detect_columns mf_patterns columns) row
             (h_quantity (fst x)) (h_current_price (fst x))))
   \<and> (\<forall>m row units nav.
        (\<forall>c v. field_cell m row ''current_value'' = Some c
              \<and> cell_float_no_commas P c = Some v \<and> py_gt v (Fin 0) \<longrightarrow>
           read_current_value P m row units nav = v)
        \<and> (field_cell m row ''current_value'' = None
            \<or> (\<exists>c. field_cell m row ''current_value'' = Some c
                  \<and> (cell_float_no_commas P c = None
                      \<or> (\<exists>v. cell_float_no_commas P c = Some v \<and> \<not> py_gt v (Fin 0)))) \<longrightarrow>
           read_current_value P m row units nav =
             (if py_gt nav (Fin 0) then py_mul units nav else Fin 0)))
   \<and> (\<forall>h\<in>set (fst (parse_generic_pdf P findall_triples text)).
        h_current_price h = Fin 0 \<and> h_current_value h = Fin 0)"
proof (intro conjI)
  show "\<forall>hs ws. parse_custom_holdings P mapping columns rows = Some (hs, ws) \<longrightarrow>
      (\<forall>h\<in>set hs. invariant_value h)"
    using custom_holdings_value by blast
  show "\<forall>emitted. parse_stock_sheet P sheet_name columns rows = Some emitted \<longrightarrow>
      (\<forall>x\<in>set emitted. invariant_value (fst x))"
    using stock_sheet_value by blast
  show "\<forall>h\<in>set (fst (parse_demat_statement P D text)). invariant_value h"
    using demat_statement_value by blast
  show "\<forall>h\<in>set (fst (parse_mutual_fund_statement P R text)).
        py_gt (h_current_price h) (Fin 0) \<or> py_eq (h_current_price h) (Fin 0) \<longrightarrow>
        invariant_value h"
    using mutual_fund_statement_value by blast
  show "\<forall>h. invariant_value h \<longleftrightarrow>
        h_current_value h =
          (if py_gt (h_current_price h) (Fin 0) then py_mul (h_quantity h) (h_current_price h)
           else py_mul (h_quantity h) (h_average_price h))"
    by (simp add: invariant_value_def)
  show "\<forall>h. invariant_test h \<longleftrightarrow> invariant_value h \<and> h_current_value h \<noteq> NaN"
    using invariant_test_iff by blast
  show "\<forall>hs. ''Symbol'' \<in> set columns
        \<and> parse_holdings_csv P match_instrument columns rows = Some hs \<longrightarrow>
      (\<forall>h\<in>set hs. h_current_value h = py_mul (h_quantity h) (h_current_price h))"
    using zerodha_new_value by blast
  show "\<forall>hs. ''Symbol'' \<notin> set columns
        \<and> parse_holdings_csv P match_instrument columns rows = Some hs \<longrightarrow>
      (\<forall>h\<in>set hs. \<exists>row\<in>set rows. column_float P row ''Cur. val'' = Some (h_current_value h))"
    using zerodha_old_value by blast
  show "\<forall>emitted. parse_mutual_fund_sheet P clean_name sheet_name columns rows = Some emitted \<longrightarrow>
      (\<forall>x\<in>set emitted. \<exists>row\<in>set rows.
         h_current_value (fst x) =
           read_current_value P (detect_columns mf_patterns columns) row
             (h_quantity (fst x)) (h_current_price (fst x)))"
    using mutual_fund_sheet_value by blast
  show "\<forall>m row units nav.
        (\<forall>c v. field_cell m row ''current_value'' = Some c
              \<and> cell_float_no_commas P c = Some v \<and> py_gt v (Fin 0) \<longrightarrow>
           read_current_value P m row units nav = v)
        \<and> (field_cell m row ''current_value'' = None
            \<or> (\<exists>c. field_cell m row ''current_value'' = Some c
                  \<and> (cell_float_no_commas P c = None
                      \<or> (\<exists>v. cell_float_no_commas P c = Some v \<and> \<not> py_gt v (Fin 0)))) \<longrightarrow>
           read_current_value P m row units nav =
             (if py_gt nav (Fin 0) then py_mul units nav else Fin 0))"
    using read_current_value_cases by blast
  show "\<forall>h\<in>set (fst (parse_generic_pdf P findall_triples text)).
        h_current_price h = Fin 0 \<and> h_current_value h = Fin 0"
    using generic_pdf_value by blast
qed

theorem C3_witness:
  "parse_custom_holdings ex_python [] [''Symbol'', ''Avg Price'', ''LTP''] [ex_csv_row]
     = Some ([\<lparr>h_symbol = ''NIFTYBEES'', h_exchange = ''NSE'', h_asset_type = ''etf'',
               h_quantity = Fin 1, h_average_price = Fin 100, h_current_price = Fin 0,
               h_current_value = Fin 100, h_pnl = Fin 0, h_pnl_percentage = Fin 0,
               h_isin = None, h_scheme_code = None\<rparr>],
             [\<lparr>w_symbol = ''NIFTYBEES'', missing_fields = [''quantity''], row_number = Some 2,
               w_sheet = None, w_message = None\<rparr>])
   \<and> invariant_value
        \<lparr>h_symbol = ''NIFTYBEES'', h_exchange = ''NSE'', h_asset_type = ''etf'',
         h_quantity = Fin 1, h_average_price = Fin 100, h_current_price = Fin 0,
         h_current_value = Fin 100, h_pnl = Fin 0, h_pnl_percentage = Fin 0,
         h_isin = None, h_scheme_code = None\<rparr>
   \<and> invariant_test
        \<lparr>h_symbol = ''NIFTYBEES'', h_exchange = ''NSE'', h_asset_type = ''etf'',
         h_quantity = Fin 1, h_average_price = Fin 100, h_current_price = Fin 0,
         h_current_value = Fin 100, h_pnl = Fin 0, h_pnl_percentage = Fin 0,
         h_isin = None, h_scheme_code = None\<rparr>
   \<and> Fin 100 = (if py_gt (Fin 0) (Fin 0) then py_mul (Fin 1) (Fin 0) else py_mul (Fin 1) (Fin 100))"
proof -
  let ?h = "\<lparr>h_symbol = ''NIFTYBEES'', h_exchange = ''NSE'', h_asset_type = ''etf'',
               h_quantity = Fin 1, h_average_price = Fin 100, h_current_price = Fin 0,
               h_current_value = Fin 100, h_pnl = Fin 0, h_pnl_percentage = Fin 0,
               h_isin = None, h_scheme_code = None\<rparr>"
  have e: "parse_custom_holdings ex_python [] [''Symbol'', ''Avg Price'', ''LTP''] [ex_csv_row]
     = Some ([?h],
             [\<lparr>w_symbol = ''NIFTYBEES'', missing_fields = [''quantity''], row_number = Some 2,
               w_sheet = None, w_message = None\<rparr>])"
    by code_simp
  note c = C3_current_value[where P = ex_python and mapping = "[]"
      and columns = "[''Symbol'', ''Avg Price'', ''LTP'']" and rows = "[ex_csv_row]"]
  note generic = c[THEN conjunct1, rule_format]
  note unfolded = c[THEN conjunct2, THEN conjunct2, THEN conjunct2, THEN conjunct2,
      THEN conjunct1, rule_format]
  note test = c[THEN conjunct2, THEN conjunct2, THEN conjunct2, THEN conjunct2,
      THEN conjunct2, THEN conjunct1, rule_format]
  have i: "invariant_value ?h"
    by (rule generic[OF e]) simp
  from i unfolded[of ?h] have v: "Fin 100 =
      (if py_gt (Fin 0) (Fin 0) then py_mul (Fin 1) (Fin 0) else py_mul (Fin 1) (Fin 100))"
    by (simp add: py_gt_def)
  from i test[of ?h] have t: "invariant_test ?h" by simp
  from e i t v show ?thesis by (simp only: simp_thms)
qed

end
